theory Spec2Isabelle
  imports Complex_Main
begin

section \<open>Python values\<close>

text \<open>
  Conventions of the embedding.
  \<^item> A Python \<open>float\<close> of the rain, heat and cold computations is an \<open>fval\<close>: a real
    number, an infinity or NaN. Every arithmetic operation on them rounds its exact
    result to the nearest IEEE binary64 number, ties to even, with gradual underflow
    and overflow to an infinity (\<open>round_double\<close>); a comparison with NaN is false. The
    sign of a zero is not modelled: no result here depends on it.
  \<^item> The terrain figures that the raster sampler returns (elevation, relief, slope) are
    the finite pixel values as reals; the sampler and the terrain bands only compare
    them and take differences of two of them. The weighted sum of the three integer
    bands in \<open>_combined_risk_score\<close> is taken over the reals as well.
  \<^item> \<open>None\<close> is \<open>None\<close> of an option type.
  \<^item> A \<open>datetime\<close> is an \<open>int\<close>, the microseconds since the epoch; \<open>hour_us\<close> is
    \<open>timedelta(hours=1)\<close>.
  \<^item> A \<open>str\<close> is the list of its code points.
  \<^item> An exception is \<open>Inl\<close> of a sum type.
  \<^item> Source names starting with an underscore lose it (\<open>_clamp\<close> is \<open>clamp\<close>).
  \<^item> Vietnamese headlines are written without diacritics; the formatted description
    of a hazard is kept as the number it interpolates, its advice list is left out.
\<close>

datatype error = RuntimeError | LibraryError | IndexError | OverflowError | ValueError | TypeError

definition bindE :: "error + 'a \<Rightarrow> ('a \<Rightarrow> error + 'b) \<Rightarrow> error + 'b" where
  "bindE m f = (case m of Inl e \<Rightarrow> Inl e | Inr x \<Rightarrow> f x)"

text \<open>Python 3 \<open>round(x)\<close> on a float: to the nearest integer, ties to the even one.\<close>

definition py_round :: "real \<Rightarrow> int" where
  "py_round x =
     (let f = \<lfloor>x\<rfloor>; d = x - of_int f
      in if d < 1 / 2 then f else if 1 / 2 < d then f + 1
         else if even f then f else f + 1)"

definition hour_us :: int where
  "hour_us = 3600000000"

datatype fval = Fin real | PInf | NInf | NaN


section \<open>Binary64 arithmetic\<close>

text \<open>
  \<open>exponent x\<close> is the \<open>e\<close> with \<open>2^e <= |x| < 2^(e+1)\<close>. \<open>rd x\<close> is the binary64 number
  nearest to \<open>x\<close>: a multiple of \<open>2^(e-52)\<close>, where \<open>e\<close> is the exponent of \<open>x\<close> but not
  below \<open>-1022\<close> (the subnormal range), chosen by rounding to nearest, ties to even.
  \<open>round_double\<close> adds the overflow to an infinity.
\<close>

definition pow2 :: "int \<Rightarrow> real" where
  "pow2 k = (if 0 \<le> k then 2 ^ nat k else 1 / 2 ^ nat (- k))"

function expo_up :: "real \<Rightarrow> int" where
  "expo_up x = (if x < 2 then 0 else 1 + expo_up (x / 2))"
  by pat_completeness auto
termination
proof (relation "measure (\<lambda>x. nat \<lceil>x\<rceil>)")
  show "wf (measure (\<lambda>x. nat \<lceil>x\<rceil>))" by simp
next
  fix x :: real
  assume "\<not> x < 2"
  then have "x / 2 \<le> x - 1" by simp
  then have "\<lceil>x / 2\<rceil> \<le> \<lceil>x - 1\<rceil>" by (rule ceiling_mono)
  also have "\<dots> = \<lceil>x\<rceil> - 1" by simp
  finally have "\<lceil>x / 2\<rceil> < \<lceil>x\<rceil>" by simp
  moreover have "0 < \<lceil>x\<rceil>" using \<open>\<not> x < 2\<close> by (simp add: ceiling_less_iff)
  ultimately show "(x / 2, x) \<in> measure (\<lambda>x. nat \<lceil>x\<rceil>)" by simp
qed

function expo_down :: "real \<Rightarrow> int" where
  "expo_down x = (if 1 \<le> x \<or> x \<le> 0 then 0 else expo_down (2 * x) - 1)"
  by pat_completeness auto
termination
proof (relation "measure (\<lambda>x. nat \<lceil>1 / x\<rceil>)")
  show "wf (measure (\<lambda>x. nat \<lceil>1 / x\<rceil>))" by simp
next
  fix x :: real
  assume a: "\<not> (1 \<le> x \<or> x \<le> 0)"
  then have x: "0 < x" "x < 1" by simp_all
  then have y: "1 < 1 / x" by simp
  then have c: "2 \<le> \<lceil>1 / x\<rceil>" by (simp add: le_ceiling_iff)
  have "\<lceil>1 / (2 * x)\<rceil> < \<lceil>1 / x\<rceil>"
  proof (cases "1 / x \<le> 2")
    case True
    then have "1 / (2 * x) \<le> 1" using x by (simp add: field_simps)
    then have "\<lceil>1 / (2 * x)\<rceil> \<le> 1" by (simp add: ceiling_le_iff)
    with c show ?thesis by linarith
  next
    case False
    then have "1 / (2 * x) \<le> 1 / x - 1" using x by (simp add: field_simps)
    then have "\<lceil>1 / (2 * x)\<rceil> \<le> \<lceil>1 / x - 1\<rceil>" by (rule ceiling_mono)
    also have "\<dots> = \<lceil>1 / x\<rceil> - 1" by simp
    finally show ?thesis by simp
  qed
  with c x show "(2 * x, x) \<in> measure (\<lambda>x. nat \<lceil>1 / x\<rceil>)" by simp
qed

declare expo_up.simps [simp del] expo_down.simps [simp del]

definition exponent :: "real \<Rightarrow> int" where
  "exponent x = (if 1 \<le> \<bar>x\<bar> then expo_up \<bar>x\<bar> else expo_down \<bar>x\<bar>)"

definition rd :: "real \<Rightarrow> real" where
  "rd x = (if x = 0 then 0
           else (let e = max (exponent x) (- 1022); q = pow2 (e - 52)
                 in of_int (py_round (x / q)) * q))"

definition round_double :: "real \<Rightarrow> fval" where
  "round_double x =
     (if pow2 1024 \<le> \<bar>rd x\<bar> then (if 0 < x then PInf else NInf) else Fin (rd x))"

text \<open>A decimal literal of the source, such as \<open>0.6\<close>.\<close>

definition lit :: "real \<Rightarrow> fval" where
  "lit q = round_double q"

fun fneg :: "fval \<Rightarrow> fval" where
  "fneg (Fin x) = Fin (- x)"
| "fneg PInf = NInf"
| "fneg NInf = PInf"
| "fneg NaN = NaN"

fun fadd :: "fval \<Rightarrow> fval \<Rightarrow> fval" where
  "fadd (Fin x) (Fin y) = round_double (x + y)"
| "fadd NaN _ = NaN"
| "fadd _ NaN = NaN"
| "fadd PInf NInf = NaN"
| "fadd NInf PInf = NaN"
| "fadd PInf _ = PInf"
| "fadd _ PInf = PInf"
| "fadd NInf _ = NInf"
| "fadd _ NInf = NInf"

definition fsub :: "fval \<Rightarrow> fval \<Rightarrow> fval" where
  "fsub a b = fadd a (fneg b)"

fun fmul :: "fval \<Rightarrow> fval \<Rightarrow> fval" where
  "fmul (Fin x) (Fin y) = round_double (x * y)"
| "fmul NaN _ = NaN"
| "fmul _ NaN = NaN"
| "fmul (Fin x) b = (if x = 0 then NaN else if 0 < x then b else fneg b)"
| "fmul a (Fin y) = (if y = 0 then NaN else if 0 < y then a else fneg a)"
| "fmul a b = (if a = b then PInf else NInf)"

text \<open>\<open>a / c\<close> for a constant \<open>c > 0\<close>.\<close>

fun fdiv_by :: "fval \<Rightarrow> real \<Rightarrow> fval" where
  "fdiv_by (Fin x) c = round_double (x / c)"
| "fdiv_by a c = a"

text \<open>\<open>a < b\<close> and \<open>a <= b\<close>; \<open>a > b\<close> is \<open>flt b a\<close> and \<open>a >= b\<close> is \<open>fle b a\<close>.\<close>

fun flt :: "fval \<Rightarrow> fval \<Rightarrow> bool" where
  "flt (Fin x) (Fin y) = (x < y)"
| "flt NaN _ = False"
| "flt _ NaN = False"
| "flt NInf b = (b \<noteq> NInf)"
| "flt a PInf = (a \<noteq> PInf)"
| "flt _ _ = False"

fun fle :: "fval \<Rightarrow> fval \<Rightarrow> bool" where
  "fle (Fin x) (Fin y) = (x \<le> y)"
| "fle NaN _ = False"
| "fle _ NaN = False"
| "fle NInf _ = True"
| "fle _ PInf = True"
| "fle _ _ = False"

text \<open>\<open>max(a, b)\<close> and \<open>min(a, b)\<close> of Python keep the first argument unless the second
  is strictly greater, or smaller: \<open>max(0.0, nan)\<close> is \<open>0.0\<close>, \<open>min(100.0, nan)\<close> is
  \<open>100.0\<close>.\<close>

definition py_max :: "fval \<Rightarrow> fval \<Rightarrow> fval" where
  "py_max a b = (if flt a b then b else a)"

definition py_min :: "fval \<Rightarrow> fval \<Rightarrow> fval" where
  "py_min a b = (if flt b a then b else a)"

text \<open>
  \<open>v ** w\<close> on floats, for an exponent \<open>w > 0\<close> (the code has \<open>** 2\<close> and \<open>** 0.16\<close>).
  Python answers for the special bases itself and calls \<open>pow\<close> of the C library for the
  others. That function need not round correctly, so it is a parameter:
  \<open>c_pow lm x w\<close> is what \<open>pow(x, w)\<close> returns for a finite \<open>x > 0\<close>. An infinite result
  raises \<open>OverflowError\<close>. A negative base with a fractional exponent gives a complex
  number; the one caller that has a fractional exponent compares the result with a
  float, and the \<open>TypeError\<close> of that comparison is raised here.
\<close>

record libm =
  c_pow :: "real \<Rightarrow> real \<Rightarrow> fval"

definition is_integer :: "real \<Rightarrow> bool" where
  "is_integer w = (of_int \<lfloor>w\<rfloor> = w)"

definition is_odd_integer :: "real \<Rightarrow> bool" where
  "is_odd_integer w = (is_integer w \<and> odd \<lfloor>w\<rfloor>)"

definition float_pow :: "libm \<Rightarrow> fval \<Rightarrow> real \<Rightarrow> error + fval" where
  "float_pow lm v w =
     (case v of
        NaN \<Rightarrow> Inr NaN
      | PInf \<Rightarrow> Inr PInf
      | NInf \<Rightarrow> Inr (if is_odd_integer w then NInf else PInf)
      | Fin x \<Rightarrow>
          if x = 0 then Inr (Fin 0)
          else if x < 0 \<and> \<not> is_integer w then Inl TypeError
          else if \<bar>x\<bar> = 1 then Inr (Fin (if x < 0 \<and> is_odd_integer w then - 1 else 1))
          else (case c_pow lm \<bar>x\<bar> w of
                  Fin y \<Rightarrow> Inr (Fin (if x < 0 \<and> is_odd_integer w then - y else y))
                | NaN \<Rightarrow> Inl ValueError
                | _ \<Rightarrow> Inl OverflowError))"

text \<open>A C library whose \<open>pow\<close> rounds correctly, to run the model on concrete inputs.\<close>

definition libm_cr :: libm where
  "libm_cr = \<lparr> c_pow = (\<lambda>x w. round_double (x powr w)) \<rparr>"

section \<open>api/views\_flood.py\<close>

definition RISK_LEVELS :: "string list" where
  "RISK_LEVELS = [''NONE'', ''LOW'', ''MEDIUM'', ''HIGH'', ''EXTREME'']"

definition safe_float :: "'a option \<Rightarrow> 'a \<Rightarrow> 'a" where
  "safe_float x dflt = (case x of None \<Rightarrow> dflt | Some v \<Rightarrow> v)"

definition clamp :: "'a::linorder \<Rightarrow> 'a \<Rightarrow> 'a \<Rightarrow> 'a" where
  "clamp x lo hi = max lo (min hi x)"

definition effective_rain_1h :: "fval option \<Rightarrow> fval" where
  "effective_rain_1h rain_1h = py_max (Fin 0) (safe_float rain_1h (Fin 0))"

definition effective_rain_3h :: "fval option \<Rightarrow> fval option \<Rightarrow> fval" where
  "effective_rain_3h rain_1h rain_3h =
     (let r1 = py_max (Fin 0) (safe_float rain_1h (Fin 0));
          r3 = py_max (Fin 0) (safe_float rain_3h (Fin 0));
          extra_3h = py_max (Fin 0) (fsub r3 r1)
      in py_max (Fin 0) (fadd r1 (fmul (lit 0.6) extra_3h)))"

definition effective_rain_6h :: "fval option \<Rightarrow> fval option \<Rightarrow> fval option \<Rightarrow> fval" where
  "effective_rain_6h rain_1h rain_3h rain_6h =
     (let r1 = py_max (Fin 0) (safe_float rain_1h (Fin 0));
          r3 = py_max (Fin 0) (safe_float rain_3h (Fin 0));
          r6 = py_max (Fin 0) (safe_float rain_6h (Fin 0));
          extra_3h = py_max (Fin 0) (fsub r3 r1);
          extra_6h = py_max (Fin 0) (fsub r6 r3)
      in py_max (Fin 0) (fadd (fadd r1 (fmul (lit 0.6) extra_3h)) (fmul (lit 0.4) extra_6h)))"

definition rain_band_from_eff6 :: "fval option \<Rightarrow> int" where
  "rain_band_from_eff6 eff_6h =
     (let e = py_max (Fin 0) (safe_float eff_6h (Fin 0))
      in if flt e (Fin 0.5) then 0 else if flt e (Fin 5) then 1 else if flt e (Fin 15) then 2
         else if flt e (Fin 30) then 3 else 4)"

definition terrain_band_from_relief_local :: "real option \<Rightarrow> int" where
  "terrain_band_from_relief_local relief_local_m =
     (let r = max 0 (safe_float relief_local_m 1000000000)
      in if r \<ge> 30 then 0 else if r \<ge> 10 then 1 else if r \<ge> 3 then 2
         else if r \<ge> 1 then 3 else 4)"

definition elevation_band :: "real option \<Rightarrow> int" where
  "elevation_band elev_m =
     (let e = safe_float elev_m 99999
      in if e < 5 then 4 else if e < 20 then 3 else if e < 80 then 2
         else if e < 200 then 1 else 0)"

definition slope_like_penalty :: "real option \<Rightarrow> int" where
  "slope_like_penalty slope_like_m =
     (let s = max 0 (safe_float slope_like_m 0)
      in if s \<ge> 80 then 2 else if s \<ge> 30 then 1 else 0)"

definition combined_risk_score :: "int \<Rightarrow> int \<Rightarrow> int \<Rightarrow> int \<Rightarrow> int" where
  "combined_risk_score rain_band0 relief_band0 elev_band0 slope_pen0 =
     (let rain_band = clamp rain_band0 0 4;
          relief_band = clamp relief_band0 0 4;
          elev_band = clamp elev_band0 0 4;
          slope_pen = clamp slope_pen0 0 2;
          raw = 0.70 * of_int rain_band + 0.20 * of_int relief_band + 0.10 * of_int elev_band;
          score = py_round raw;
          score = score - slope_pen
      in clamp score 0 4)"

text \<open>\<open>RISK_LEVELS[int(score)]\<close>: a negative index counts from the end, an index out
  of range raises.\<close>

definition risk_level_at :: "int \<Rightarrow> error + string" where
  "risk_level_at i =
     (if 0 \<le> i \<and> i < int (length RISK_LEVELS) then Inr (RISK_LEVELS ! nat i)
      else if i < 0 \<and> - int (length RISK_LEVELS) \<le> i
        then Inr (RISK_LEVELS ! nat (int (length RISK_LEVELS) + i))
      else Inl IndexError)"

section \<open>api/dem\_utils.py\<close>

text \<open>
  The raster library is outside the repository. A dataset is the record of what the code
  reads from it: \<open>ds.crs is not None\<close>, \<open>ds.height\<close>, \<open>ds.width\<close>, \<open>ds.nodata\<close>, and the
  calls \<open>ds.index(x, y)\<close>, \<open>ds.read(1, window=...)\<close> and \<open>ds.sample([(x, y)])\<close>, each of
  which may raise. An array is its shape and its cells. A sampled item is
  \<open>float(vals[0])\<close>, or \<open>None\<close> when that conversion raises.
\<close>

record array2 =
  shape0 :: nat
  shape1 :: nat
  cell :: "nat \<Rightarrow> nat \<Rightarrow> fval"

record dataset =
  ds_crs_present :: bool
  ds_height :: int
  ds_width :: int
  ds_nodata :: "fval option"
  ds_index :: "fval \<Rightarrow> fval \<Rightarrow> error + (int \<times> int)"
  ds_read :: "(int \<times> int) \<times> (int \<times> int) \<Rightarrow> error + array2"
  ds_sample :: "fval \<Rightarrow> fval \<Rightarrow> error + fval option list"

type_synonym transformer = "real \<Rightarrow> real \<Rightarrow> error + (fval \<times> fval)"

text \<open>
  What \<open>_get_dem\<close> finds when it runs: whether \<open>rasterio\<close> and \<open>pyproj\<close> were imported,
  whether \<open>DEM_PATH\<close> exists, what \<open>rasterio.open\<close> and \<open>Transformer.from_crs\<close> return.
  The module caches the opened pair in two globals; the world does not change during a
  request, so the cached pair is the pair a fresh call computes and the cache is left
  out.
\<close>

record dem_world =
  libs_available :: bool
  dem_file_exists :: bool
  dem_open :: "error + dataset"
  transformer_from_crs :: "error + transformer"

definition get_dem :: "dem_world \<Rightarrow> error + (dataset \<times> transformer)" where
  "get_dem w =
     (if \<not> libs_available w then Inl RuntimeError
      else if \<not> dem_file_exists w then Inl RuntimeError
      else bindE (dem_open w) (\<lambda>ds.
        if \<not> ds_crs_present ds then Inl RuntimeError
        else bindE (transformer_from_crs w) (\<lambda>tr. Inr (ds, tr))))"

text \<open>\<open>val == ds.nodata\<close> for a finite \<open>val\<close>.\<close>

definition is_nodata :: "fval option \<Rightarrow> real \<Rightarrow> bool" where
  "is_nodata nodata val = (nodata = Some (Fin val))"

definition sample_single :: "dataset \<Rightarrow> fval \<Rightarrow> fval \<Rightarrow> error + real option" where
  "sample_single ds x y =
     bindE (ds_sample ds x y) (\<lambda>items.
       case items of
         [] \<Rightarrow> Inr None
       | vals # _ \<Rightarrow>
           (case vals of
              None \<Rightarrow> Inr None
            | Some (Fin val) \<Rightarrow> if is_nodata (ds_nodata ds) val then Inr None else Inr (Some val)
            | Some _ \<Rightarrow> Inr None))"

definition sample_elevation :: "dem_world \<Rightarrow> real \<Rightarrow> real \<Rightarrow> error + real option" where
  "sample_elevation w lat lon =
     bindE (get_dem w) (\<lambda>(ds, transformer).
     bindE (transformer lon lat) (\<lambda>(x, y).
       sample_single ds x y))"

text \<open>The body of the two nested \<open>for\<close> loops of \<open>sample_relief_local\<close>, and the
  cells in the order the loops visit them.\<close>

fun scan_step :: "fval option \<Rightarrow> real option \<Rightarrow> fval \<Rightarrow> real option" where
  "scan_step nodata local_min (Fin v) =
     (if is_nodata nodata v then local_min
      else case local_min of
             None \<Rightarrow> Some v
           | Some m \<Rightarrow> if v < m then Some v else local_min)"
| "scan_step nodata local_min _ = local_min"

definition cells_row_major :: "array2 \<Rightarrow> fval list" where
  "cells_row_major arr =
     concat (map (\<lambda>r. map (\<lambda>c. cell arr r c) [0..<shape1 arr]) [0..<shape0 arr])"

definition scan_min :: "fval option \<Rightarrow> array2 \<Rightarrow> real option" where
  "scan_min nodata arr = foldl (scan_step nodata) None (cells_row_major arr)"

definition relief_window :: "dataset \<Rightarrow> int \<Rightarrow> int \<Rightarrow> int \<Rightarrow> (int \<times> int) \<times> (int \<times> int)" where
  "relief_window ds row col half_size_px =
     (let row_start = max 0 (row - half_size_px);
          row_stop = min (ds_height ds) (row + half_size_px + 1);
          col_start = max 0 (col - half_size_px);
          col_stop = min (ds_width ds) (col + half_size_px + 1)
      in ((row_start, row_stop), (col_start, col_stop)))"

definition relief_of_window :: "dataset \<Rightarrow> int \<Rightarrow> int \<Rightarrow> int \<Rightarrow> int \<Rightarrow> array2 \<Rightarrow> real option" where
  "relief_of_window ds row col row_start col_start arr =
     (case scan_min (ds_nodata ds) arr of
        None \<Rightarrow> None
      | Some local_min \<Rightarrow>
          (let center_r = row - row_start; center_c = col - col_start
           in if \<not> (0 \<le> center_r \<and> center_r < int (shape0 arr)
                     \<and> 0 \<le> center_c \<and> center_c < int (shape1 arr)) then None
              else case cell arr (nat center_r) (nat center_c) of
                     Fin elev_center \<Rightarrow>
                       if is_nodata (ds_nodata ds) elev_center then None
                       else (let relief = elev_center - local_min
                             in Some (if relief < 0 then 0 else relief))
                   | _ \<Rightarrow> None))"

definition sample_relief_local :: "dem_world \<Rightarrow> real \<Rightarrow> real \<Rightarrow> int \<Rightarrow> error + real option" where
  "sample_relief_local w lat lon half_size_px =
     bindE (get_dem w) (\<lambda>(ds, transformer).
     bindE (transformer lon lat) (\<lambda>(x, y).
     bindE (ds_index ds x y) (\<lambda>(row, col).
       if row < 0 \<or> row \<ge> ds_height ds \<or> col < 0 \<or> col \<ge> ds_width ds then Inr None
       else (let window = relief_window ds row col half_size_px
             in bindE (ds_read ds window) (\<lambda>arr.
                  Inr (relief_of_window ds row col (fst (fst window)) (fst (snd window)) arr))))))"

section \<open>api/views\_flood.py: terrain sampling and the scoring of a row\<close>

definition max_list :: "real list \<Rightarrow> real" where
  "max_list xs = foldl max (hd xs) (tl xs)"

definition sample_dem_body ::
  "dem_world \<Rightarrow> real \<Rightarrow> real \<Rightarrow> error + (real option \<times> real option \<times> real option)" where
  "sample_dem_body w lat lon =
     bindE (sample_elevation w lat lon) (\<lambda>elev.
     bindE (sample_relief_local w lat lon 15) (\<lambda>relief.
       case elev of
         None \<Rightarrow> Inr (None, relief, None)
       | Some e \<Rightarrow>
           (let d = 0.01
            in bindE (sample_elevation w (lat + d) lon) (\<lambda>e_n.
               bindE (sample_elevation w (lat - d) lon) (\<lambda>e_s.
               bindE (sample_elevation w lat (lon + d)) (\<lambda>e_e.
               bindE (sample_elevation w lat (lon - d)) (\<lambda>e_w.
                 (let diffs = concat (map (\<lambda>ex. case ex of None \<Rightarrow> [] | Some v \<Rightarrow> [\<bar>v - e\<bar>])
                                        [e_n, e_s, e_e, e_w]);
                      slope_like = (if diffs \<noteq> [] then Some (max_list diffs) else None)
                  in Inr (Some e, relief, slope_like)))))))))"

text \<open>\<open>try: ... except Exception: return None, None, None\<close>\<close>

definition try_sample_dem ::
  "dem_world \<Rightarrow> real \<Rightarrow> real \<Rightarrow> real option \<times> real option \<times> real option" where
  "try_sample_dem w lat lon =
     (case sample_dem_body w lat lon of Inl _ \<Rightarrow> (None, None, None) | Inr t \<Rightarrow> t)"

text \<open>A row of the SQL query of \<open>flood_risk_latest\<close> and the dictionary the loop body
  appends for it.\<close>

record flood_row =
  row_location_id :: string
  row_lat :: real
  row_lon :: real
  row_valid_at :: int
  row_rain_1h_mm :: "fval option"
  row_rain_3h_mm :: "fval option"
  row_rain_6h_mm :: "fval option"

record flood_out =
  out_location_id :: string
  out_lat :: real
  out_lon :: real
  out_valid_at :: int
  out_relief_m :: "real option"
  out_rain_1h_mm :: fval
  out_rain_3h_mm :: fval
  out_eff_rain_1h_mm :: fval
  out_eff_rain_3h_mm :: fval
  out_risk_score :: int
  out_risk_level :: string

definition flood_row_score :: "dem_world \<Rightarrow> flood_row \<Rightarrow> int" where
  "flood_row_score w r =
     (let r1 = safe_float (row_rain_1h_mm r) (Fin 0);
          r3 = safe_float (row_rain_3h_mm r) (Fin 0);
          r6 = safe_float (row_rain_6h_mm r) (Fin 0);
          eff6 = effective_rain_6h (Some r1) (Some r3) (Some r6);
          rain_band = rain_band_from_eff6 (Some eff6);
          (elev_m, relief_local_m, slope_like_m) = try_sample_dem w (row_lat r) (row_lon r);
          relief_band = (if relief_local_m = None then 0
                         else terrain_band_from_relief_local relief_local_m);
          elev_band = (if elev_m = None then 0 else elevation_band elev_m);
          slope_pen = (if slope_like_m \<noteq> None then slope_like_penalty slope_like_m else 0)
      in combined_risk_score rain_band relief_band elev_band slope_pen)"

definition flood_row_out :: "dem_world \<Rightarrow> flood_row \<Rightarrow> error + flood_out" where
  "flood_row_out w r =
     (let r1 = safe_float (row_rain_1h_mm r) (Fin 0);
          r3 = safe_float (row_rain_3h_mm r) (Fin 0);
          eff1 = effective_rain_1h (Some r1);
          eff3 = effective_rain_3h (Some r1) (Some r3);
          (elev_m, relief_local_m, slope_like_m) = try_sample_dem w (row_lat r) (row_lon r);
          score = flood_row_score w r
      in bindE (risk_level_at score) (\<lambda>level.
           Inr \<lparr> out_location_id = row_location_id r, out_lat = row_lat r, out_lon = row_lon r,
                 out_valid_at = row_valid_at r, out_relief_m = relief_local_m,
                 out_rain_1h_mm = r1, out_rain_3h_mm = r3,
                 out_eff_rain_1h_mm = eff1, out_eff_rain_3h_mm = eff3,
                 out_risk_score = score, out_risk_level = level \<rparr>))"

text \<open>The \<open>for\<close> loop over the rows: the first exception ends it.\<close>

fun flood_risk_latest :: "dem_world \<Rightarrow> flood_row list \<Rightarrow> error + flood_out list" where
  "flood_risk_latest w [] = Inr []"
| "flood_risk_latest w (r # rows) =
     bindE (flood_row_out w r) (\<lambda>out. bindE (flood_risk_latest w rows) (\<lambda>outs. Inr (out # outs)))"

section \<open>api/views\_alerts.py\<close>

definition LEVEL_ORDER :: "string list" where
  "LEVEL_ORDER = [''none'', ''info'', ''watch'', ''warning'', ''danger'']"

definition LEVEL_RANK :: "string \<Rightarrow> nat option" where
  "LEVEL_RANK = map_of (zip LEVEL_ORDER [0..<length LEVEL_ORDER])"

text \<open>
  The dictionary \<open>_make_hazard\<close> returns. \<open>desc_value\<close> is the number the description
  template interpolates (\<open>None\<close> for a template without one), \<open>desc_cloudy\<close> whether the
  cloud-cover remark is appended.
\<close>

record hazard =
  h_type :: string
  level :: string
  score :: int
  headline :: string
  desc_value :: "fval option"
  desc_cloudy :: bool

definition make_hazard ::
  "string \<Rightarrow> string \<Rightarrow> int \<Rightarrow> string \<Rightarrow> fval option \<Rightarrow> bool \<Rightarrow> hazard" where
  "make_hazard t lv sc hl dv dc =
     \<lparr> h_type = t, level = (if LEVEL_RANK lv = None then ''info'' else lv), score = sc,
       headline = hl, desc_value = dv, desc_cloudy = dc \<rparr>"

text \<open>The two powers \<open>T**2\<close> and \<open>RH**2\<close> are taken in the order in which the
  expression first needs them; an exception of either ends the call.\<close>

definition compute_heat_index :: "libm \<Rightarrow> fval option \<Rightarrow> fval option \<Rightarrow> error + fval option" where
  "compute_heat_index lm temp_c rel_humidity =
     (case temp_c of
        None \<Rightarrow> Inr None
      | Some T \<Rightarrow>
          (case rel_humidity of
             None \<Rightarrow> Inr (Some T)
           | Some rh \<Rightarrow>
               (let RH = py_max (Fin 0) (py_min (Fin 100) rh)
                in if flt T (Fin 27) \<or> flt RH (Fin 40) then Inr (Some T)
                   else bindE (float_pow lm T 2) (\<lambda>T2.
                        bindE (float_pow lm RH 2) (\<lambda>RH2.
                          Inr (Some
                            (fsub (fadd (fadd (fsub (fsub (fsub (fadd (fadd
                               (fneg (lit 8.784695))
                               (fmul (lit 1.61139411) T))
                               (fmul (lit 2.338549) RH))
                               (fmul (fmul (lit 0.14611605) T) RH))
                               (fmul (lit 0.012308094) T2))
                               (fmul (lit 0.016424828) RH2))
                               (fmul (fmul (lit 0.002211732) T2) RH))
                               (fmul (fmul (lit 0.00072546) T) RH2))
                               (fmul (fmul (lit 0.000003582) T2) RH2))))))))"

definition compute_windchill :: "libm \<Rightarrow> fval option \<Rightarrow> fval option \<Rightarrow> error + fval option" where
  "compute_windchill lm temp_c wind_ms =
     (case (temp_c, wind_ms) of
        (Some T, Some wind) \<Rightarrow>
          (let V_kmh = fmul wind (lit 3.6)
           in if flt (Fin 10) T \<or> flt V_kmh (Fin 5) then Inr None
              else bindE (float_pow lm V_kmh (rd 0.16)) (\<lambda>p.
                     Inr (Some
                       (fadd (fsub (fadd (lit 13.12) (fmul (lit 0.6215) T)) (fmul (lit 11.37) p))
                             (fmul (fmul (lit 0.3965) T) p)))))
      | _ \<Rightarrow> Inr None)"

definition build_heat_cold_hazard ::
  "libm \<Rightarrow> fval option \<Rightarrow> fval option \<Rightarrow> fval option \<Rightarrow> fval option \<Rightarrow> error + hazard option" where
  "build_heat_cold_hazard lm temp_c wind_ms cloudcover rel_humidity =
     (case temp_c of
        None \<Rightarrow> Inr None
      | Some T \<Rightarrow>
          bindE (compute_windchill lm (Some T) wind_ms) (\<lambda>windchill.
            (let effective_cold = (case windchill of Some wc \<Rightarrow> wc | None \<Rightarrow> T)
             in if fle effective_cold (Fin 15) then
                  (if fle effective_cold (Fin 5) then
                     Inr (Some (make_hazard ''cold'' ''warning'' 3 ''Troi ret, co gio''
                             (Some effective_cold) False))
                   else if fle effective_cold (Fin 10) then
                     Inr (Some (make_hazard ''cold'' ''watch'' 2 ''Troi lanh''
                             (Some effective_cold) False))
                   else
                     Inr (Some (make_hazard ''cold'' ''info'' 1 ''Thoi tiet se lanh''
                             (Some T) False)))
                else if flt T (Fin 32) then Inr None
                else
                  bindE (compute_heat_index lm (Some T) rel_humidity) (\<lambda>HI.
                    (let effective_heat = (case HI of Some hi \<Rightarrow> hi | None \<Rightarrow> T)
                     in if flt effective_heat (Fin 32) then Inr None
                        else
                          (let cloudy = (case cloudcover of None \<Rightarrow> False
                                         | Some cc \<Rightarrow> fle (Fin 60) cc)
                           in if flt effective_heat (Fin 41) then
                                Inr (Some (make_hazard ''heat'' ''info'' 1 ''Thoi tiet oi nong''
                                        (Some effective_heat) cloudy))
                              else if flt effective_heat (Fin 54) then
                                Inr (Some (make_hazard ''heat'' ''watch'' 2
                                        ''Nang nong, can than trong''
                                        (Some effective_heat) cloudy))
                              else
                                Inr (Some (make_hazard ''heat'' ''warning'' 3
                                        ''Nang nong gay gat, nguy co cao''
                                        (Some effective_heat) cloudy))))))))"

text \<open>\<open>float(x or 0.0)\<close>\<close>

definition float_or_zero :: "fval option \<Rightarrow> fval" where
  "float_or_zero x = (case x of None \<Rightarrow> Fin 0 | Some v \<Rightarrow> v)"

definition rain_eff :: "fval option \<Rightarrow> fval option \<Rightarrow> fval option \<Rightarrow> fval" where
  "rain_eff rain_1h rain_3h rain_6h =
     (let r1 = float_or_zero rain_1h;
          r3 = float_or_zero rain_3h;
          r6 = float_or_zero rain_6h;
          extra_3h = py_max (Fin 0) (fsub r3 r1);
          extra_6h = py_max (Fin 0) (fsub r6 r3)
      in fadd (fadd r1 (fmul (lit 0.6) extra_3h)) (fmul (lit 0.4) extra_6h))"

definition build_rain_hazard ::
  "fval option \<Rightarrow> fval option \<Rightarrow> fval option \<Rightarrow> fval option \<Rightarrow> hazard option" where
  "build_rain_hazard rain_1h rain_3h rain_6h precip_now =
     (let eff = rain_eff rain_1h rain_3h rain_6h
      in if (case precip_now of None \<Rightarrow> False
             | Some p \<Rightarrow> fle (lit 0.1) p \<and> flt eff (Fin 0.5)) then
           Some (make_hazard ''rain'' ''info'' 1 ''Mua nhe'' None False)
         else if flt eff (Fin 0.5) then None
         else if flt eff (Fin 5) then
           Some (make_hazard ''rain'' ''info'' 1 ''Mua nho, rai rac'' (Some eff) False)
         else if flt eff (Fin 15) then
           Some (make_hazard ''rain'' ''watch'' 2 ''Mua vua, co nguy co ngap nhe'' (Some eff) False)
         else if flt eff (Fin 30) then
           Some (make_hazard ''rain'' ''warning'' 3 ''Mua to, nguy co ngap cuc bo'' (Some eff) False)
         else
           Some (make_hazard ''rain'' ''danger'' 4 ''Mua rat to, nguy co lu cuc bo''
                   (Some eff) False))"

text \<open>
  \<open>_calc_overall_level_and_comment\<close>, its first component. \<open>rank\<close> is the local
  function \<open>_rank\<close>; \<open>max_by_rank\<close> is \<open>max(hazards, key=_rank)\<close>, which keeps the first
  of several maximal elements.
\<close>

definition rank :: "hazard \<Rightarrow> nat" where
  "rank h = (case LEVEL_RANK (level h) of None \<Rightarrow> 0 | Some r \<Rightarrow> r)"

fun max_by_rank :: "hazard \<Rightarrow> hazard list \<Rightarrow> hazard" where
  "max_by_rank best [] = best"
| "max_by_rank best (h # hs) = max_by_rank (if rank h > rank best then h else best) hs"

definition calc_overall_level :: "hazard list \<Rightarrow> string" where
  "calc_overall_level hazards =
     (case hazards of
        [] \<Rightarrow> ''none''
      | h0 # rest \<Rightarrow>
          (let main = max_by_rank h0 rest;
               main_rank = rank main;
               watch_rank = the (LEVEL_RANK ''watch'');
               num_watch_or_more = length (filter (\<lambda>h. rank h \<ge> watch_rank) hazards);
               overall_rank = (if num_watch_or_more \<ge> 2 \<and> main_rank < length LEVEL_ORDER - 1
                               then main_rank + 1 else main_rank)
           in LEVEL_ORDER ! overall_rank))"

text \<open>
  \<open>_sum_rain_in_window\<close>. A row is \<open>(valid_at, precip_mm)\<close>; a \<open>valid_at\<close> of \<open>None\<close>
  stands for a value on which \<open>anchor_ts - valid_at\<close> raises, and the row is skipped.
  \<open>dt.total_seconds()\<close> is the quotient of the microseconds of \<open>dt\<close> by \<open>10**6\<close>, a
  division of integers that rounds once. The state of the loop is
  \<open>(have_hours, rain_1h, rain_3h, rain_6h)\<close>. The hours of a row that is not skipped are
  a number between 0 and 6.
\<close>

type_synonym rain_row = "int option \<times> fval option"

definition hours_back :: "int \<Rightarrow> int \<Rightarrow> fval" where
  "hours_back anchor_ts valid_at =
     fdiv_by (round_double (of_int (anchor_ts - valid_at) / 1000000)) 3600"

definition sum_rain_step ::
  "int \<Rightarrow> int set \<times> fval \<times> fval \<times> fval \<Rightarrow> rain_row \<Rightarrow> int set \<times> fval \<times> fval \<times> fval" where
  "sum_rain_step anchor_ts st row =
     (case st of (have_hours, rain_1h, rain_3h, rain_6h) \<Rightarrow>
      case row of (valid_at, precip_mm) \<Rightarrow>
      case valid_at of
        None \<Rightarrow> st
      | Some va \<Rightarrow>
          (let hours = hours_back anchor_ts va
           in if flt hours (Fin 0) \<or> flt (Fin 6) hours then st
              else case hours of
                     Fin h \<Rightarrow>
                       (let have_hours' = insert (py_round h) have_hours;
                            p = float_or_zero precip_mm
                        in if fle hours (Fin 1)
                             then (have_hours', fadd rain_1h p, fadd rain_3h p, fadd rain_6h p)
                           else if fle hours (Fin 3)
                             then (have_hours', rain_1h, fadd rain_3h p, fadd rain_6h p)
                           else (have_hours', rain_1h, rain_3h, fadd rain_6h p))
                   | _ \<Rightarrow> st))"

definition sum_rain_in_window :: "rain_row list \<Rightarrow> int \<Rightarrow> fval \<times> fval \<times> fval \<times> fval" where
  "sum_rain_in_window rows anchor_ts =
     (case foldl (sum_rain_step anchor_ts) ({}, Fin 0, Fin 0, Fin 0) rows of
        (have_hours, rain_1h, rain_3h, rain_6h) \<Rightarrow>
          (rain_1h, rain_3h, rain_6h, fdiv_by (Fin (real (card have_hours))) 7))"

section \<open>api/views\_obs.py\<close>

text \<open>A record of \<open>obs_map\<close> or \<open>fcst_map\<close>, and a step of the merged series.\<close>

record wx =
  temp_c :: "real option"
  wind_ms :: "real option"
  precip_mm :: "real option"
  rel_humidity_pct :: "real option"
  wind_dir_deg :: "real option"
  cloudcover_pct :: "real option"
  surface_pressure_hpa :: "real option"

record step =
  valid_at :: int
  source :: string
  s_temp_c :: "real option"
  s_wind_ms :: "real option"
  s_precip_mm :: "real option"
  s_rel_humidity_pct :: "real option"
  s_wind_dir_deg :: "real option"
  s_cloudcover_pct :: "real option"
  s_surface_pressure_hpa :: "real option"

definition mk_step :: "(int \<Rightarrow> wx option) \<Rightarrow> (int \<Rightarrow> wx option) \<Rightarrow> int \<Rightarrow> step" where
  "mk_step obs_map fcst_map cursor =
     (let (rec, src) =
            (case obs_map cursor of
               Some r \<Rightarrow> (Some r, ''obs'')
             | None \<Rightarrow>
                 (case fcst_map cursor of
                    Some r \<Rightarrow> (Some r, ''fcst'')
                  | None \<Rightarrow> (None, ''none'')))
      in \<lparr> valid_at = cursor, source = src,
           s_temp_c = (case rec of Some r \<Rightarrow> temp_c r | None \<Rightarrow> None),
           s_wind_ms = (case rec of Some r \<Rightarrow> wind_ms r | None \<Rightarrow> None),
           s_precip_mm = (case rec of Some r \<Rightarrow> precip_mm r | None \<Rightarrow> None),
           s_rel_humidity_pct = (case rec of Some r \<Rightarrow> rel_humidity_pct r | None \<Rightarrow> None),
           s_wind_dir_deg = (case rec of Some r \<Rightarrow> wind_dir_deg r | None \<Rightarrow> None),
           s_cloudcover_pct = (case rec of Some r \<Rightarrow> cloudcover_pct r | None \<Rightarrow> None),
           s_surface_pressure_hpa =
             (case rec of Some r \<Rightarrow> surface_pressure_hpa r | None \<Rightarrow> None) \<rparr>)"

text \<open>The \<open>while cursor <= end_utc\<close> loop, with \<open>steps\<close> as its accumulator.\<close>

function merge_loop ::
  "(int \<Rightarrow> wx option) \<Rightarrow> (int \<Rightarrow> wx option) \<Rightarrow> int \<Rightarrow> step list \<Rightarrow> int \<Rightarrow> step list" where
  "merge_loop obs_map fcst_map end_utc steps cursor =
     (if cursor \<le> end_utc
      then merge_loop obs_map fcst_map end_utc
             (steps @ [mk_step obs_map fcst_map cursor]) (cursor + hour_us)
      else steps)"
  by pat_completeness auto
termination
  by (relation "measure (\<lambda>(obs_map, fcst_map, end_utc, steps, cursor). nat (end_utc - cursor + 1))")
     (auto simp: hour_us_def)

declare merge_loop.simps [simp del]

definition merged_steps ::
  "(int \<Rightarrow> wx option) \<Rightarrow> (int \<Rightarrow> wx option) \<Rightarrow> int \<Rightarrow> int \<Rightarrow> step list" where
  "merged_steps obs_map fcst_map start_utc end_utc =
     merge_loop obs_map fcst_map end_utc [] start_utc"

text \<open>
  \<open>int(s)\<close> on a \<open>str\<close>, as CPython 3.11 does it. A code point below 127 is kept, a
  non-ASCII white space becomes a space, a non-ASCII decimal digit the ASCII digit of
  its value (the tables are those of Unicode 14: \<open>decimal_zeros\<close> has the first code
  point of every run of the ten digits), and any other code point is an error. Then
  ASCII white space is dropped at both ends, one sign is allowed, then decimal digits
  with single underscores between digits, of which there may be at most
  \<open>int_max_str_digits\<close> (the default of \<open>sys.set_int_max_str_digits\<close>). \<open>None\<close> is the
  \<open>ValueError\<close>.
\<close>

definition codes :: "string \<Rightarrow> nat list" where
  "codes s = map of_char s"

definition unicode_spaces :: "nat list" where
  "unicode_spaces =
     [0x85, 0xA0, 0x1680, 0x2000, 0x2001, 0x2002, 0x2003, 0x2004, 0x2005, 0x2006, 0x2007,
      0x2008, 0x2009, 0x200A, 0x2028, 0x2029, 0x202F, 0x205F, 0x3000]"

definition decimal_zeros :: "nat list" where
  "decimal_zeros =
     [0x660, 0x6F0, 0x7C0, 0x966, 0x9E6, 0xA66, 0xAE6, 0xB66, 0xBE6, 0xC66, 0xCE6, 0xD66,
      0xDE6, 0xE50, 0xED0, 0xF20, 0x1040, 0x1090, 0x17E0, 0x1810, 0x1946, 0x19D0, 0x1A80,
      0x1A90, 0x1B50, 0x1BB0, 0x1C40, 0x1C50, 0xA620, 0xA8D0, 0xA900, 0xA9D0, 0xA9F0,
      0xAA50, 0xABF0, 0xFF10, 0x104A0, 0x10D30, 0x11066, 0x110F0, 0x11136, 0x111D0,
      0x112F0, 0x11450, 0x114D0, 0x11650, 0x116C0, 0x11730, 0x118E0, 0x11950, 0x11C50,
      0x11D50, 0x11DA0, 0x16A60, 0x16AC0, 0x16B50, 0x1D7CE, 0x1D7D8, 0x1D7E2, 0x1D7EC,
      0x1D7F6, 0x1E140, 0x1E2F0, 0x1E950, 0x1FBF0]"

definition to_ascii :: "nat \<Rightarrow> nat option" where
  "to_ascii c =
     (if c < 127 then Some c
      else if c \<in> set unicode_spaces then Some 32
      else case filter (\<lambda>z. z \<le> c \<and> c < z + 10) decimal_zeros of
             [] \<Rightarrow> None
           | z # _ \<Rightarrow> Some (48 + (c - z)))"

fun transform :: "nat list \<Rightarrow> nat list option" where
  "transform [] = Some []"
| "transform (c # cs) =
     (case to_ascii c of
        None \<Rightarrow> None
      | Some a \<Rightarrow> (case transform cs of None \<Rightarrow> None | Some as \<Rightarrow> Some (a # as)))"

definition is_space :: "nat \<Rightarrow> bool" where
  "is_space c = (c = 32 \<or> (9 \<le> c \<and> c \<le> 13))"

definition is_digit :: "nat \<Rightarrow> bool" where
  "is_digit c = (48 \<le> c \<and> c \<le> 57)"

definition digit_val :: "nat \<Rightarrow> int" where
  "digit_val c = int c - 48"

definition strip :: "nat list \<Rightarrow> nat list" where
  "strip s = rev (dropWhile is_space (rev (dropWhile is_space s)))"

definition int_max_str_digits :: nat where
  "int_max_str_digits = 4300"

text \<open>The scan of the digits: \<open>acc\<close> is the value so far, \<open>n\<close> the number of digits
  read, \<open>after_underscore\<close> whether the last character was an underscore.\<close>

fun parse_digits :: "nat list \<Rightarrow> int \<Rightarrow> nat \<Rightarrow> bool \<Rightarrow> int option" where
  "parse_digits [] acc n after_underscore =
     (if after_underscore \<or> n > int_max_str_digits then None else Some acc)"
| "parse_digits (c # cs) acc n after_underscore =
     (if is_digit c then parse_digits cs (10 * acc + digit_val c) (n + 1) False
      else if c = 95 \<and> \<not> after_underscore then parse_digits cs acc n True
      else None)"

definition parse_unsigned :: "nat list \<Rightarrow> int option" where
  "parse_unsigned s =
     (case s of
        [] \<Rightarrow> None
      | c # cs \<Rightarrow> if is_digit c then parse_digits cs (digit_val c) 1 False else None)"

definition py_int :: "nat list \<Rightarrow> int option" where
  "py_int s =
     (case transform s of
        None \<Rightarrow> None
      | Some t \<Rightarrow>
          (case strip t of
             [] \<Rightarrow> None
           | c # cs \<Rightarrow>
               if c = 45 then map_option uminus (parse_unsigned cs)
               else if c = 43 then parse_unsigned cs
               else parse_unsigned (c # cs)))"

text \<open>\<open>try: int(request.GET.get(name) or dflt) except Exception: dflt\<close>\<close>

definition hours_param :: "nat list option \<Rightarrow> int \<Rightarrow> int" where
  "hours_param p dflt =
     (case p of
        None \<Rightarrow> dflt
      | Some s \<Rightarrow> if s = [] then dflt else (case py_int s of None \<Rightarrow> dflt | Some n \<Rightarrow> n))"

definition clamp_hours :: "int \<Rightarrow> int" where
  "clamp_hours h0 = (let h = (if h0 < 0 then 0 else h0) in if h > 168 then 168 else h)"

text \<open>
  A request to \<open>merged_timeseries\<close>: whether \<open>location_id\<close> parses as a UUID, whether the
  location row exists, the two query parameters, the current hour \<open>base_utc\<close>, and the
  observation and forecast rows of the location, keyed by \<open>valid_at\<close>. The two SELECTs
  keep the rows with \<open>start_utc <= valid_at <= end_utc\<close>.
\<close>

record request =
  location_id_is_uuid :: bool
  location_found :: bool
  get_back :: "nat list option"
  get_fwd :: "nat list option"
  base_utc :: int
  obs_table :: "int \<Rightarrow> wx option"
  fcst_table :: "int \<Rightarrow> wx option"

datatype response =
    BadRequest
  | NotFound
  | Found (back_hours: int) (forward_hours: int) (steps: "step list")

definition select_between :: "(int \<Rightarrow> wx option) \<Rightarrow> int \<Rightarrow> int \<Rightarrow> (int \<Rightarrow> wx option)" where
  "select_between table start_utc end_utc =
     (\<lambda>ts. if start_utc \<le> ts \<and> ts \<le> end_utc then table ts else None)"

definition merged_timeseries :: "request \<Rightarrow> response" where
  "merged_timeseries req =
     (if \<not> location_id_is_uuid req then BadRequest
      else if \<not> location_found req then NotFound
      else (let back_hours = clamp_hours (hours_param (get_back req) 48);
                fwd_hours = clamp_hours (hours_param (get_fwd req) 96);
                start_utc = base_utc req - back_hours * hour_us;
                end_utc = base_utc req + fwd_hours * hour_us;
                obs_map = select_between (obs_table req) start_utc end_utc;
                fcst_map = select_between (fcst_table req) start_utc end_utc
            in Found back_hours fwd_hours (merged_steps obs_map fcst_map start_utc end_utc)))"

section \<open>Facts about the binary64 arithmetic\<close>

lemma pow2_pos: "0 < pow2 k" by (simp add: pow2_def)

lemma pow2_add: "pow2 (a + b) = pow2 a * pow2 b"
proof -
  have "pow2 k = 2 powr (of_int k)" for k
    by (simp add: pow2_def powr_realpow [symmetric] powr_minus field_simps)
  then show ?thesis by (simp add: powr_add)
qed

lemma pow2_Suc: "pow2 (k + 1) = 2 * pow2 k"
  using pow2_add [of k 1] by (simp add: pow2_def)

lemma expo_up_bounds: "1 \<le> x \<Longrightarrow> pow2 (expo_up x) \<le> x \<and> x < pow2 (expo_up x + 1)"
proof (induction x rule: expo_up.induct)
  case (1 x)
  show ?case
  proof (cases "x < 2")
    case True
    with "1.prems" show ?thesis by (subst (1 2) expo_up.simps) (simp add: pow2_def)
  next
    case False
    then have h: "1 \<le> x / 2" by simp
    from "1.IH" [OF False h] have ih: "pow2 (expo_up (x / 2)) \<le> x / 2"
      "x / 2 < pow2 (expo_up (x / 2) + 1)" by simp_all
    have e: "expo_up x = expo_up (x / 2) + 1" using False by (subst expo_up.simps) simp
    have p1: "pow2 (expo_up (x / 2) + 1) = 2 * pow2 (expo_up (x / 2))" by (rule pow2_Suc)
    have p2: "pow2 (expo_up (x / 2) + 1 + 1) = 2 * pow2 (expo_up (x / 2) + 1)"
      by (rule pow2_Suc)
    from ih show ?thesis unfolding e p2 unfolding p1 by linarith
  qed
qed

lemma expo_down_bounds:
  "0 < x \<Longrightarrow> x < 1 \<Longrightarrow> pow2 (expo_down x) \<le> x \<and> x < pow2 (expo_down x + 1)"
proof (induction x rule: expo_down.induct)
  case (1 x)
  have c: "\<not> (1 \<le> x \<or> x \<le> 0)" using "1.prems" by simp
  have e: "expo_down x = expo_down (2 * x) - 1" using c by (subst expo_down.simps) simp
  show ?case
  proof (cases "2 * x < 1")
    case True
    from "1.IH" [OF c _ True] "1.prems"
    have ih: "pow2 (expo_down (2 * x)) \<le> 2 * x" "2 * x < pow2 (expo_down (2 * x) + 1)"
      by simp_all
    have "pow2 (expo_down (2 * x)) = 2 * pow2 (expo_down (2 * x) - 1)"
      using pow2_Suc [of "expo_down (2 * x) - 1"] by simp
    with ih show ?thesis unfolding e by (simp add: pow2_Suc)
  next
    case False
    then have "expo_down (2 * x) = 0" by (subst expo_down.simps) simp
    with False "1.prems" show ?thesis unfolding e by (simp add: pow2_def)
  qed
qed

lemma exponent_bounds:
  assumes "x \<noteq> 0"
  shows "pow2 (exponent x) \<le> \<bar>x\<bar> \<and> \<bar>x\<bar> < pow2 (exponent x + 1)"
proof (cases "1 \<le> \<bar>x\<bar>")
  case True
  then show ?thesis unfolding exponent_def using expo_up_bounds [of "\<bar>x\<bar>"] by simp
next
  case False
  then show ?thesis unfolding exponent_def using expo_down_bounds [of "\<bar>x\<bar>"] assms by simp
qed

lemma pow2_mono: "a \<le> b \<Longrightarrow> pow2 a \<le> pow2 b"
proof -
  assume "a \<le> b"
  define n where "n = nat (b - a)"
  have b: "b = a + int n" using \<open>a \<le> b\<close> by (simp add: n_def)
  have "pow2 (int n) = 2 ^ n" by (simp add: pow2_def)
  then have "1 \<le> pow2 (int n)" by simp
  then show ?thesis unfolding b pow2_add using pow2_pos [of a] by (simp add: mult_le_cancel_left1)
qed

lemma pow2_strict: "pow2 a < pow2 (b + 1) \<Longrightarrow> pow2 b \<le> x \<Longrightarrow> x < pow2 (a + 1) \<Longrightarrow> b \<le> a"
proof (rule ccontr)
  assume x: "pow2 b \<le> x" "x < pow2 (a + 1)" and n: "\<not> b \<le> a"
  then have "a + 1 \<le> b" by simp
  then have "pow2 (a + 1) \<le> pow2 b" by (rule pow2_mono)
  with x show False by simp
qed

lemma exponent_unique:
  assumes "pow2 e \<le> \<bar>x\<bar>" "\<bar>x\<bar> < pow2 (e + 1)"
  shows "exponent x = e"
proof -
  have nz: "x \<noteq> 0" using assms(1) pow2_pos [of e] by auto
  note b = exponent_bounds [OF nz]
  have 1: "e \<le> exponent x"
  proof (rule ccontr)
    assume "\<not> e \<le> exponent x"
    then have "exponent x + 1 \<le> e" by simp
    then have "pow2 (exponent x + 1) \<le> pow2 e" by (rule pow2_mono)
    with b assms show False by simp
  qed
  have 2: "exponent x \<le> e"
  proof (rule ccontr)
    assume "\<not> exponent x \<le> e"
    then have "e + 1 \<le> exponent x" by simp
    then have "pow2 (e + 1) \<le> pow2 (exponent x)" by (rule pow2_mono)
    with b assms show False by simp
  qed
  from 1 2 show ?thesis by simp
qed

lemma rd_eval:
  assumes "pow2 e \<le> \<bar>x\<bar>" "\<bar>x\<bar> < pow2 (e + 1)" "- 1022 \<le> e"
    and "py_round (x / pow2 (e - 52)) = m" and "y = of_int m * pow2 (e - 52)"
  shows "rd x = y"
proof -
  have nz: "x \<noteq> 0" using assms(1) pow2_pos [of e] by auto
  have e: "exponent x = e" using assms(1,2) by (rule exponent_unique)
  have m: "max e (- 1022) = e" using assms(3) by simp
  show ?thesis unfolding rd_def Let_def e m using nz assms(4,5) by simp
qed

lemma round_double_Fin: "\<bar>rd x\<bar> < pow2 1024 \<Longrightarrow> round_double x = Fin (rd x)"
  by (simp add: round_double_def)

lemma rd_zero: "rd 0 = 0"
  by (simp add: rd_def)

lemma round_double_zero: "round_double 0 = Fin 0"
  by (simp add: round_double_def rd_zero pow2_def)

lemma py_round_nonneg: "0 \<le> x \<Longrightarrow> 0 \<le> py_round x"
proof -
  assume "0 \<le> x"
  then have "0 \<le> \<lfloor>x\<rfloor>" by simp
  then show ?thesis by (simp add: py_round_def Let_def)
qed

lemma rd_nonneg: "0 \<le> x \<Longrightarrow> 0 \<le> rd x"
proof -
  assume x: "0 \<le> x"
  have "0 \<le> py_round (x / pow2 (max (exponent x) (- 1022) - 52))"
    using x pow2_pos [of "max (exponent x) (- 1022) - 52"] by (intro py_round_nonneg) simp
  then show ?thesis
    using pow2_pos [of "max (exponent x) (- 1022) - 52"] by (simp add: rd_def Let_def)
qed

lemma round_double_nonneg: "0 \<le> x \<Longrightarrow> fle (Fin 0) (round_double x)"
  using rd_nonneg [of x] pow2_pos [of 1024]
  by (cases "x = 0") (simp_all add: round_double_def rd_zero not_le)

lemma fle_zero_cases: "fle (Fin 0) v \<longleftrightarrow> v = PInf \<or> (\<exists>y. v = Fin y \<and> 0 \<le> y)"
  by (cases v) simp_all

lemma fadd_nonneg: "fle (Fin 0) a \<Longrightarrow> fle (Fin 0) b \<Longrightarrow> fle (Fin 0) (fadd a b)"
  by (cases a; cases b) (simp_all add: round_double_nonneg)

lemma fmul_pos_nonneg: "0 < c \<Longrightarrow> fle (Fin 0) b \<Longrightarrow> fle (Fin 0) (fmul (Fin c) b)"
  by (cases b) (simp_all add: round_double_nonneg)

lemma py_max_zero_nonneg: "fle (Fin 0) (py_max (Fin 0) v)"
  by (cases v) (simp_all add: py_max_def)

lemma py_max_zero_id: "fle (Fin 0) v \<Longrightarrow> py_max (Fin 0) v = v"
  by (cases v) (auto simp: py_max_def)

lemma py_max_zero_eq: "py_max (Fin 0) v = (if flt (Fin 0) v then v else Fin 0)"
  by (simp add: py_max_def)

lemma py_round_close: "\<bar>of_int (py_round y) - y\<bar> \<le> 1 / 2"
proof -
  have "of_int \<lfloor>y\<rfloor> \<le> y" "y < of_int \<lfloor>y\<rfloor> + 1" by linarith+
  then show ?thesis by (auto simp: py_round_def Let_def)
qed

lemma pow2_diff: "pow2 (a - b) = pow2 a / pow2 b"
proof -
  have "pow2 (a - b) * pow2 b = pow2 a" using pow2_add [of "a - b" b] by simp
  then show ?thesis using pow2_pos [of b] by (simp add: field_simps)
qed

lemma rd_err: "\<bar>rd x - x\<bar> \<le> \<bar>x\<bar> / 2 ^ 53 + 1 / 2 ^ 1075"
proof (cases "x = 0")
  case True
  then show ?thesis by (simp add: rd_zero)
next
  case False
  define e where "e = max (exponent x) (- 1022)"
  define q where "q = pow2 (e - 52)"
  have q: "0 < q" unfolding q_def by (rule pow2_pos)
  have r: "rd x = of_int (py_round (x / q)) * q"
    using False by (simp add: rd_def Let_def e_def q_def)
  have "rd x - x = (of_int (py_round (x / q)) - x / q) * q"
    unfolding r using q by (simp add: field_simps)
  then have "\<bar>rd x - x\<bar> = \<bar>of_int (py_round (x / q)) - x / q\<bar> * q"
    using q by (simp add: abs_mult)
  also have "\<dots> \<le> (1 / 2) * q"
    using py_round_close [of "x / q"] q by (intro mult_right_mono) simp_all
  finally have h: "\<bar>rd x - x\<bar> \<le> q / 2" by simp
  have q2: "q / 2 = pow2 e / 2 ^ 53"
    unfolding q_def pow2_diff by (simp add: pow2_def)
  show ?thesis
  proof (cases "- 1022 \<le> exponent x")
    case True
    then have "e = exponent x" by (simp add: e_def)
    then have "pow2 e \<le> \<bar>x\<bar>" using exponent_bounds [OF False] by simp
    then have "q / 2 \<le> \<bar>x\<bar> / 2 ^ 53" unfolding q2 by (simp add: divide_right_mono)
    moreover have "(0::real) \<le> 1 / 2 ^ 1075" by simp
    ultimately show ?thesis using h by linarith
  next
    case False
    then have "e = - 1022" by (simp add: e_def)
    then have "q / 2 = 1 / 2 ^ 1075" unfolding q2 by (simp add: pow2_def)
    moreover have "0 \<le> \<bar>x\<bar> / 2 ^ 53" by simp
    ultimately show ?thesis using h by linarith
  qed
qed

lemma round_double_close:
  assumes "1 \<le> M" "M \<le> 2 ^ 1000" "\<bar>x\<bar> \<le> 2 * M"
  shows "\<exists>z. round_double x = Fin z \<and> \<bar>z - x\<bar> \<le> M / 2 ^ 50"
proof -
  have a: "\<bar>x\<bar> / 2 ^ 53 \<le> 2 * M / 2 ^ 53" using assms(3) by (simp add: divide_right_mono)
  have b: "(1::real) / 2 ^ 1075 \<le> M / 2 ^ 53"
  proof -
    have "(1::real) / 2 ^ 1075 \<le> 1 / 2 ^ 53" by simp
    also have "\<dots> \<le> M / 2 ^ 53" using assms(1) by (simp add: divide_right_mono)
    finally show ?thesis .
  qed
  have c: "2 * M / 2 ^ 53 + M / 2 ^ 53 \<le> M / 2 ^ 50" using assms(1) by simp
  have e: "\<bar>rd x - x\<bar> \<le> M / 2 ^ 50" using rd_err [of x] a b c by linarith
  have "M / 2 ^ 50 \<le> M" using assms(1) by (simp add: field_simps)
  with e assms(3) have "\<bar>rd x\<bar> \<le> 3 * M" by linarith
  also have "\<dots> \<le> 3 * 2 ^ 1000" using assms(2) by simp
  also have "\<dots> < pow2 1024" by (simp add: pow2_def)
  finally have "round_double x = Fin (rd x)" by (simp add: round_double_def)
  with e show ?thesis by blast
qed

lemma fmul_close:
  assumes "1 \<le> M" "M \<le> 2 ^ 1000" "\<bar>a * b\<bar> \<le> 2 * M"
  shows "\<exists>z. fmul (Fin a) (Fin b) = Fin z \<and> \<bar>z - a * b\<bar> \<le> M / 2 ^ 50"
  using round_double_close [OF assms] by simp

lemma fadd_close:
  assumes "1 \<le> M" "M \<le> 2 ^ 1000" "\<bar>a + b\<bar> \<le> 2 * M"
  shows "\<exists>z. fadd (Fin a) (Fin b) = Fin z \<and> \<bar>z - (a + b)\<bar> \<le> M / 2 ^ 50"
  using round_double_close [OF assms] by simp

lemma fsub_close:
  assumes "1 \<le> M" "M \<le> 2 ^ 1000" "\<bar>a - b\<bar> \<le> 2 * M"
  shows "\<exists>z. fsub (Fin a) (Fin b) = Fin z \<and> \<bar>z - (a - b)\<bar> \<le> M / 2 ^ 50"
  using round_double_close [OF assms(1,2), of "a + - b"] assms(3) by (simp add: fsub_def)

lemma prod_bound:
  fixes a b :: real
  assumes "\<bar>a\<bar> \<le> A" "\<bar>b\<bar> \<le> B"
  shows "\<bar>a * b\<bar> \<le> A * B"
proof -
  have "0 \<le> A" using assms(1) by linarith
  with assms show ?thesis unfolding abs_mult by (intro mult_mono) simp_all
qed

lemma prod_err:
  fixes x :: real
  assumes "\<bar>x - y\<bar> \<le> e" "\<bar>b\<bar> \<le> B"
  shows "\<bar>x * b - y * b\<bar> \<le> e * B"
proof -
  have "x * b - y * b = (x - y) * b" by (simp add: algebra_simps)
  then show ?thesis using prod_bound [OF assms] by simp
qed

lemma prod_err2:
  fixes x :: real
  assumes "\<bar>x - y\<bar> \<le> e" "\<bar>b - c\<bar> \<le> d" "\<bar>b\<bar> \<le> B" "\<bar>y\<bar> \<le> Y"
  shows "\<bar>x * b - y * c\<bar> \<le> e * B + Y * d"
proof -
  have "x * b - y * c = (x - y) * b + y * (b - c)" by (simp add: algebra_simps)
  moreover have "\<bar>(x - y) * b\<bar> \<le> e * B" using assms(1,3) by (rule prod_bound)
  moreover have "\<bar>y * (b - c)\<bar> \<le> Y * d" using assms(4,2) by (rule prod_bound)
  ultimately show ?thesis by linarith
qed

lemma lit_0_6: "lit 0.6 = Fin (5404319552844595 / 9007199254740992)"
proof -
  have r: "rd 0.6 = 5404319552844595 / 9007199254740992"
    by (rule rd_eval [where e = "- 1" and m = "5404319552844595"])
       (simp_all add: pow2_def py_round_def Let_def)
  show ?thesis unfolding lit_def round_double_def r by (simp add: pow2_def)
qed

lemma lit_0_4: "lit 0.4 = Fin (3602879701896397 / 9007199254740992)"
proof -
  have r: "rd 0.4 = 3602879701896397 / 9007199254740992"
    by (rule rd_eval [where e = "- 2" and m = "7205759403792794"])
       (simp_all add: pow2_def py_round_def Let_def)
  show ?thesis unfolding lit_def round_double_def r by (simp add: pow2_def)
qed

lemma fadd_zero_zero: "fadd (Fin 0) (Fin 0) = Fin 0"
  by (simp add: round_double_zero)

lemma fsub_zero_zero: "fsub (Fin 0) (Fin 0) = Fin 0"
  by (simp add: fsub_def round_double_zero)

lemma fmul_lit_zero: "fmul (lit 0.6) (Fin 0) = Fin 0" "fmul (lit 0.4) (Fin 0) = Fin 0"
  unfolding lit_0_6 lit_0_4 by (simp_all add: round_double_zero)

lemma flt_fle_trans: "flt a b \<Longrightarrow> fle b c \<Longrightarrow> flt a c"
  by (cases a; cases b; cases c) simp_all

lemma fle_not_flt: "fle b a \<Longrightarrow> \<not> flt a b"
  by (cases a; cases b) simp_all

section \<open>Flood risk score\<close>

lemma clamp_bounds: "lo \<le> hi \<Longrightarrow> lo \<le> clamp x lo hi \<and> clamp x lo hi \<le> hi"
  by (simp add: clamp_def)

lemma clamp_id: "lo \<le> x \<Longrightarrow> x \<le> hi \<Longrightarrow> clamp x lo hi = x"
  by (simp add: clamp_def)

lemma risk_level_at_in_range:
  "0 \<le> i \<Longrightarrow> i \<le> 4 \<Longrightarrow>
   risk_level_at i = Inr (RISK_LEVELS ! nat i) \<and> nat i < length RISK_LEVELS"
  by (simp add: risk_level_at_def RISK_LEVELS_def)

lemma clamp_num:
  "clamp (10::int) 0 4 = 4" "clamp (5::int) 0 2 = 2"
  "clamp (0::int) 0 4 = 0" "clamp (1::int) 0 4 = 1" "clamp (2::int) 0 4 = 2"
  "clamp (3::int) 0 4 = 3" "clamp (4::int) 0 4 = 4"
  "clamp (0::int) 0 2 = 0" "clamp (1::int) 0 2 = 1" "clamp (2::int) 0 2 = 2"
  by (simp_all add: clamp_def)

lemma py_round_num:
  "py_round 2.6 = 3" "py_round 2.8 = 3" "py_round 7 = 7" "py_round 0 = 0"
  "py_round 0.7 = 1" "py_round 1.4 = 1" "py_round 2.1 = 2"
  by (simp_all add: py_round_def Let_def)

text \<open>
  C3, as stated, at an input outside the band range: \<open>_combined_risk_score\<close> clamps each
  band to \<open>[0,4]\<close> and the penalty to \<open>[0,2]\<close> before it applies the formula. At
  \<open>rain_band = 10\<close>, \<open>slope_pen = 5\<close> the code returns \<open>round(2.8) - 2 = 1\<close>, while
  the formula on the inputs as given is \<open>round(7.0) - 5 = 2\<close>.
\<close>

theorem combined_risk_score_unclamped_inputs_differ:
  "combined_risk_score 10 0 0 5 = 1 \<and>
   clamp (py_round (0.70 * of_int 10 + 0.20 * of_int 0 + 0.10 * of_int 0) - 5) 0 4 = (2::int)"
proof -
  have raw: "0.70 * of_int (4::int) + 0.20 * of_int (0::int) + 0.10 * of_int (0::int) = (2.8::real)"
    by simp
  have code: "combined_risk_score 10 0 0 5 = 1"
    unfolding combined_risk_score_def Let_def clamp_num raw py_round_num by (simp add: clamp_num)
  have raw': "0.70 * of_int (10::int) + 0.20 * of_int (0::int) + 0.10 * of_int (0::int) = (7::real)"
    by simp
  have formula:
    "clamp (py_round (0.70 * of_int 10 + 0.20 * of_int 0 + 0.10 * of_int 0) - 5) 0 4 = (2::int)"
    unfolding raw' py_round_num by (simp add: clamp_def)
  from code formula show ?thesis by (rule conjI)
qed

text \<open>
  C3 (amended): for all integer inputs the score is
  \<open>round(0.70*rain_band + 0.20*relief_band + 0.10*elev_band) - slope_pen\<close> clamped to
  \<open>[0,4]\<close>, where the three bands are the inputs clamped to \<open>[0,4]\<close> and the penalty is
  the input clamped to \<open>[0,2]\<close>; for bands within \<open>0..4\<close> and a penalty within \<open>0..2\<close>
  this is the formula on the inputs as given. The score always lies in \<open>[0,4]\<close>, so
  indexing \<open>RISK_LEVELS\<close> with it never raises. For \<open>rain_band = 2\<close>,
  \<open>relief_band = 4\<close>, \<open>elev_band = 4\<close>, \<open>slope_pen = 0\<close> the raw value is 2.6, the score
  3 and the level HIGH.
\<close>

theorem combined_risk_score_spec:
  "combined_risk_score rb lb eb sp =
     clamp (py_round (0.70 * of_int (clamp rb 0 4) + 0.20 * of_int (clamp lb 0 4)
                      + 0.10 * of_int (clamp eb 0 4)) - clamp sp 0 2) 0 4
   \<and> 0 \<le> combined_risk_score rb lb eb sp \<and> combined_risk_score rb lb eb sp \<le> 4
   \<and> nat (combined_risk_score rb lb eb sp) < length RISK_LEVELS
   \<and> risk_level_at (combined_risk_score rb lb eb sp)
       = Inr (RISK_LEVELS ! nat (combined_risk_score rb lb eb sp))
   \<and> (0 \<le> rb \<and> rb \<le> 4 \<and> 0 \<le> lb \<and> lb \<le> 4 \<and> 0 \<le> eb \<and> eb \<le> 4 \<and> 0 \<le> sp \<and> sp \<le> 2 \<longrightarrow>
        combined_risk_score rb lb eb sp =
          clamp (py_round (0.70 * of_int rb + 0.20 * of_int lb + 0.10 * of_int eb) - sp) 0 4)
   \<and> 0.70 * of_int 2 + 0.20 * of_int 4 + 0.10 * of_int 4 = (2.6::real)
   \<and> py_round 2.6 = 3
   \<and> combined_risk_score 2 4 4 0 = 3
   \<and> risk_level_at (combined_risk_score 2 4 4 0) = Inr ''HIGH''"
proof -
  have eq: "combined_risk_score rb lb eb sp =
     clamp (py_round (0.70 * of_int (clamp rb 0 4) + 0.20 * of_int (clamp lb 0 4)
                      + 0.10 * of_int (clamp eb 0 4)) - clamp sp 0 2) 0 4"
    by (simp add: combined_risk_score_def Let_def)
  have rng: "0 \<le> combined_risk_score rb lb eb sp \<and> combined_risk_score rb lb eb sp \<le> 4"
    unfolding eq using clamp_bounds [of "0::int" 4] by simp
  have idx: "nat (combined_risk_score rb lb eb sp) < length RISK_LEVELS
     \<and> risk_level_at (combined_risk_score rb lb eb sp)
       = Inr (RISK_LEVELS ! nat (combined_risk_score rb lb eb sp))"
    using rng risk_level_at_in_range by simp
  have inr: "0 \<le> rb \<and> rb \<le> 4 \<and> 0 \<le> lb \<and> lb \<le> 4 \<and> 0 \<le> eb \<and> eb \<le> 4 \<and> 0 \<le> sp \<and> sp \<le> 2 \<longrightarrow>
        combined_risk_score rb lb eb sp =
          clamp (py_round (0.70 * of_int rb + 0.20 * of_int lb + 0.10 * of_int eb) - sp) 0 4"
    unfolding eq by (simp add: clamp_id)
  have c1: "0.70 * of_int 2 + 0.20 * of_int 4 + 0.10 * of_int 4 = (2.6::real)" by simp
  have c2: "py_round 2.6 = 3" by (rule py_round_num)
  have c3: "combined_risk_score 2 4 4 0 = 3"
    unfolding combined_risk_score_def Let_def clamp_num c1 c2 by (simp add: clamp_num)
  have c4: "risk_level_at (combined_risk_score 2 4 4 0) = Inr ''HIGH''"
    unfolding c3 by (simp add: risk_level_at_def RISK_LEVELS_def)
  from eq rng idx inr c1 c2 c3 c4 show ?thesis by (intro conjI) simp_all
qed

theorem combined_risk_score_spec_witness:
  "(0 \<le> (1::int) \<and> (1::int) \<le> 4 \<and> 0 \<le> (2::int) \<and> (2::int) \<le> 4 \<and> 0 \<le> (3::int) \<and> (3::int) \<le> 4
     \<and> 0 \<le> (1::int) \<and> (1::int) \<le> 2)
   \<and> combined_risk_score 1 2 3 1 =
          clamp (py_round (0.70 * of_int 1 + 0.20 * of_int 2 + 0.10 * of_int 3) - 1) 0 4
   \<and> 0 \<le> combined_risk_score 1 2 3 1 \<and> combined_risk_score 1 2 3 1 \<le> 4"
  using combined_risk_score_spec [of 1 2 3 1] by simp

section \<open>Effective rainfall\<close>

lemma lit_6_4: "lit 6.4 = Fin (3602879701896397 / 562949953421312)"
proof -
  have r: "rd 6.4 = 3602879701896397 / 562949953421312"
    by (rule rd_eval [where e = "2" and m = "7205759403792794"])
       (simp_all add: pow2_def py_round_def Let_def)
  show ?thesis unfolding lit_def round_double_def r by (simp add: pow2_def)
qed

lemma rain_2_8_10_extra_3h: "fsub (Fin 8) (Fin 2) = Fin 6"
proof -
  have x: "8 + - 2 = (6::real)" by simp
  have r: "rd (6) = 6"
    by (rule rd_eval [where e = "2" and m = "6755399441055744"])
       (simp_all add: pow2_def py_round_def Let_def)
  show ?thesis unfolding fsub_def fneg.simps fadd.simps x round_double_def r by (simp add: pow2_def)
qed

lemma rain_2_8_10_extra_6h: "fsub (Fin 10) (Fin 8) = Fin 2"
proof -
  have x: "10 + - 8 = (2::real)" by simp
  have r: "rd (2) = 2"
    by (rule rd_eval [where e = "1" and m = "4503599627370496"])
       (simp_all add: pow2_def py_round_def Let_def)
  show ?thesis unfolding fsub_def fneg.simps fadd.simps x round_double_def r by (simp add: pow2_def)
qed

lemma rain_2_8_10_part_3h: "fmul (Fin (5404319552844595 / 9007199254740992)) (Fin 6) = Fin (2026619832316723 / 562949953421312)"
proof -
  have x: "(5404319552844595 / 9007199254740992) * 6 = (16212958658533785 / 4503599627370496::real)" by simp
  have r: "rd (16212958658533785 / 4503599627370496) = 2026619832316723 / 562949953421312"
    by (rule rd_eval [where e = "1" and m = "8106479329266892"])
       (simp_all add: pow2_def py_round_def Let_def)
  show ?thesis unfolding fmul.simps x round_double_def r by (simp add: pow2_def)
qed

lemma rain_2_8_10_part_6h: "fmul (Fin (3602879701896397 / 9007199254740992)) (Fin 2) = Fin (3602879701896397 / 4503599627370496)"
proof -
  have x: "(3602879701896397 / 9007199254740992) * 2 = (3602879701896397 / 4503599627370496::real)" by simp
  have r: "rd (3602879701896397 / 4503599627370496) = 3602879701896397 / 4503599627370496"
    by (rule rd_eval [where e = "- 1" and m = "7205759403792794"])
       (simp_all add: pow2_def py_round_def Let_def)
  show ?thesis unfolding fmul.simps x round_double_def r by (simp add: pow2_def)
qed

lemma rain_2_8_10_sum_3h: "fadd (Fin 2) (Fin (2026619832316723 / 562949953421312)) = Fin (3152519739159347 / 562949953421312)"
proof -
  have x: "2 + (2026619832316723 / 562949953421312) = (3152519739159347 / 562949953421312::real)" by simp
  have r: "rd (3152519739159347 / 562949953421312) = 3152519739159347 / 562949953421312"
    by (rule rd_eval [where e = "2" and m = "6305039478318694"])
       (simp_all add: pow2_def py_round_def Let_def)
  show ?thesis unfolding fadd.simps x round_double_def r by (simp add: pow2_def)
qed

lemma rain_2_8_10_sum_6h: "fadd (Fin (3152519739159347 / 562949953421312)) (Fin (3602879701896397 / 4503599627370496)) = Fin (7205759403792793 / 1125899906842624)"
proof -
  have x: "(3152519739159347 / 562949953421312) + (3602879701896397 / 4503599627370496) = (28823037615171173 / 4503599627370496::real)" by simp
  have r: "rd (28823037615171173 / 4503599627370496) = 7205759403792793 / 1125899906842624"
    by (rule rd_eval [where e = "2" and m = "7205759403792793"])
       (simp_all add: pow2_def py_round_def Let_def)
  show ?thesis unfolding fadd.simps x round_double_def r by (simp add: pow2_def)
qed

lemma rain_0_075_0875_extra_3h: "fsub (Fin (3 / 4)) (Fin 0) = Fin (3 / 4)"
proof -
  have x: "(3 / 4) + - 0 = (3 / 4::real)" by simp
  have r: "rd (3 / 4) = 3 / 4"
    by (rule rd_eval [where e = "- 1" and m = "6755399441055744"])
       (simp_all add: pow2_def py_round_def Let_def)
  show ?thesis unfolding fsub_def fneg.simps fadd.simps x round_double_def r by (simp add: pow2_def)
qed

lemma rain_0_075_0875_extra_6h: "fsub (Fin (7 / 8)) (Fin (3 / 4)) = Fin (1 / 8)"
proof -
  have x: "(7 / 8) + - (3 / 4) = (1 / 8::real)" by simp
  have r: "rd (1 / 8) = 1 / 8"
    by (rule rd_eval [where e = "- 3" and m = "4503599627370496"])
       (simp_all add: pow2_def py_round_def Let_def)
  show ?thesis unfolding fsub_def fneg.simps fadd.simps x round_double_def r by (simp add: pow2_def)
qed

lemma rain_0_075_0875_part_3h: "fmul (Fin (5404319552844595 / 9007199254740992)) (Fin (3 / 4)) = Fin (2026619832316723 / 4503599627370496)"
proof -
  have x: "(5404319552844595 / 9007199254740992) * (3 / 4) = (16212958658533785 / 36028797018963968::real)" by simp
  have r: "rd (16212958658533785 / 36028797018963968) = 2026619832316723 / 4503599627370496"
    by (rule rd_eval [where e = "- 2" and m = "8106479329266892"])
       (simp_all add: pow2_def py_round_def Let_def)
  show ?thesis unfolding fmul.simps x round_double_def r by (simp add: pow2_def)
qed

lemma rain_0_075_0875_part_6h: "fmul (Fin (3602879701896397 / 9007199254740992)) (Fin (1 / 8)) = Fin (3602879701896397 / 72057594037927936)"
proof -
  have x: "(3602879701896397 / 9007199254740992) * (1 / 8) = (3602879701896397 / 72057594037927936::real)" by simp
  have r: "rd (3602879701896397 / 72057594037927936) = 3602879701896397 / 72057594037927936"
    by (rule rd_eval [where e = "- 5" and m = "7205759403792794"])
       (simp_all add: pow2_def py_round_def Let_def)
  show ?thesis unfolding fmul.simps x round_double_def r by (simp add: pow2_def)
qed

lemma rain_0_075_0875_sum_3h: "fadd (Fin 0) (Fin (2026619832316723 / 4503599627370496)) = Fin (2026619832316723 / 4503599627370496)"
proof -
  have x: "0 + (2026619832316723 / 4503599627370496) = (2026619832316723 / 4503599627370496::real)" by simp
  have r: "rd (2026619832316723 / 4503599627370496) = 2026619832316723 / 4503599627370496"
    by (rule rd_eval [where e = "- 2" and m = "8106479329266892"])
       (simp_all add: pow2_def py_round_def Let_def)
  show ?thesis unfolding fadd.simps x round_double_def r by (simp add: pow2_def)
qed

lemma rain_0_075_0875_sum_6h: "fadd (Fin (2026619832316723 / 4503599627370496)) (Fin (3602879701896397 / 72057594037927936)) = Fin (9007199254740991 / 18014398509481984)"
proof -
  have x: "(2026619832316723 / 4503599627370496) + (3602879701896397 / 72057594037927936) = (36028797018963965 / 72057594037927936::real)" by simp
  have r: "rd (36028797018963965 / 72057594037927936) = 9007199254740991 / 18014398509481984"
    by (rule rd_eval [where e = "- 2" and m = "9007199254740991"])
       (simp_all add: pow2_def py_round_def Let_def)
  show ?thesis unfolding fadd.simps x round_double_def r by (simp add: pow2_def)
qed

lemma rain_2_add_0: "fadd (Fin 2) (Fin 0) = Fin 2"
proof -
  have x: "2 + 0 = (2::real)" by simp
  have r: "rd (2) = 2"
    by (rule rd_eval [where e = "1" and m = "4503599627370496"])
       (simp_all add: pow2_def py_round_def Let_def)
  show ?thesis unfolding fadd.simps x round_double_def r by (simp add: pow2_def)
qed

lemma rain_0_sub_2: "fsub (Fin 0) (Fin 2) = Fin (- 2)"
proof -
  have x: "0 + - 2 = (- 2::real)" by simp
  have r: "rd (- 2) = - 2"
    by (rule rd_eval [where e = "1" and m = "- 4503599627370496"])
       (simp_all add: pow2_def py_round_def Let_def)
  show ?thesis unfolding fsub_def fneg.simps fadd.simps x round_double_def r by (simp add: pow2_def)
qed

lemma lit_0_6_pos: "\<exists>c. lit 0.6 = Fin c \<and> 0 < c"
  unfolding lit_0_6 by (intro exI conjI) (rule refl, simp)

lemma lit_0_4_pos: "\<exists>c. lit 0.4 = Fin c \<and> 0 < c"
  unfolding lit_0_4 by (intro exI conjI) (rule refl, simp)

lemma clamped_rain:
  "py_max (Fin 0) (safe_float x (Fin 0)) =
     (case x of None \<Rightarrow> Fin 0 | Some v \<Rightarrow> if flt (Fin 0) v then v else Fin 0)"
  by (cases x) (simp_all add: safe_float_def py_max_def)

lemma weighted_nonneg:
  assumes "\<exists>c. w = Fin c \<and> 0 < c"
  shows "fle (Fin 0) (fmul w (py_max (Fin 0) v))"
proof -
  from assms obtain c where c: "w = Fin c" "0 < c" by blast
  show ?thesis unfolding c(1) using c(2) py_max_zero_nonneg by (rule fmul_pos_nonneg)
qed

lemma effective_rain_6h_2_8_10:
  "effective_rain_6h (Some (Fin 2)) (Some (Fin 8)) (Some (Fin 10)) = Fin (7205759403792793 / 1125899906842624)"
proof -
  have m: "py_max (Fin 0) (Fin 2) = Fin 2" "py_max (Fin 0) (Fin 8) = Fin 8"
    "py_max (Fin 0) (Fin 10) = Fin 10" "py_max (Fin 0) (Fin 6) = Fin 6"
    "py_max (Fin 0) (Fin 2) = Fin 2"
    "py_max (Fin 0) (Fin (7205759403792793 / 1125899906842624)) = Fin (7205759403792793 / 1125899906842624)"
    by (simp_all add: py_max_def)
  show ?thesis
    unfolding effective_rain_6h_def Let_def safe_float_def option.case m
      rain_2_8_10_extra_3h rain_2_8_10_extra_6h lit_0_6 lit_0_4
      rain_2_8_10_part_3h rain_2_8_10_part_6h rain_2_8_10_sum_3h rain_2_8_10_sum_6h ..
qed

lemma effective_rain_6h_0_075_0875:
  "effective_rain_6h (Some (Fin 0)) (Some (Fin 0.75)) (Some (Fin 0.875))
     = Fin (9007199254740991 / 18014398509481984)"
proof -
  have n: "(0.75::real) = 3 / 4" "(0.875::real) = 7 / 8" by simp_all
  have m: "py_max (Fin 0) (Fin 0) = Fin 0" "py_max (Fin 0) (Fin (3 / 4)) = Fin (3 / 4)"
    "py_max (Fin 0) (Fin (7 / 8)) = Fin (7 / 8)" "py_max (Fin 0) (Fin (3 / 4)) = Fin (3 / 4)"
    "py_max (Fin 0) (Fin (1 / 8)) = Fin (1 / 8)"
    "py_max (Fin 0) (Fin (9007199254740991 / 18014398509481984)) = Fin (9007199254740991 / 18014398509481984)"
    by (simp_all add: py_max_def)
  show ?thesis
    unfolding n effective_rain_6h_def Let_def safe_float_def option.case m
      rain_0_075_0875_extra_3h rain_0_075_0875_extra_6h lit_0_6 lit_0_4
      rain_0_075_0875_part_3h rain_0_075_0875_part_6h rain_0_075_0875_sum_3h
      rain_0_075_0875_sum_6h ..
qed

lemma rain_band_num:
  "rain_band_from_eff6 (Some (Fin (7205759403792793 / 1125899906842624))) = 2"
  "rain_band_from_eff6 (Some (Fin (3602879701896397 / 562949953421312))) = 2"
  "rain_band_from_eff6 (Some (Fin (9007199254740991 / 18014398509481984))) = 0"
  "rain_band_from_eff6 (Some (Fin 0.5)) = 1"
  by (simp_all add: rain_band_from_eff6_def safe_float_def py_max_def Let_def)

text \<open>
  C4, as stated, at \<open>rain_1h = 2\<close>, \<open>rain_3h = 8\<close>, \<open>rain_6h = 10\<close>: the code computes
  \<open>2 + 0.6 * 6 + 0.4 * 2\<close> in binary64 arithmetic and returns 6.3999999999999995, the
  number just below the float \<open>6.4\<close>. At \<open>rain_1h = 0\<close>, \<open>rain_3h = 0.75\<close>,
  \<open>rain_6h = 0.875\<close> it returns 0.49999999999999994, which is in rain band 0, where the
  formula over the reals gives 0.5, which is in band 1.
\<close>

theorem effective_rain_6h_is_rounded:
  "effective_rain_6h (Some (Fin 2)) (Some (Fin 8)) (Some (Fin 10))
     = Fin (7205759403792793 / 1125899906842624)
   \<and> effective_rain_6h (Some (Fin 2)) (Some (Fin 8)) (Some (Fin 10)) \<noteq> lit 6.4
   \<and> effective_rain_6h (Some (Fin 2)) (Some (Fin 8)) (Some (Fin 10)) \<noteq> Fin 6.4
   \<and> flt (effective_rain_6h (Some (Fin 2)) (Some (Fin 8)) (Some (Fin 10))) (lit 6.4)
   \<and> effective_rain_6h (Some (Fin 0)) (Some (Fin 0.75)) (Some (Fin 0.875))
     \<noteq> Fin (0 + 0.6 * max 0 (0.75 - 0) + 0.4 * max 0 (0.875 - 0.75))
   \<and> rain_band_from_eff6
        (Some (effective_rain_6h (Some (Fin 0)) (Some (Fin 0.75)) (Some (Fin 0.875)))) = 0
   \<and> rain_band_from_eff6
        (Some (Fin (0 + 0.6 * max 0 (0.75 - 0) + 0.4 * max 0 (0.875 - 0.75)))) = 1"
proof -
  have v: "(0 + 0.6 * max 0 (0.75 - 0) + 0.4 * max 0 (0.875 - 0.75) :: real) = 0.5"
    by simp
  show ?thesis
    unfolding effective_rain_6h_2_8_10 effective_rain_6h_0_075_0875 lit_6_4 v rain_band_num
    by simp
qed

text \<open>
  C4 (amended): an absent, negative or NaN amount is read as 0; with \<open>r1\<close>, \<open>r3\<close>, \<open>r6\<close>
  the amounts so read, \<open>eff_1h = r1\<close>, \<open>eff_3h = r1 + 0.6 * max(0, r3 - r1)\<close> and
  \<open>eff_6h = r1 + 0.6 * max(0, r3 - r1) + 0.4 * max(0, r6 - r3)\<close>, where every
  subtraction, product and sum is rounded to the nearest binary64 number and \<open>0.6\<close>,
  \<open>0.4\<close> are the floats of these literals; none of the three is negative or NaN. For
  \<open>rain_1h = 2\<close>, \<open>rain_3h = 8\<close>, \<open>rain_6h = 10\<close> the effective 6h rainfall is
  6.3999999999999995; its rain band is 2, as is the rain band of the float \<open>6.4\<close>.
\<close>

theorem effective_rain_spec:
  "(let r1 = (case rain_1h of None \<Rightarrow> Fin 0 | Some v \<Rightarrow> if flt (Fin 0) v then v else Fin 0);
        r3 = (case rain_3h of None \<Rightarrow> Fin 0 | Some v \<Rightarrow> if flt (Fin 0) v then v else Fin 0);
        r6 = (case rain_6h of None \<Rightarrow> Fin 0 | Some v \<Rightarrow> if flt (Fin 0) v then v else Fin 0)
    in effective_rain_1h rain_1h = r1
     \<and> effective_rain_3h rain_1h rain_3h
         = fadd r1 (fmul (lit 0.6) (py_max (Fin 0) (fsub r3 r1)))
     \<and> effective_rain_6h rain_1h rain_3h rain_6h
         = fadd (fadd r1 (fmul (lit 0.6) (py_max (Fin 0) (fsub r3 r1))))
                (fmul (lit 0.4) (py_max (Fin 0) (fsub r6 r3))))
   \<and> fle (Fin 0) (effective_rain_1h rain_1h)
   \<and> fle (Fin 0) (effective_rain_3h rain_1h rain_3h)
   \<and> fle (Fin 0) (effective_rain_6h rain_1h rain_3h rain_6h)
   \<and> effective_rain_6h (Some (Fin 2)) (Some (Fin 8)) (Some (Fin 10))
       = Fin (7205759403792793 / 1125899906842624)
   \<and> rain_band_from_eff6 (Some (effective_rain_6h (Some (Fin 2)) (Some (Fin 8)) (Some (Fin 10))))
       = 2
   \<and> rain_band_from_eff6 (Some (lit 6.4)) = 2"
proof -
  define r1 where "r1 = py_max (Fin 0) (safe_float rain_1h (Fin 0))"
  define r3 where "r3 = py_max (Fin 0) (safe_float rain_3h (Fin 0))"
  define r6 where "r6 = py_max (Fin 0) (safe_float rain_6h (Fin 0))"
  have n1: "fle (Fin 0) r1" unfolding r1_def by (rule py_max_zero_nonneg)
  have w3: "fle (Fin 0) (fmul (lit 0.6) (py_max (Fin 0) (fsub r3 r1)))"
    using lit_0_6_pos by (rule weighted_nonneg)
  have w6: "fle (Fin 0) (fmul (lit 0.4) (py_max (Fin 0) (fsub r6 r3)))"
    using lit_0_4_pos by (rule weighted_nonneg)
  have s3: "fle (Fin 0) (fadd r1 (fmul (lit 0.6) (py_max (Fin 0) (fsub r3 r1))))"
    using n1 w3 by (rule fadd_nonneg)
  have s6: "fle (Fin 0) (fadd (fadd r1 (fmul (lit 0.6) (py_max (Fin 0) (fsub r3 r1))))
                (fmul (lit 0.4) (py_max (Fin 0) (fsub r6 r3))))"
    using s3 w6 by (rule fadd_nonneg)
  have e1: "effective_rain_1h rain_1h = r1"
    by (simp add: effective_rain_1h_def r1_def)
  have e3: "effective_rain_3h rain_1h rain_3h
         = fadd r1 (fmul (lit 0.6) (py_max (Fin 0) (fsub r3 r1)))"
    unfolding effective_rain_3h_def Let_def r1_def [symmetric] r3_def [symmetric]
    using s3 by (rule py_max_zero_id)
  have e6: "effective_rain_6h rain_1h rain_3h rain_6h
         = fadd (fadd r1 (fmul (lit 0.6) (py_max (Fin 0) (fsub r3 r1))))
                (fmul (lit 0.4) (py_max (Fin 0) (fsub r6 r3)))"
    unfolding effective_rain_6h_def Let_def r1_def [symmetric] r3_def [symmetric]
      r6_def [symmetric]
    using s6 by (rule py_max_zero_id)
  have g: "(let r1 = (case rain_1h of None \<Rightarrow> Fin 0 | Some v \<Rightarrow> if flt (Fin 0) v then v else Fin 0);
        r3 = (case rain_3h of None \<Rightarrow> Fin 0 | Some v \<Rightarrow> if flt (Fin 0) v then v else Fin 0);
        r6 = (case rain_6h of None \<Rightarrow> Fin 0 | Some v \<Rightarrow> if flt (Fin 0) v then v else Fin 0)
    in effective_rain_1h rain_1h = r1
     \<and> effective_rain_3h rain_1h rain_3h
         = fadd r1 (fmul (lit 0.6) (py_max (Fin 0) (fsub r3 r1)))
     \<and> effective_rain_6h rain_1h rain_3h rain_6h
         = fadd (fadd r1 (fmul (lit 0.6) (py_max (Fin 0) (fsub r3 r1))))
                (fmul (lit 0.4) (py_max (Fin 0) (fsub r6 r3))))"
    unfolding Let_def clamped_rain [symmetric] r1_def [symmetric] r3_def [symmetric]
      r6_def [symmetric]
    using e1 e3 e6 by (intro conjI)
  have p1: "fle (Fin 0) (effective_rain_1h rain_1h)" unfolding e1 by (rule n1)
  have p3: "fle (Fin 0) (effective_rain_3h rain_1h rain_3h)" unfolding e3 by (rule s3)
  have p6: "fle (Fin 0) (effective_rain_6h rain_1h rain_3h rain_6h)" unfolding e6 by (rule s6)
  have b1: "rain_band_from_eff6
      (Some (effective_rain_6h (Some (Fin 2)) (Some (Fin 8)) (Some (Fin 10)))) = 2"
    unfolding effective_rain_6h_2_8_10 by (rule rain_band_num)
  have b2: "rain_band_from_eff6 (Some (lit 6.4)) = 2"
    unfolding lit_6_4 by (rule rain_band_num)
  from g p1 p3 p6 effective_rain_6h_2_8_10 b1 b2 show ?thesis by (intro conjI)
qed

theorem effective_rain_spec_witness:
  "effective_rain_1h (Some NaN) = Fin 0
   \<and> effective_rain_1h (Some (Fin (- 1))) = Fin 0
   \<and> effective_rain_6h (Some (Fin 2)) None (Some NaN) = Fin 2"
proof -
  note z = fmul_lit_zero
  have a: "fadd (Fin 2) (Fin 0) = Fin 2" by (rule rain_2_add_0)
  have m: "py_max (Fin 0) (fsub (Fin 0) (Fin 2)) = Fin 0"
    "py_max (Fin 0) (fsub (Fin 0) (Fin 0)) = Fin 0"
    unfolding rain_0_sub_2 fsub_zero_zero by (simp_all add: py_max_def)
  from effective_rain_spec [of "Some NaN" None None]
  have w1: "effective_rain_1h (Some NaN) = Fin 0" by (simp add: Let_def)
  from effective_rain_spec [of "Some (Fin (- 1))" None None]
  have w2: "effective_rain_1h (Some (Fin (- 1))) = Fin 0" by (simp add: Let_def)
  from effective_rain_spec [of "Some (Fin 2)" None "Some NaN"]
  have "effective_rain_6h (Some (Fin 2)) None (Some NaN)
         = fadd (fadd (Fin 2) (fmul (lit 0.6) (py_max (Fin 0) (fsub (Fin 0) (Fin 2)))))
                (fmul (lit 0.4) (py_max (Fin 0) (fsub (Fin 0) (Fin 0))))"
    by (simp add: Let_def)
  then have w3: "effective_rain_6h (Some (Fin 2)) None (Some NaN) = Fin 2"
    unfolding m z a .
  from w1 w2 w3 show ?thesis by (intro conjI)
qed

section \<open>Hazard records and the rain hazard\<close>

lemma level_rank_simps:
  "LEVEL_RANK ''none'' = Some 0" "LEVEL_RANK ''info'' = Some 1" "LEVEL_RANK ''watch'' = Some 2"
  "LEVEL_RANK ''warning'' = Some 3" "LEVEL_RANK ''danger'' = Some 4"
  by (simp_all add: LEVEL_RANK_def LEVEL_ORDER_def upt_rec)

lemma make_hazard_known:
  "make_hazard t ''info'' sc hl dv dc =
     \<lparr> h_type = t, level = ''info'', score = sc, headline = hl, desc_value = dv, desc_cloudy = dc \<rparr>"
  "make_hazard t ''watch'' sc hl dv dc =
     \<lparr> h_type = t, level = ''watch'', score = sc, headline = hl, desc_value = dv, desc_cloudy = dc \<rparr>"
  "make_hazard t ''warning'' sc hl dv dc =
     \<lparr> h_type = t, level = ''warning'', score = sc, headline = hl, desc_value = dv, desc_cloudy = dc \<rparr>"
  "make_hazard t ''danger'' sc hl dv dc =
     \<lparr> h_type = t, level = ''danger'', score = sc, headline = hl, desc_value = dv, desc_cloudy = dc \<rparr>"
  by (simp_all add: make_hazard_def level_rank_simps)

lemma build_rain_hazard_tiers:
  assumes e: "e = rain_eff rain_1h rain_3h rain_6h"
  shows
   "build_rain_hazard rain_1h rain_3h rain_6h precip_now =
     (if flt e (Fin 0.5) then
        (if (case precip_now of None \<Rightarrow> False | Some p \<Rightarrow> fle (lit 0.1) p)
         then Some \<lparr> h_type = ''rain'', level = ''info'', score = 1, headline = ''Mua nhe'',
                     desc_value = None, desc_cloudy = False \<rparr>
         else None)
      else if flt e (Fin 5) then
        Some \<lparr> h_type = ''rain'', level = ''info'', score = 1, headline = ''Mua nho, rai rac'',
               desc_value = Some e, desc_cloudy = False \<rparr>
      else if flt e (Fin 15) then
        Some \<lparr> h_type = ''rain'', level = ''watch'', score = 2,
               headline = ''Mua vua, co nguy co ngap nhe'',
               desc_value = Some e, desc_cloudy = False \<rparr>
      else if flt e (Fin 30) then
        Some \<lparr> h_type = ''rain'', level = ''warning'', score = 3,
               headline = ''Mua to, nguy co ngap cuc bo'',
               desc_value = Some e, desc_cloudy = False \<rparr>
      else
        Some \<lparr> h_type = ''rain'', level = ''danger'', score = 4,
               headline = ''Mua rat to, nguy co lu cuc bo'',
               desc_value = Some e, desc_cloudy = False \<rparr>)"
  unfolding build_rain_hazard_def Let_def e [symmetric] make_hazard_known
  by (cases precip_now) simp_all

lemma tier_bounds:
  "flt e (Fin 0.5) \<Longrightarrow> flt e (Fin 5)" "flt e (Fin 5) \<Longrightarrow> flt e (Fin 15)"
  "flt e (Fin 15) \<Longrightarrow> flt e (Fin 30)"
  by (cases e; simp)+

lemma lit_0_1: "lit 0.1 = Fin (3602879701896397 / 36028797018963968)"
proof -
  have r: "rd 0.1 = 3602879701896397 / 36028797018963968"
    by (rule rd_eval [where e = "- 4" and m = "7205759403792794"])
       (simp_all add: pow2_def py_round_def Let_def)
  show ?thesis unfolding lit_def round_double_def r by (simp add: pow2_def)
qed

lemma lit_0_2: "lit 0.2 = Fin (3602879701896397 / 18014398509481984)"
proof -
  have r: "rd 0.2 = 3602879701896397 / 18014398509481984"
    by (rule rd_eval [where e = "- 3" and m = "7205759403792794"])
       (simp_all add: pow2_def py_round_def Let_def)
  show ?thesis unfolding lit_def round_double_def r by (simp add: pow2_def)
qed

lemma lit_0_05: "lit 0.05 = Fin (3602879701896397 / 72057594037927936)"
proof -
  have r: "rd 0.05 = 3602879701896397 / 72057594037927936"
    by (rule rd_eval [where e = "- 5" and m = "7205759403792794"])
       (simp_all add: pow2_def py_round_def Let_def)
  show ?thesis unfolding lit_def round_double_def r by (simp add: pow2_def)
qed

lemma rain_0_24_255_extra_3h: "fsub (Fin 24) (Fin 0) = Fin 24"
proof -
  have x: "24 + - 0 = (24::real)" by simp
  have r: "rd (24) = 24"
    by (rule rd_eval [where e = "4" and m = "6755399441055744"])
       (simp_all add: pow2_def py_round_def Let_def)
  show ?thesis unfolding fsub_def fneg.simps fadd.simps x round_double_def r by (simp add: pow2_def)
qed

lemma rain_0_24_255_extra_6h: "fsub (Fin (51 / 2)) (Fin 24) = Fin (3 / 2)"
proof -
  have x: "(51 / 2) + - 24 = (3 / 2::real)" by simp
  have r: "rd (3 / 2) = 3 / 2"
    by (rule rd_eval [where e = "0" and m = "6755399441055744"])
       (simp_all add: pow2_def py_round_def Let_def)
  show ?thesis unfolding fsub_def fneg.simps fadd.simps x round_double_def r by (simp add: pow2_def)
qed

lemma rain_0_24_255_part_3h: "fmul (Fin (5404319552844595 / 9007199254740992)) (Fin 24) = Fin (2026619832316723 / 140737488355328)"
proof -
  have x: "(5404319552844595 / 9007199254740992) * 24 = (16212958658533785 / 1125899906842624::real)" by simp
  have r: "rd (16212958658533785 / 1125899906842624) = 2026619832316723 / 140737488355328"
    by (rule rd_eval [where e = "3" and m = "8106479329266892"])
       (simp_all add: pow2_def py_round_def Let_def)
  show ?thesis unfolding fmul.simps x round_double_def r by (simp add: pow2_def)
qed

lemma rain_0_24_255_part_6h: "fmul (Fin (3602879701896397 / 9007199254740992)) (Fin (3 / 2)) = Fin (1351079888211149 / 2251799813685248)"
proof -
  have x: "(3602879701896397 / 9007199254740992) * (3 / 2) = (10808639105689191 / 18014398509481984::real)" by simp
  have r: "rd (10808639105689191 / 18014398509481984) = 1351079888211149 / 2251799813685248"
    by (rule rd_eval [where e = "- 1" and m = "5404319552844596"])
       (simp_all add: pow2_def py_round_def Let_def)
  show ?thesis unfolding fmul.simps x round_double_def r by (simp add: pow2_def)
qed

lemma rain_0_24_255_sum_3h: "fadd (Fin 0) (Fin (2026619832316723 / 140737488355328)) = Fin (2026619832316723 / 140737488355328)"
proof -
  have x: "0 + (2026619832316723 / 140737488355328) = (2026619832316723 / 140737488355328::real)" by simp
  have r: "rd (2026619832316723 / 140737488355328) = 2026619832316723 / 140737488355328"
    by (rule rd_eval [where e = "3" and m = "8106479329266892"])
       (simp_all add: pow2_def py_round_def Let_def)
  show ?thesis unfolding fadd.simps x round_double_def r by (simp add: pow2_def)
qed

lemma rain_0_24_255_sum_6h: "fadd (Fin (2026619832316723 / 140737488355328)) (Fin (1351079888211149 / 2251799813685248)) = Fin (8444249301319679 / 562949953421312)"
proof -
  have x: "(2026619832316723 / 140737488355328) + (1351079888211149 / 2251799813685248) = (33776997205278717 / 2251799813685248::real)" by simp
  have r: "rd (33776997205278717 / 2251799813685248) = 8444249301319679 / 562949953421312"
    by (rule rd_eval [where e = "3" and m = "8444249301319679"])
       (simp_all add: pow2_def py_round_def Let_def)
  show ?thesis unfolding fadd.simps x round_double_def r by (simp add: pow2_def)
qed

lemma rain_eff_0_24_255:
  "rain_eff (Some (Fin 0)) (Some (Fin 24)) (Some (Fin 25.5)) = Fin (8444249301319679 / 562949953421312)"
proof -
  have n: "(25.5::real) = 51 / 2" by simp
  have m: "py_max (Fin 0) (Fin 24) = Fin 24" "py_max (Fin 0) (Fin (3 / 2)) = Fin (3 / 2)"
    by (simp_all add: py_max_def)
  show ?thesis
    unfolding n rain_eff_def Let_def float_or_zero_def option.case
      rain_0_24_255_extra_3h rain_0_24_255_extra_6h m lit_0_6 lit_0_4
      rain_0_24_255_part_3h rain_0_24_255_part_6h rain_0_24_255_sum_3h rain_0_24_255_sum_6h ..
qed

lemma rain_eff_none: "rain_eff None None None = Fin 0"
proof -
  note z = fmul_lit_zero
  have m: "py_max (Fin 0) (Fin 0) = Fin 0" by (simp add: py_max_def)
  note a = fadd_zero_zero
  show ?thesis
    unfolding rain_eff_def Let_def float_or_zero_def option.case fsub_zero_zero m z a ..
qed

text \<open>A NaN amount makes \<open>eff\<close> NaN, which fails every comparison and so reaches the
  last tier.\<close>

lemma build_rain_hazard_nan:
  "rain_eff (Some NaN) rain_3h rain_6h = NaN"
  "rain_eff rain_1h rain_3h rain_6h = NaN \<Longrightarrow>
     \<exists>h. build_rain_hazard rain_1h rain_3h rain_6h precip_now = Some h
        \<and> h_type h = ''rain'' \<and> level h = ''danger''"
proof -
  show "rain_eff (Some NaN) rain_3h rain_6h = NaN"
    by (simp add: rain_eff_def Let_def float_or_zero_def)
next
  assume n: "rain_eff rain_1h rain_3h rain_6h = NaN"
  show "\<exists>h. build_rain_hazard rain_1h rain_3h rain_6h precip_now = Some h
        \<and> h_type h = ''rain'' \<and> level h = ''danger''"
    unfolding build_rain_hazard_tiers [OF n [symmetric]] by simp
qed

text \<open>
  C5: with \<open>eff = r1 + 0.6 * extra_3h + 0.4 * extra_6h\<close> as the code computes it (every
  operation rounded to binary64), the rain classifier returns no hazard when
  \<open>eff < 0.5\<close>, unless the current-hour precipitation is at least 0.1 mm, when it
  returns the light-rain hazard of level info; for \<open>eff\<close> in \<open>[0.5, 5)\<close> an info hazard,
  in \<open>[5, 15)\<close> a watch hazard, in \<open>[15, 30)\<close> a warning hazard, and from 30 on a danger
  hazard.
\<close>

theorem build_rain_hazard_spec:
  "rain_eff rain_1h rain_3h rain_6h =
      fadd (fadd (float_or_zero rain_1h)
                 (fmul (lit 0.6)
                    (py_max (Fin 0) (fsub (float_or_zero rain_3h) (float_or_zero rain_1h)))))
           (fmul (lit 0.4)
              (py_max (Fin 0) (fsub (float_or_zero rain_6h) (float_or_zero rain_3h))))
   \<and> (flt (rain_eff rain_1h rain_3h rain_6h) (Fin 0.5)
        \<and> \<not> (case precip_now of None \<Rightarrow> False | Some p \<Rightarrow> fle (lit 0.1) p) \<longrightarrow>
        build_rain_hazard rain_1h rain_3h rain_6h precip_now = None)
   \<and> (flt (rain_eff rain_1h rain_3h rain_6h) (Fin 0.5)
        \<and> (case precip_now of None \<Rightarrow> False | Some p \<Rightarrow> fle (lit 0.1) p) \<longrightarrow>
        (\<exists>h. build_rain_hazard rain_1h rain_3h rain_6h precip_now = Some h
             \<and> h_type h = ''rain'' \<and> level h = ''info'' \<and> headline h = ''Mua nhe''))
   \<and> (fle (Fin 0.5) (rain_eff rain_1h rain_3h rain_6h)
        \<and> flt (rain_eff rain_1h rain_3h rain_6h) (Fin 5) \<longrightarrow>
        (\<exists>h. build_rain_hazard rain_1h rain_3h rain_6h precip_now = Some h
             \<and> h_type h = ''rain'' \<and> level h = ''info''))
   \<and> (fle (Fin 5) (rain_eff rain_1h rain_3h rain_6h)
        \<and> flt (rain_eff rain_1h rain_3h rain_6h) (Fin 15) \<longrightarrow>
        (\<exists>h. build_rain_hazard rain_1h rain_3h rain_6h precip_now = Some h
             \<and> h_type h = ''rain'' \<and> level h = ''watch''))
   \<and> (fle (Fin 15) (rain_eff rain_1h rain_3h rain_6h)
        \<and> flt (rain_eff rain_1h rain_3h rain_6h) (Fin 30) \<longrightarrow>
        (\<exists>h. build_rain_hazard rain_1h rain_3h rain_6h precip_now = Some h
             \<and> h_type h = ''rain'' \<and> level h = ''warning''))
   \<and> (fle (Fin 30) (rain_eff rain_1h rain_3h rain_6h) \<longrightarrow>
        (\<exists>h. build_rain_hazard rain_1h rain_3h rain_6h precip_now = Some h
             \<and> h_type h = ''rain'' \<and> level h = ''danger''))"
proof -
  define e where "e = rain_eff rain_1h rain_3h rain_6h"
  note t = build_rain_hazard_tiers [OF e_def, of precip_now]
  have eff: "rain_eff rain_1h rain_3h rain_6h =
      fadd (fadd (float_or_zero rain_1h)
                 (fmul (lit 0.6)
                    (py_max (Fin 0) (fsub (float_or_zero rain_3h) (float_or_zero rain_1h)))))
           (fmul (lit 0.4)
              (py_max (Fin 0) (fsub (float_or_zero rain_6h) (float_or_zero rain_3h))))"
    by (simp add: rain_eff_def Let_def)
  have a: "flt e (Fin 0.5)
        \<and> \<not> (case precip_now of None \<Rightarrow> False | Some p \<Rightarrow> fle (lit 0.1) p) \<longrightarrow>
        build_rain_hazard rain_1h rain_3h rain_6h precip_now = None"
    unfolding t by simp
  have b: "flt e (Fin 0.5)
        \<and> (case precip_now of None \<Rightarrow> False | Some p \<Rightarrow> fle (lit 0.1) p) \<longrightarrow>
        (\<exists>h. build_rain_hazard rain_1h rain_3h rain_6h precip_now = Some h
             \<and> h_type h = ''rain'' \<and> level h = ''info'' \<and> headline h = ''Mua nhe'')"
    unfolding t by simp
  have c: "fle (Fin 0.5) e \<and> flt e (Fin 5) \<longrightarrow>
        (\<exists>h. build_rain_hazard rain_1h rain_3h rain_6h precip_now = Some h
             \<and> h_type h = ''rain'' \<and> level h = ''info'')"
  proof
    assume h: "fle (Fin 0.5) e \<and> flt e (Fin 5)"
    then have n: "\<not> flt e (Fin 0.5)" using fle_not_flt by blast
    show "\<exists>h. build_rain_hazard rain_1h rain_3h rain_6h precip_now = Some h
             \<and> h_type h = ''rain'' \<and> level h = ''info''"
      unfolding t using n h by simp
  qed
  have d: "fle (Fin 5) e \<and> flt e (Fin 15) \<longrightarrow>
        (\<exists>h. build_rain_hazard rain_1h rain_3h rain_6h precip_now = Some h
             \<and> h_type h = ''rain'' \<and> level h = ''watch'')"
  proof
    assume h: "fle (Fin 5) e \<and> flt e (Fin 15)"
    then have n: "\<not> flt e (Fin 5)" using fle_not_flt by blast
    with tier_bounds(1) have n0: "\<not> flt e (Fin 0.5)" by blast
    show "\<exists>h. build_rain_hazard rain_1h rain_3h rain_6h precip_now = Some h
             \<and> h_type h = ''rain'' \<and> level h = ''watch''"
      unfolding t using n n0 h by simp
  qed
  have f: "fle (Fin 15) e \<and> flt e (Fin 30) \<longrightarrow>
        (\<exists>h. build_rain_hazard rain_1h rain_3h rain_6h precip_now = Some h
             \<and> h_type h = ''rain'' \<and> level h = ''warning'')"
  proof
    assume h: "fle (Fin 15) e \<and> flt e (Fin 30)"
    then have n: "\<not> flt e (Fin 15)" using fle_not_flt by blast
    with tier_bounds(2) have n5: "\<not> flt e (Fin 5)" by blast
    with tier_bounds(1) have n0: "\<not> flt e (Fin 0.5)" by blast
    show "\<exists>h. build_rain_hazard rain_1h rain_3h rain_6h precip_now = Some h
             \<and> h_type h = ''rain'' \<and> level h = ''warning''"
      unfolding t using n n5 n0 h by simp
  qed
  have g: "fle (Fin 30) e \<longrightarrow>
        (\<exists>h. build_rain_hazard rain_1h rain_3h rain_6h precip_now = Some h
             \<and> h_type h = ''rain'' \<and> level h = ''danger'')"
  proof
    assume h: "fle (Fin 30) e"
    then have n: "\<not> flt e (Fin 30)" using fle_not_flt by blast
    with tier_bounds(3) have n15: "\<not> flt e (Fin 15)" by blast
    with tier_bounds(2) have n5: "\<not> flt e (Fin 5)" by blast
    with tier_bounds(1) have n0: "\<not> flt e (Fin 0.5)" by blast
    show "\<exists>h. build_rain_hazard rain_1h rain_3h rain_6h precip_now = Some h
             \<and> h_type h = ''rain'' \<and> level h = ''danger''"
      unfolding t using n n15 n5 n0 by simp
  qed
  from eff a b c d f g show ?thesis unfolding e_def by (intro conjI)
qed

theorem build_rain_hazard_spec_witness:
  "rain_eff (Some (Fin 0)) (Some (Fin 24)) (Some (Fin 25.5))
     = Fin (8444249301319679 / 562949953421312)
   \<and> (\<exists>h. build_rain_hazard (Some (Fin 0)) (Some (Fin 24)) (Some (Fin 25.5)) None = Some h
          \<and> h_type h = ''rain'' \<and> level h = ''watch'')
   \<and> rain_eff None None None = Fin 0
   \<and> (\<exists>h. build_rain_hazard None None None (Some (lit 0.2)) = Some h
          \<and> h_type h = ''rain'' \<and> level h = ''info'' \<and> headline h = ''Mua nhe'')
   \<and> build_rain_hazard None None None (Some (lit 0.05)) = None"
proof -
  note e1 = rain_eff_0_24_255
  note e2 = rain_eff_none
  have p1: "fle (lit 0.1) (lit 0.2)" unfolding lit_0_1 lit_0_2 by simp
  have p2: "\<not> fle (lit 0.1) (lit 0.05)" unfolding lit_0_1 lit_0_05 by simp
  have "fle (Fin 5) (rain_eff (Some (Fin 0)) (Some (Fin 24)) (Some (Fin 25.5)))
        \<and> flt (rain_eff (Some (Fin 0)) (Some (Fin 24)) (Some (Fin 25.5))) (Fin 15) \<longrightarrow>
        (\<exists>h. build_rain_hazard (Some (Fin 0)) (Some (Fin 24)) (Some (Fin 25.5)) None = Some h
             \<and> h_type h = ''rain'' \<and> level h = ''watch'')"
    using build_rain_hazard_spec [of "Some (Fin 0)" "Some (Fin 24)" "Some (Fin 25.5)" None]
    by (elim conjE)
  then have w1: "\<exists>h. build_rain_hazard (Some (Fin 0)) (Some (Fin 24)) (Some (Fin 25.5)) None
          = Some h \<and> h_type h = ''rain'' \<and> level h = ''watch''"
    unfolding e1 by simp
  have "flt (rain_eff None None None) (Fin 0.5)
        \<and> (case Some (lit 0.2) of None \<Rightarrow> False | Some p \<Rightarrow> fle (lit 0.1) p) \<longrightarrow>
        (\<exists>h. build_rain_hazard None None None (Some (lit 0.2)) = Some h
             \<and> h_type h = ''rain'' \<and> level h = ''info'' \<and> headline h = ''Mua nhe'')"
    using build_rain_hazard_spec [of None None None "Some (lit 0.2)"] by (elim conjE)
  then have w2: "\<exists>h. build_rain_hazard None None None (Some (lit 0.2)) = Some h
          \<and> h_type h = ''rain'' \<and> level h = ''info'' \<and> headline h = ''Mua nhe''"
    unfolding e2 using p1 by simp
  have "flt (rain_eff None None None) (Fin 0.5)
        \<and> \<not> (case Some (lit 0.05) of None \<Rightarrow> False | Some p \<Rightarrow> fle (lit 0.1) p) \<longrightarrow>
        build_rain_hazard None None None (Some (lit 0.05)) = None"
    using build_rain_hazard_spec [of None None None "Some (lit 0.05)"] by (elim conjE)
  then have w3: "build_rain_hazard None None None (Some (lit 0.05)) = None"
    unfolding e2 using p2 by simp
  from e1 w1 e2 w2 w3 show ?thesis by (intro conjI)
qed

section \<open>Overall alert level\<close>

lemma level_rank_SomeD:
  assumes "LEVEL_RANK lv = Some r"
  shows "r < length LEVEL_ORDER \<and> LEVEL_ORDER ! r = lv"
proof -
  from assms have "(lv, r) \<in> set (zip LEVEL_ORDER [0..<length LEVEL_ORDER])"
    unfolding LEVEL_RANK_def by (rule map_of_SomeD)
  then obtain k where k: "k < length LEVEL_ORDER" "lv = LEVEL_ORDER ! k"
      "r = [0..<length LEVEL_ORDER] ! k"
    by (auto simp: set_zip)
  then show ?thesis by simp
qed

lemma rank_le_4: "rank h \<le> 4"
proof (cases "LEVEL_RANK (level h)")
  case None
  then show ?thesis by (simp add: rank_def)
next
  case (Some r)
  with level_rank_SomeD [OF Some] show ?thesis
    by (simp add: rank_def LEVEL_ORDER_def)
qed

lemma rank_level_in_scale:
  assumes "level h \<in> set LEVEL_ORDER"
  shows "LEVEL_ORDER ! rank h = level h"
proof -
  from assms have "LEVEL_RANK (level h) \<noteq> None"
    by (auto simp: LEVEL_ORDER_def level_rank_simps)
  then obtain r where r: "LEVEL_RANK (level h) = Some r" by blast
  with level_rank_SomeD [OF r] show ?thesis by (simp add: rank_def)
qed

lemma max_by_rank_mem: "max_by_rank best hs \<in> set (best # hs)"
  by (induction hs arbitrary: best) auto

lemma max_by_rank_ge: "h \<in> set (best # hs) \<Longrightarrow> rank h \<le> rank (max_by_rank best hs)"
proof (induction hs arbitrary: best h)
  case Nil
  then show ?case by simp
next
  case (Cons x xs)
  let ?b = "if rank x > rank best then x else best"
  have step: "rank best \<le> rank ?b" "rank x \<le> rank ?b" by auto
  from Cons.prems consider "h = best" | "h = x" | "h \<in> set xs" by auto
  then show ?case
  proof cases
    case 1
    have "rank ?b \<le> rank (max_by_rank ?b xs)" by (rule Cons.IH) simp
    with step 1 show ?thesis by simp
  next
    case 2
    have "rank ?b \<le> rank (max_by_rank ?b xs)" by (rule Cons.IH) simp
    with step 2 show ?thesis by simp
  next
    case 3
    then have "rank h \<le> rank (max_by_rank ?b xs)" by (intro Cons.IH) simp
    then show ?thesis by simp
  qed
qed

lemma calc_overall_level_Cons:
  "calc_overall_level (h0 # rest) =
     LEVEL_ORDER ! (min 4 (rank (max_by_rank h0 rest)
        + (if 2 \<le> length (filter (\<lambda>h. 2 \<le> rank h) (h0 # rest)) then 1 else 0)))"
proof -
  define m where "m = rank (max_by_rank h0 rest)"
  define c where "c = (2 \<le> length (filter (\<lambda>h. 2 \<le> rank h) (h0 # rest)))"
  have r: "m \<le> 4" unfolding m_def by (rule rank_le_4)
  have len: "length LEVEL_ORDER - 1 = 4" by (simp add: LEVEL_ORDER_def)
  have idx: "(if c \<and> m < 4 then m + 1 else m) = min 4 (m + (if c then 1 else 0))"
    using r by auto
  have "calc_overall_level (h0 # rest) = LEVEL_ORDER ! (if c \<and> m < 4 then m + 1 else m)"
    unfolding calc_overall_level_def Let_def list.case level_rank_simps option.sel len
      m_def c_def by (rule refl)
  then show ?thesis unfolding idx unfolding m_def c_def .
qed

text \<open>
  C2: for a non-empty list of hazards the overall level is the level of a hazard of
  highest rank on the scale \<open>none < info < watch < warning < danger\<close>, one step higher
  if and only if at least two hazards have rank watch or higher, and never above danger;
  two watch hazards give warning, a single warning hazard gives warning, and the empty
  list gives none.
\<close>

theorem calc_overall_level_spec:
  "calc_overall_level [] = ''none''
   \<and> (hazards \<noteq> [] \<longrightarrow>
        (\<exists>main \<in> set hazards.
           (\<forall>h \<in> set hazards. rank h \<le> rank main)
           \<and> (level main \<in> set LEVEL_ORDER \<longrightarrow> LEVEL_ORDER ! rank main = level main)
           \<and> calc_overall_level hazards =
               LEVEL_ORDER ! (min 4 (rank main
                 + (if 2 \<le> length (filter (\<lambda>h. 2 \<le> rank h) hazards) then 1 else 0)))))
   \<and> (\<forall>i < length LEVEL_ORDER. \<forall>h. level h = LEVEL_ORDER ! i \<longrightarrow> rank h = i)
   \<and> (level a = ''watch'' \<and> level b = ''watch'' \<longrightarrow> calc_overall_level [a, b] = ''warning'')
   \<and> (level a = ''warning'' \<longrightarrow> calc_overall_level [a] = ''warning'')"
proof -
  have empty: "calc_overall_level [] = ''none''"
    by (simp add: calc_overall_level_def)
  have gen: "hazards \<noteq> [] \<longrightarrow>
        (\<exists>main \<in> set hazards.
           (\<forall>h \<in> set hazards. rank h \<le> rank main)
           \<and> (level main \<in> set LEVEL_ORDER \<longrightarrow> LEVEL_ORDER ! rank main = level main)
           \<and> calc_overall_level hazards =
               LEVEL_ORDER ! (min 4 (rank main
                 + (if 2 \<le> length (filter (\<lambda>h. 2 \<le> rank h) hazards) then 1 else 0))))"
  proof
    assume "hazards \<noteq> []"
    then obtain h0 rest where hs: "hazards = h0 # rest" by (cases hazards) auto
    let ?main = "max_by_rank h0 rest"
    have 1: "?main \<in> set hazards" unfolding hs by (rule max_by_rank_mem)
    have 2: "\<forall>h \<in> set hazards. rank h \<le> rank ?main"
      unfolding hs using max_by_rank_ge by blast
    have 3: "level ?main \<in> set LEVEL_ORDER \<longrightarrow> LEVEL_ORDER ! rank ?main = level ?main"
      using rank_level_in_scale by blast
    have 4: "calc_overall_level hazards =
               LEVEL_ORDER ! (min 4 (rank ?main
                 + (if 2 \<le> length (filter (\<lambda>h. 2 \<le> rank h) hazards) then 1 else 0)))"
      unfolding hs by (rule calc_overall_level_Cons)
    from 1 2 3 4 show "\<exists>main \<in> set hazards.
           (\<forall>h \<in> set hazards. rank h \<le> rank main)
           \<and> (level main \<in> set LEVEL_ORDER \<longrightarrow> LEVEL_ORDER ! rank main = level main)
           \<and> calc_overall_level hazards =
               LEVEL_ORDER ! (min 4 (rank main
                 + (if 2 \<le> length (filter (\<lambda>h. 2 \<le> rank h) hazards) then 1 else 0)))"
      by (intro bexI [of _ ?main] conjI)
  qed
  have scale: "\<forall>i < length LEVEL_ORDER. \<forall>h. level h = LEVEL_ORDER ! i \<longrightarrow> rank h = i"
  proof (intro allI impI)
    fix i and h :: hazard assume i: "i < length LEVEL_ORDER" and h: "level h = LEVEL_ORDER ! i"
    from i have "i = 0 \<or> i = 1 \<or> i = 2 \<or> i = 3 \<or> i = 4"
      by (simp add: LEVEL_ORDER_def) arith
    then show "rank h = i"
      using h by (auto simp: rank_def LEVEL_ORDER_def level_rank_simps)
  qed
  have ww: "level a = ''watch'' \<and> level b = ''watch'' \<longrightarrow> calc_overall_level [a, b] = ''warning''"
  proof
    assume l: "level a = ''watch'' \<and> level b = ''watch''"
    then have ra: "rank a = 2" and rb: "rank b = 2"
      by (simp_all add: rank_def level_rank_simps)
    show "calc_overall_level [a, b] = ''warning''"
      unfolding calc_overall_level_Cons by (simp add: ra rb LEVEL_ORDER_def)
  qed
  have w: "level a = ''warning'' \<longrightarrow> calc_overall_level [a] = ''warning''"
  proof
    assume l: "level a = ''warning''"
    then have ra: "rank a = 3" by (simp add: rank_def level_rank_simps)
    show "calc_overall_level [a] = ''warning''"
      unfolding calc_overall_level_Cons by (simp add: ra LEVEL_ORDER_def)
  qed
  from empty gen scale ww w show ?thesis by (intro conjI)
qed

theorem calc_overall_level_spec_witness:
  "calc_overall_level
     [make_hazard ''rain'' ''watch'' 2 ''Mua vua, co nguy co ngap nhe'' (Some (Fin 6.4)) False,
      make_hazard ''strong_wind'' ''watch'' 2 ''Gio manh'' (Some (Fin 40)) False] = ''warning''
   \<and> calc_overall_level
     [make_hazard ''rain'' ''warning'' 3 ''Mua to, nguy co ngap cuc bo'' (Some (Fin 20)) False]
       = ''warning''"
proof -
  let ?a = "make_hazard ''rain'' ''watch'' 2 ''Mua vua, co nguy co ngap nhe'' (Some (Fin 6.4)) False"
  let ?b = "make_hazard ''strong_wind'' ''watch'' 2 ''Gio manh'' (Some (Fin 40)) False"
  let ?c = "make_hazard ''rain'' ''warning'' 3 ''Mua to, nguy co ngap cuc bo'' (Some (Fin 20)) False"
  have la: "level ?a = ''watch''" and lb: "level ?b = ''watch''" and lc: "level ?c = ''warning''"
    by (simp_all add: make_hazard_def level_rank_simps)
  have "level ?a = ''watch'' \<and> level ?b = ''watch'' \<longrightarrow> calc_overall_level [?a, ?b] = ''warning''"
    using calc_overall_level_spec [of "[?a, ?b]" ?a ?b] by (elim conjE)
  with la lb have 1: "calc_overall_level [?a, ?b] = ''warning''" by simp
  have "level ?c = ''warning'' \<longrightarrow> calc_overall_level [?c] = ''warning''"
    using calc_overall_level_spec [of "[?c]" ?c ?c] by (elim conjE)
  with lc have 2: "calc_overall_level [?c] = ''warning''" by simp
  from 1 2 show ?thesis by (rule conjI)
qed

section \<open>Rainfall accumulation\<close>

lemma sum_rain_step_discard:
  "\<not> (case fst row of None \<Rightarrow> False
       | Some va \<Rightarrow> \<not> (flt (hours_back anchor_ts va) (Fin 0)
                         \<or> flt (Fin 6) (hours_back anchor_ts va)))
   \<Longrightarrow> sum_rain_step anchor_ts st row = st"
  by (cases st; cases row) (simp add: sum_rain_step_def split: option.splits)

lemma round_double_7200: "round_double (7200) = Fin 7200"
proof -
  have r: "rd (7200) = 7200"
    by (rule rd_eval [where e = "12" and m = "7916483719987200"])
       (simp_all add: pow2_def py_round_def Let_def)
  show ?thesis unfolding round_double_def r by (simp add: pow2_def)
qed

lemma round_double_2: "round_double (2) = Fin 2"
proof -
  have r: "rd (2) = 2"
    by (rule rd_eval [where e = "1" and m = "4503599627370496"])
       (simp_all add: pow2_def py_round_def Let_def)
  show ?thesis unfolding round_double_def r by (simp add: pow2_def)
qed

lemma round_double_seventh: "round_double (1 / 7) = Fin (2573485501354569 / 18014398509481984)"
proof -
  have r: "rd (1 / 7) = 2573485501354569 / 18014398509481984"
    by (rule rd_eval [where e = "- 3" and m = "5146971002709138"])
       (simp_all add: pow2_def py_round_def Let_def)
  show ?thesis unfolding round_double_def r by (simp add: pow2_def)
qed

lemma fadd_0_minus_1: "fadd (Fin 0) (Fin (- 1)) = Fin (- 1)"
proof -
  have x: "0 + (- 1) = (- 1::real)" by simp
  have r: "rd (- 1) = - 1"
    by (rule rd_eval [where e = "0" and m = "- 4503599627370496"])
       (simp_all add: pow2_def py_round_def Let_def)
  show ?thesis unfolding fadd.simps x round_double_def r by (simp add: pow2_def)
qed

lemma hours_back_num: "hours_back 7200000000 0 = Fin 2"
proof -
  have q: "real_of_int (7200000000 - 0) / 1000000 = 7200" by simp
  have d: "(7200::real) / 3600 = 2" by simp
  show ?thesis
    unfolding hours_back_def q round_double_7200 fdiv_by.simps d round_double_2 ..
qed

lemma py_round_two: "py_round 2 = 2"
  by (simp add: py_round_def Let_def)

text \<open>
  C7, at one row two hours before the anchor whose precipitation is \<open>-1.0\<close>: the row is
  outside the 1h window and inside the 3h and 6h windows, and the accumulator adds the
  value as it is: it returns \<open>rain_1h = 0\<close>, \<open>rain_3h = -1\<close>, \<open>rain_6h = -1\<close>, and
  \<open>rain_1h <= rain_3h\<close> does not hold.
\<close>

theorem sum_rain_negative_precip_not_monotone:
  "sum_rain_in_window [(Some 0, Some (Fin (- 1)))] 7200000000
     = (Fin 0, Fin (- 1), Fin (- 1), Fin (2573485501354569 / 18014398509481984))
   \<and> \<not> fle (fst (sum_rain_in_window [(Some 0, Some (Fin (- 1)))] 7200000000))
            (fst (snd (sum_rain_in_window [(Some 0, Some (Fin (- 1)))] 7200000000)))"
proof -
  have c: "flt (Fin 2) (Fin 0) = False" "flt (Fin 6) (Fin 2) = False"
    "fle (Fin 2) (Fin 1) = False" "fle (Fin 2) (Fin 3) = True"
    by simp_all
  have st: "sum_rain_step 7200000000 ({}, Fin 0, Fin 0, Fin 0) (Some 0, Some (Fin (- 1)))
      = ({2}, Fin 0, Fin (- 1), Fin (- 1))"
    unfolding sum_rain_step_def prod.case option.case Let_def hours_back_num c fval.case
      py_round_two float_or_zero_def fadd_0_minus_1
    by simp
  have k: "real (card {2::int}) / 7 = 1 / 7" by simp
  have v: "sum_rain_in_window [(Some 0, Some (Fin (- 1)))] 7200000000
     = (Fin 0, Fin (- 1), Fin (- 1), Fin (2573485501354569 / 18014398509481984))"
    unfolding sum_rain_in_window_def foldl.simps st prod.case fdiv_by.simps k
      round_double_seventh ..
  show ?thesis unfolding v by simp
qed

section \<open>Merged time series\<close>

lemma hour_us_pos: "0 < hour_us" by (simp add: hour_us_def)

lemma merge_loop_closed:
  "merge_loop obs_map fcst_map end_utc acc cursor =
     acc @ map (\<lambda>k. mk_step obs_map fcst_map (cursor + int k * hour_us))
                 [0..<nat ((end_utc - cursor) div hour_us + 1)]"
proof (induction obs_map fcst_map end_utc acc cursor rule: merge_loop.induct)
  case (1 obs_map fcst_map end_utc acc cursor)
  show ?case
  proof (cases "cursor \<le> end_utc")
    case False
    then have "end_utc - cursor < 0" by simp
    then have "(end_utc - cursor) div hour_us < 0"
      using hour_us_pos by (simp add: pos_imp_zdiv_neg_iff)
    then have n: "nat ((end_utc - cursor) div hour_us + 1) = 0" by simp
    from False show ?thesis
      by (subst merge_loop.simps) (simp add: n)
  next
    case True
    define q where "q = (end_utc - cursor) div hour_us"
    have q0: "0 \<le> q" unfolding q_def using True hour_us_pos
      by (simp add: pos_imp_zdiv_nonneg_iff)
    have shift: "(end_utc - (cursor + hour_us)) div hour_us = q - 1"
    proof -
      have ne: "hour_us \<noteq> 0" using hour_us_pos by simp
      have e: "end_utc - (cursor + hour_us) = (end_utc - cursor) + (- 1) * hour_us" by simp
      have "((end_utc - cursor) + (- 1) * hour_us) div hour_us
            = (- 1) + (end_utc - cursor) div hour_us"
        using ne by (rule div_mult_self1)
      then have "(end_utc - (cursor + hour_us)) div hour_us = (- 1) + q"
        unfolding e q_def .
      then show ?thesis by simp
    qed
    have n: "nat (q + 1) = Suc (nat q)" using q0 by simp
    have n': "nat (q - 1 + 1) = nat q" by simp
    have "merge_loop obs_map fcst_map end_utc acc cursor =
          merge_loop obs_map fcst_map end_utc (acc @ [mk_step obs_map fcst_map cursor])
            (cursor + hour_us)"
      using True by (subst merge_loop.simps) simp
    also have "\<dots> = (acc @ [mk_step obs_map fcst_map cursor]) @
         map (\<lambda>k. mk_step obs_map fcst_map (cursor + hour_us + int k * hour_us)) [0..<nat q]"
      using "1.IH" [OF True] unfolding shift n' .
    also have "\<dots> = acc @ map (\<lambda>k. mk_step obs_map fcst_map (cursor + int k * hour_us))
                               [0..<Suc (nat q)]"
    proof -
      have head: "[0..<Suc (nat q)] = 0 # map Suc [0..<nat q]"
        by (simp only: map_Suc_upt upt_conv_Cons [of 0 "Suc (nat q)"] zero_less_Suc)
      have fn: "(\<lambda>k. mk_step obs_map fcst_map (cursor + int (Suc k) * hour_us))
                = (\<lambda>k. mk_step obs_map fcst_map (cursor + hour_us + int k * hour_us))"
        by (rule ext) (simp add: algebra_simps)
      have "map (\<lambda>k. mk_step obs_map fcst_map (cursor + int k * hour_us)) [0..<Suc (nat q)]
            = mk_step obs_map fcst_map cursor #
              map (\<lambda>k. mk_step obs_map fcst_map (cursor + int (Suc k) * hour_us)) [0..<nat q]"
        unfolding head by (simp add: comp_def)
      then show ?thesis unfolding fn by simp
    qed
    finally show ?thesis unfolding q_def [symmetric] n .
  qed
qed

lemma merged_steps_closed:
  "merged_steps obs_map fcst_map start_utc end_utc =
     map (\<lambda>k. mk_step obs_map fcst_map (start_utc + int k * hour_us))
         [0..<nat ((end_utc - start_utc) div hour_us + 1)]"
  unfolding merged_steps_def merge_loop_closed by simp

lemma aligned_count: "nat ((start_utc + int n * hour_us - start_utc) div hour_us + 1) = Suc n"
  using hour_us_pos by simp

lemma mk_step_valid_at: "valid_at (mk_step obs_map fcst_map cursor) = cursor"
  by (simp add: mk_step_def split: option.splits)

lemma mk_step_source:
  "source (mk_step obs_map fcst_map cursor) =
     (if obs_map cursor \<noteq> None then ''obs''
      else if fcst_map cursor \<noteq> None then ''fcst'' else ''none'')"
  by (simp add: mk_step_def split: option.splits)

lemma mk_step_none:
  assumes "source (mk_step obs_map fcst_map cursor) = ''none''"
  shows "s_temp_c (mk_step obs_map fcst_map cursor) = None
       \<and> s_wind_ms (mk_step obs_map fcst_map cursor) = None
       \<and> s_precip_mm (mk_step obs_map fcst_map cursor) = None
       \<and> s_rel_humidity_pct (mk_step obs_map fcst_map cursor) = None
       \<and> s_wind_dir_deg (mk_step obs_map fcst_map cursor) = None
       \<and> s_cloudcover_pct (mk_step obs_map fcst_map cursor) = None
       \<and> s_surface_pressure_hpa (mk_step obs_map fcst_map cursor) = None"
  using assms by (simp add: mk_step_def split: option.splits)

lemma hours_strictly_increasing:
  "sorted_wrt (<) (map (\<lambda>k. start_utc + int k * hour_us) [0..<n])"
proof -
  have "sorted_wrt (\<lambda>x y. start_utc + int x * hour_us < start_utc + int y * hour_us) [0..<n]"
    by (rule sorted_wrt_mono_rel [OF _ sorted_wrt_upt]) (simp add: hour_us_pos)
  then show ?thesis by (simp add: sorted_wrt_map)
qed

text \<open>
  C1: for every hour-aligned range \<open>[start_utc, end_utc]\<close> with
  \<open>end_utc = start_utc + n\<close> hours and any observation and forecast maps, the merged
  series has exactly one step per hour from \<open>start_utc\<close> to \<open>end_utc\<close> inclusive, in
  ascending order without gaps or duplicates; the source of a step is obs if the
  observation map has its hour, else fcst if the forecast map has it, else none, and a
  step of source none has every numeric field absent.
\<close>

theorem merged_steps_spec:
  "map valid_at (merged_steps obs_map fcst_map start_utc (start_utc + int n * hour_us))
     = map (\<lambda>k. start_utc + int k * hour_us) [0..<Suc n]
   \<and> length (merged_steps obs_map fcst_map start_utc (start_utc + int n * hour_us)) = Suc n
   \<and> sorted_wrt (<)
        (map valid_at (merged_steps obs_map fcst_map start_utc (start_utc + int n * hour_us)))
   \<and> distinct
        (map valid_at (merged_steps obs_map fcst_map start_utc (start_utc + int n * hour_us)))
   \<and> (\<forall>s \<in> set (merged_steps obs_map fcst_map start_utc (start_utc + int n * hour_us)).
         source s = (if obs_map (valid_at s) \<noteq> None then ''obs''
                     else if fcst_map (valid_at s) \<noteq> None then ''fcst'' else ''none'')
         \<and> (source s = ''none'' \<longrightarrow>
                s_temp_c s = None \<and> s_wind_ms s = None \<and> s_precip_mm s = None
              \<and> s_rel_humidity_pct s = None \<and> s_wind_dir_deg s = None
              \<and> s_cloudcover_pct s = None \<and> s_surface_pressure_hpa s = None))"
proof -
  let ?ms = "merged_steps obs_map fcst_map start_utc (start_utc + int n * hour_us)"
  let ?hours = "map (\<lambda>k. start_utc + int k * hour_us) [0..<Suc n]"
  have ms: "?ms = map (mk_step obs_map fcst_map) ?hours"
    unfolding merged_steps_closed aligned_count by (simp only: map_map comp_def)
  have v: "map valid_at ?ms = ?hours"
    unfolding ms by (simp only: map_map comp_def mk_step_valid_at map_ident)
  have len: "length ?ms = Suc n" unfolding ms by simp
  have srt: "sorted_wrt (<) (map valid_at ?ms)"
    unfolding v by (rule hours_strictly_increasing)
  have dst: "distinct (map valid_at ?ms)"
    using srt by (simp only: strict_sorted_iff)
  have each: "\<forall>s \<in> set ?ms.
         source s = (if obs_map (valid_at s) \<noteq> None then ''obs''
                     else if fcst_map (valid_at s) \<noteq> None then ''fcst'' else ''none'')
         \<and> (source s = ''none'' \<longrightarrow>
                s_temp_c s = None \<and> s_wind_ms s = None \<and> s_precip_mm s = None
              \<and> s_rel_humidity_pct s = None \<and> s_wind_dir_deg s = None
              \<and> s_cloudcover_pct s = None \<and> s_surface_pressure_hpa s = None)"
  proof
    fix s assume "s \<in> set ?ms"
    then obtain c where s: "s = mk_step obs_map fcst_map c" unfolding ms by auto
    show "source s = (if obs_map (valid_at s) \<noteq> None then ''obs''
                     else if fcst_map (valid_at s) \<noteq> None then ''fcst'' else ''none'')
         \<and> (source s = ''none'' \<longrightarrow>
                s_temp_c s = None \<and> s_wind_ms s = None \<and> s_precip_mm s = None
              \<and> s_rel_humidity_pct s = None \<and> s_wind_dir_deg s = None
              \<and> s_cloudcover_pct s = None \<and> s_surface_pressure_hpa s = None)"
      unfolding s mk_step_valid_at using mk_step_source mk_step_none by blast
  qed
  from v len srt dst each show ?thesis by (intro conjI)
qed

theorem merged_steps_spec_witness:
  "map valid_at
     (merged_steps
        (Map.empty(0 \<mapsto> \<lparr> temp_c = Some 30, wind_ms = None, precip_mm = Some 0,
                            rel_humidity_pct = None, wind_dir_deg = None, cloudcover_pct = None,
                            surface_pressure_hpa = None \<rparr>))
        Map.empty 0 (0 + int 2 * hour_us))
     = [0, 3600000000, 7200000000]
   \<and> length
     (merged_steps
        (Map.empty(0 \<mapsto> \<lparr> temp_c = Some 30, wind_ms = None, precip_mm = Some 0,
                            rel_humidity_pct = None, wind_dir_deg = None, cloudcover_pct = None,
                            surface_pressure_hpa = None \<rparr>))
        Map.empty 0 (0 + int 2 * hour_us)) = 3"
proof -
  let ?obs = "Map.empty(0 \<mapsto> \<lparr> temp_c = Some 30, wind_ms = None, precip_mm = Some 0,
                            rel_humidity_pct = None, wind_dir_deg = None, cloudcover_pct = None,
                            surface_pressure_hpa = None \<rparr>)"
  note t = merged_steps_spec [of ?obs Map.empty 0 2]
  have hours: "map (\<lambda>k. 0 + int k * hour_us) [0..<Suc 2] = [0, 3600000000, 7200000000]"
    by (simp add: hour_us_def upt_rec)
  have 1: "map valid_at (merged_steps ?obs Map.empty 0 (0 + int 2 * hour_us))
           = map (\<lambda>k. 0 + int k * hour_us) [0..<Suc 2]"
    using t by (elim conjE)
  have 2: "length (merged_steps ?obs Map.empty 0 (0 + int 2 * hour_us)) = Suc 2"
    using t by (elim conjE)
  from 1 2 show ?thesis unfolding hours by simp
qed

section \<open>Window of the merged time series endpoint\<close>

lemma clamp_hours_range: "0 \<le> clamp_hours h \<and> clamp_hours h \<le> 168"
  by (simp add: clamp_hours_def Let_def)

lemma clamp_hours_eq: "clamp_hours h = max 0 (min 168 h)"
  by (simp add: clamp_hours_def Let_def max_def min_def)

lemma clamp_hours_default: "clamp_hours 48 = 48" "clamp_hours 96 = 96"
  by (simp_all add: clamp_hours_def Let_def)

lemma hours_param_default:
  "p = None \<or> p = Some [] \<or> (\<exists>s. p = Some s \<and> py_int s = None) \<Longrightarrow> hours_param p d = d"
  by (auto simp: hours_param_def)

lemma hours_param_parsed:
  "p = Some s \<Longrightarrow> s \<noteq> [] \<Longrightarrow> py_int s = Some n \<Longrightarrow> hours_param p d = n"
  by (simp add: hours_param_def)

lemma codes_num:
  "codes ''-5'' = [45, 53]" "codes ''abc'' = [97, 98, 99]" "codes '' 200'' = [32, 50, 48, 48]"
  by (simp_all add: codes_def)

lemma transform_num:
  "transform [45, 53] = Some [45, 53]" "transform [97, 98, 99] = Some [97, 98, 99]"
  "transform [32, 50, 48, 48] = Some [32, 50, 48, 48]"
  "transform [160, 49, 50] = Some [32, 49, 50]"
  "transform [49, 1634] = Some [49, 50]"
  "transform [178] = None"
  by (simp_all add: to_ascii_def unicode_spaces_def decimal_zeros_def)

lemma strip_num:
  "strip [45, 53] = [45, 53]" "strip [97, 98, 99] = [97, 98, 99]"
  "strip [32, 50, 48, 48] = [50, 48, 48]" "strip [32, 49, 50] = [49, 50]"
  "strip [49, 50] = [49, 50]"
  by (simp_all add: strip_def is_space_def)

lemma py_int_num:
  "py_int (codes ''-5'') = Some (- 5)" "py_int (codes ''abc'') = None"
  "py_int (codes '' 200'') = Some 200"
  unfolding codes_num py_int_def transform_num option.case strip_num
  by (simp_all add: parse_unsigned_def is_digit_def digit_val_def int_max_str_digits_def)

text \<open>A no-break space is white space for \<open>int\<close>, and an Arabic-Indic digit is a digit;
  a superscript two is not.\<close>

lemma py_int_unicode:
  "py_int [160, 49, 50] = Some 12" "py_int [49, 1634] = Some 12" "py_int [178] = None"
  unfolding py_int_def transform_num option.case strip_num
  by (simp_all add: parse_unsigned_def is_digit_def digit_val_def int_max_str_digits_def)

text \<open>More than \<open>int_max_str_digits\<close> digits are refused.\<close>

lemma parse_digits_count:
  "parse_digits cs acc n b = Some v \<Longrightarrow> n + length (filter is_digit cs) \<le> int_max_str_digits"
proof (induction cs arbitrary: acc n b)
  case Nil
  then show ?case by (simp split: if_splits)
next
  case (Cons c cs)
  show ?case
  proof (cases "is_digit c")
    case True
    with Cons.prems have "parse_digits cs (10 * acc + digit_val c) (n + 1) False = Some v"
      by simp
    from Cons.IH [OF this] True show ?thesis by simp
  next
    case False
    with Cons.prems have "parse_digits cs acc n True = Some v"
      by (simp split: if_splits)
    from Cons.IH [OF this] False show ?thesis by simp
  qed
qed

lemma transform_digits: "transform (replicate k 49) = Some (replicate k 49)"
  by (induction k) (simp_all add: to_ascii_def)

lemma strip_digits: "strip (replicate k 49) = replicate k 49"
proof -
  have d: "dropWhile is_space (replicate k 49) = replicate k 49"
    by (cases k) (simp_all add: is_space_def)
  show ?thesis unfolding strip_def d rev_replicate d ..
qed

lemma py_int_too_many_digits: "py_int (replicate 4301 49) = None"
proof (cases "parse_digits (replicate 4300 49) 1 1 False")
  case None
  have r: "replicate 4301 (49::nat) = 49 # replicate 4300 49"
    by (simp flip: replicate_Suc)
  show ?thesis
    unfolding py_int_def transform_digits option.case strip_digits
    unfolding r list.case using None by (simp add: parse_unsigned_def is_digit_def digit_val_def)
next
  case (Some v)
  from parse_digits_count [OF this] have False
    by (simp add: is_digit_def int_max_str_digits_def)
  then show ?thesis ..
qed

lemma merged_timeseries_found:
  assumes "location_id_is_uuid req" "location_found req"
  shows "merged_timeseries req =
     Found (clamp_hours (hours_param (get_back req) 48))
           (clamp_hours (hours_param (get_fwd req) 96))
           (merged_steps
              (select_between (obs_table req)
                 (base_utc req - clamp_hours (hours_param (get_back req) 48) * hour_us)
                 (base_utc req + clamp_hours (hours_param (get_fwd req) 96) * hour_us))
              (select_between (fcst_table req)
                 (base_utc req - clamp_hours (hours_param (get_back req) 48) * hour_us)
                 (base_utc req + clamp_hours (hours_param (get_fwd req) 96) * hour_us))
              (base_utc req - clamp_hours (hours_param (get_back req) 48) * hour_us)
              (base_utc req + clamp_hours (hours_param (get_fwd req) 96) * hour_us))"
  using assms by (simp add: merged_timeseries_def Let_def)

lemma window_steps_length:
  assumes "0 \<le> b" "0 \<le> f"
  shows "length (merged_steps om fm (base - b * hour_us) (base + f * hour_us)) = nat (b + f + 1)"
proof -
  have e: "base + f * hour_us = (base - b * hour_us) + int (nat (b + f)) * hour_us"
    using assms by (simp add: algebra_simps)
  have "length (merged_steps om fm (base - b * hour_us)
                  ((base - b * hour_us) + int (nat (b + f)) * hour_us)) = Suc (nat (b + f))"
    unfolding merged_steps_closed aligned_count by simp
  then show ?thesis unfolding e [symmetric] using assms by simp
qed

text \<open>
  C10, as stated, at \<open>back=-5\<close>: the string parses as the integer \<open>-5\<close>, which the view
  raises to 0 (\<open>if back_hours < 0: back_hours = 0\<close>); the default 48 is not used. And a
  request whose \<open>location_id\<close> is not a UUID is answered with a bad-request response,
  which has no steps.
\<close>

theorem merged_timeseries_negative_back_is_zero:
  "back_hours (merged_timeseries
      \<lparr> location_id_is_uuid = True, location_found = True, get_back = Some (codes ''-5''),
        get_fwd = None, base_utc = 0, obs_table = Map.empty, fcst_table = Map.empty \<rparr>) = 0
   \<and> back_hours (merged_timeseries
      \<lparr> location_id_is_uuid = True, location_found = True, get_back = Some (codes ''-5''),
        get_fwd = None, base_utc = 0, obs_table = Map.empty, fcst_table = Map.empty \<rparr>) \<noteq> 48
   \<and> merged_timeseries
      \<lparr> location_id_is_uuid = False, location_found = False, get_back = None,
        get_fwd = None, base_utc = 0, obs_table = Map.empty, fcst_table = Map.empty \<rparr>
     = BadRequest"
proof -
  have h: "hours_param (Some (codes ''-5'')) 48 = - 5"
    by (rule hours_param_parsed [OF refl _ py_int_num(1)]) (simp add: codes_def)
  have c: "clamp_hours (- 5) = 0" by (simp add: clamp_hours_def Let_def)
  have "back_hours (merged_timeseries
      \<lparr> location_id_is_uuid = True, location_found = True, get_back = Some (codes ''-5''),
        get_fwd = None, base_utc = 0, obs_table = Map.empty, fcst_table = Map.empty \<rparr>) = 0"
    by (subst merged_timeseries_found) (simp_all add: h c)
  then show ?thesis by (simp add: merged_timeseries_def)
qed

text \<open>
  C10 (amended): for every request with a well-formed, known location the endpoint
  bounds the backward and the forward window to \<open>[0, 168]\<close> hours each; an absent, empty
  or non-integer \<open>back\<close> or \<open>fwd\<close> parameter is replaced by the default 48 or 96, an
  integer one is used after clamping, so a negative value becomes 0; the response always
  has \<open>back_hours + forward_hours + 1\<close> hourly steps, between 1 and 337.
\<close>

theorem merged_timeseries_window_spec:
  "location_id_is_uuid req \<and> location_found req \<longrightarrow>
     (\<exists>b f ss. merged_timeseries req = Found b f ss
        \<and> 0 \<le> b \<and> b \<le> 168 \<and> 0 \<le> f \<and> f \<le> 168
        \<and> (get_back req = None \<or> get_back req = Some []
             \<or> (\<exists>s. get_back req = Some s \<and> py_int s = None) \<longrightarrow> b = 48)
        \<and> (get_fwd req = None \<or> get_fwd req = Some []
             \<or> (\<exists>s. get_fwd req = Some s \<and> py_int s = None) \<longrightarrow> f = 96)
        \<and> (\<forall>s n. get_back req = Some s \<and> s \<noteq> [] \<and> py_int s = Some n \<longrightarrow>
               b = max 0 (min 168 n))
        \<and> (\<forall>s n. get_fwd req = Some s \<and> s \<noteq> [] \<and> py_int s = Some n \<longrightarrow>
               f = max 0 (min 168 n))
        \<and> length ss = nat (b + f + 1) \<and> 1 \<le> length ss \<and> length ss \<le> 337)"
proof
  assume a: "location_id_is_uuid req \<and> location_found req"
  define b where "b = clamp_hours (hours_param (get_back req) 48)"
  define f where "f = clamp_hours (hours_param (get_fwd req) 96)"
  define ss where "ss = merged_steps
              (select_between (obs_table req) (base_utc req - b * hour_us) (base_utc req + f * hour_us))
              (select_between (fcst_table req) (base_utc req - b * hour_us) (base_utc req + f * hour_us))
              (base_utc req - b * hour_us) (base_utc req + f * hour_us)"
  have found: "merged_timeseries req = Found b f ss"
    unfolding b_def f_def ss_def using a by (intro merged_timeseries_found) simp_all
  have rb: "0 \<le> b \<and> b \<le> 168" unfolding b_def by (rule clamp_hours_range)
  have rf: "0 \<le> f \<and> f \<le> 168" unfolding f_def by (rule clamp_hours_range)
  have db: "get_back req = None \<or> get_back req = Some []
             \<or> (\<exists>s. get_back req = Some s \<and> py_int s = None) \<longrightarrow> b = 48"
    unfolding b_def using hours_param_default [of "get_back req" 48]
    by (auto simp: clamp_hours_default)
  have df: "get_fwd req = None \<or> get_fwd req = Some []
             \<or> (\<exists>s. get_fwd req = Some s \<and> py_int s = None) \<longrightarrow> f = 96"
    unfolding f_def using hours_param_default [of "get_fwd req" 96]
    by (auto simp: clamp_hours_default)
  have pb: "\<forall>s n. get_back req = Some s \<and> s \<noteq> [] \<and> py_int s = Some n \<longrightarrow>
               b = max 0 (min 168 n)"
    unfolding b_def clamp_hours_eq by (auto simp: hours_param_parsed)
  have pf: "\<forall>s n. get_fwd req = Some s \<and> s \<noteq> [] \<and> py_int s = Some n \<longrightarrow>
               f = max 0 (min 168 n)"
    unfolding f_def clamp_hours_eq by (auto simp: hours_param_parsed)
  have len: "length ss = nat (b + f + 1)"
    unfolding ss_def using rb rf by (intro window_steps_length) simp_all
  have lo: "1 \<le> length ss" and hi: "length ss \<le> 337"
    unfolding len using rb rf by linarith+
  from found rb rf db df pb pf len lo hi
  show "\<exists>b f ss. merged_timeseries req = Found b f ss
        \<and> 0 \<le> b \<and> b \<le> 168 \<and> 0 \<le> f \<and> f \<le> 168
        \<and> (get_back req = None \<or> get_back req = Some []
             \<or> (\<exists>s. get_back req = Some s \<and> py_int s = None) \<longrightarrow> b = 48)
        \<and> (get_fwd req = None \<or> get_fwd req = Some []
             \<or> (\<exists>s. get_fwd req = Some s \<and> py_int s = None) \<longrightarrow> f = 96)
        \<and> (\<forall>s n. get_back req = Some s \<and> s \<noteq> [] \<and> py_int s = Some n \<longrightarrow>
               b = max 0 (min 168 n))
        \<and> (\<forall>s n. get_fwd req = Some s \<and> s \<noteq> [] \<and> py_int s = Some n \<longrightarrow>
               f = max 0 (min 168 n))
        \<and> length ss = nat (b + f + 1) \<and> 1 \<le> length ss \<and> length ss \<le> 337"
    by (intro exI [of _ b] exI [of _ f] exI [of _ ss] conjI) simp_all
qed

theorem merged_timeseries_window_spec_witness:
  "back_hours (merged_timeseries
      \<lparr> location_id_is_uuid = True, location_found = True, get_back = Some (codes ''abc''),
        get_fwd = Some (codes '' 200''), base_utc = 0, obs_table = Map.empty,
        fcst_table = Map.empty \<rparr>) = 48
   \<and> forward_hours (merged_timeseries
      \<lparr> location_id_is_uuid = True, location_found = True, get_back = Some (codes ''abc''),
        get_fwd = Some (codes '' 200''), base_utc = 0, obs_table = Map.empty,
        fcst_table = Map.empty \<rparr>) = 168
   \<and> length (steps (merged_timeseries
      \<lparr> location_id_is_uuid = True, location_found = True, get_back = Some (codes ''abc''),
        get_fwd = Some (codes '' 200''), base_utc = 0, obs_table = Map.empty,
        fcst_table = Map.empty \<rparr>)) = 217"
proof -
  let ?req = "\<lparr> location_id_is_uuid = True, location_found = True, get_back = Some (codes ''abc''),
        get_fwd = Some (codes '' 200''), base_utc = 0, obs_table = Map.empty,
        fcst_table = Map.empty \<rparr>"
  have "location_id_is_uuid ?req \<and> location_found ?req" by simp
  with merged_timeseries_window_spec [of ?req]
  obtain b f ss where r: "merged_timeseries ?req = Found b f ss"
    and db: "get_back ?req = None \<or> get_back ?req = Some []
             \<or> (\<exists>s. get_back ?req = Some s \<and> py_int s = None) \<longrightarrow> b = 48"
    and pf: "\<forall>s n. get_fwd ?req = Some s \<and> s \<noteq> [] \<and> py_int s = Some n \<longrightarrow>
               f = max 0 (min 168 n)"
    and len: "length ss = nat (b + f + 1)"
    by blast
  have b: "b = 48" using db py_int_num(2) by simp
  have "f = max 0 (min 168 200)" using pf py_int_num(3) by (simp add: codes_def)
  then have f: "f = 168" by simp
  from r b f len show ?thesis by simp
qed

section \<open>Local relief\<close>














section \<open>Scoring without terrain data\<close>

lemma combined_risk_score_range:
  "0 \<le> combined_risk_score rb lb eb sp \<and> combined_risk_score rb lb eb sp \<le> 4"
  unfolding combined_risk_score_def Let_def by (rule clamp_bounds) simp

lemma get_dem_fails:
  assumes "\<not> libs_available w \<or> \<not> dem_file_exists w \<or> (\<exists>e. dem_open w = Inl e)
           \<or> (\<exists>ds. dem_open w = Inr ds \<and> \<not> ds_crs_present ds)
           \<or> (\<exists>e. transformer_from_crs w = Inl e)"
  shows "\<exists>e. get_dem w = Inl e"
proof (cases "dem_open w")
  case (Inl e)
  then show ?thesis by (simp add: get_dem_def bindE_def)
next
  case (Inr ds)
  show ?thesis
  proof (cases "transformer_from_crs w")
    case (Inl e)
    with Inr show ?thesis by (simp add: get_dem_def bindE_def)
  next
    case tr: (Inr t)
    with Inr assms show ?thesis by (auto simp: get_dem_def bindE_def)
  qed
qed

lemma sample_dem_body_get_dem:
  "get_dem w = Inl e \<Longrightarrow> sample_dem_body w lat lon = Inl e"
  by (simp add: sample_dem_body_def sample_elevation_def bindE_def)

lemma try_sample_dem_fail:
  "sample_dem_body w lat lon = Inl e \<Longrightarrow> try_sample_dem w lat lon = (None, None, None)"
  by (simp add: try_sample_dem_def)

lemma flood_row_score_bands:
  assumes "try_sample_dem w (row_lat r) (row_lon r) = (elev_m, relief_local_m, slope_like_m)"
  shows "flood_row_score w r =
     combined_risk_score
       (rain_band_from_eff6 (Some (effective_rain_6h
          (Some (safe_float (row_rain_1h_mm r) (Fin 0))) (Some (safe_float (row_rain_3h_mm r) (Fin 0)))
          (Some (safe_float (row_rain_6h_mm r) (Fin 0))))))
       (if relief_local_m = None then 0 else terrain_band_from_relief_local relief_local_m)
       (if elev_m = None then 0 else elevation_band elev_m)
       (if slope_like_m = None then 0 else slope_like_penalty slope_like_m)"
  unfolding flood_row_score_def Let_def assms prod.case by simp

lemma flood_row_out_ok:
  "\<exists>out. flood_row_out w r = Inr out \<and> out_risk_score out = flood_row_score w r
      \<and> 0 \<le> out_risk_score out \<and> out_risk_score out \<le> 4
      \<and> out_risk_level out = RISK_LEVELS ! nat (out_risk_score out)
      \<and> out_relief_m out = fst (snd (try_sample_dem w (row_lat r) (row_lon r)))"
proof -
  obtain a b c where t: "try_sample_dem w (row_lat r) (row_lon r) = (a, b, c)"
    by (cases "try_sample_dem w (row_lat r) (row_lon r)") auto
  have rng: "0 \<le> flood_row_score w r \<and> flood_row_score w r \<le> 4"
    unfolding flood_row_score_bands [OF t] by (rule combined_risk_score_range)
  then have lv: "risk_level_at (flood_row_score w r) = Inr (RISK_LEVELS ! nat (flood_row_score w r))"
    using risk_level_at_in_range by simp
  show ?thesis
    unfolding flood_row_out_def Let_def t prod.case lv bindE_def sum.case
    using rng by simp
qed

lemma flood_risk_latest_ok:
  "\<exists>outs. flood_risk_latest w rows = Inr outs \<and> length outs = length rows"
proof (induction rows)
  case Nil
  then show ?case by simp
next
  case (Cons r rows)
  from flood_row_out_ok [of w r] obtain out where o: "flood_row_out w r = Inr out" by blast
  from Cons obtain outs where os: "flood_risk_latest w rows = Inr outs"
    "length outs = length rows" by blast
  show ?case by (simp add: o os bindE_def)
qed

text \<open>
  C8: any exception while sampling the DEM (libraries not imported, DEM file missing,
  no CRS, or any other exception of a raster call) makes \<open>_try_sample_dem\<close> return
  \<open>(None, None, None)\<close>; a \<open>None\<close> relief, elevation or slope gives \<open>relief_band = 0\<close>,
  \<open>elev_band = 0\<close>, \<open>slope_pen = 0\<close>, so the score then comes from the rain band alone;
  the scoring of a row, and of every list of rows, returns a result and never raises.
\<close>

theorem flood_scoring_without_terrain:
  "(sample_dem_body w lat lon = Inl e \<longrightarrow> try_sample_dem w lat lon = (None, None, None))
   \<and> (\<not> libs_available w \<or> \<not> dem_file_exists w \<or> (\<exists>e'. dem_open w = Inl e')
        \<or> (\<exists>ds. dem_open w = Inr ds \<and> \<not> ds_crs_present ds)
        \<or> (\<exists>e'. transformer_from_crs w = Inl e') \<longrightarrow>
        try_sample_dem w lat lon = (None, None, None))
   \<and> (try_sample_dem w (row_lat r) (row_lon r) = (elev_m, relief_local_m, slope_like_m) \<longrightarrow>
        flood_row_score w r =
          combined_risk_score
            (rain_band_from_eff6 (Some (effective_rain_6h
               (Some (safe_float (row_rain_1h_mm r) (Fin 0))) (Some (safe_float (row_rain_3h_mm r) (Fin 0)))
               (Some (safe_float (row_rain_6h_mm r) (Fin 0))))))
            (if relief_local_m = None then 0 else terrain_band_from_relief_local relief_local_m)
            (if elev_m = None then 0 else elevation_band elev_m)
            (if slope_like_m = None then 0 else slope_like_penalty slope_like_m))
   \<and> (try_sample_dem w (row_lat r) (row_lon r) = (None, None, None) \<longrightarrow>
        flood_row_score w r =
          combined_risk_score
            (rain_band_from_eff6 (Some (effective_rain_6h
               (Some (safe_float (row_rain_1h_mm r) (Fin 0))) (Some (safe_float (row_rain_3h_mm r) (Fin 0)))
               (Some (safe_float (row_rain_6h_mm r) (Fin 0)))))) 0 0 0)
   \<and> (\<exists>out. flood_row_out w r = Inr out \<and> out_risk_score out = flood_row_score w r
          \<and> 0 \<le> out_risk_score out \<and> out_risk_score out \<le> 4
          \<and> out_risk_level out = RISK_LEVELS ! nat (out_risk_score out)
          \<and> out_relief_m out = fst (snd (try_sample_dem w (row_lat r) (row_lon r))))
   \<and> (\<exists>outs. flood_risk_latest w rows = Inr outs \<and> length outs = length rows)"
proof -
  have p1: "sample_dem_body w lat lon = Inl e \<longrightarrow> try_sample_dem w lat lon = (None, None, None)"
    using try_sample_dem_fail by blast
  have p2: "\<not> libs_available w \<or> \<not> dem_file_exists w \<or> (\<exists>e'. dem_open w = Inl e')
        \<or> (\<exists>ds. dem_open w = Inr ds \<and> \<not> ds_crs_present ds)
        \<or> (\<exists>e'. transformer_from_crs w = Inl e') \<longrightarrow>
        try_sample_dem w lat lon = (None, None, None)"
  proof
    assume "\<not> libs_available w \<or> \<not> dem_file_exists w \<or> (\<exists>e'. dem_open w = Inl e')
        \<or> (\<exists>ds. dem_open w = Inr ds \<and> \<not> ds_crs_present ds)
        \<or> (\<exists>e'. transformer_from_crs w = Inl e')"
    then obtain e' where "get_dem w = Inl e'" using get_dem_fails by blast
    then have "sample_dem_body w lat lon = Inl e'" by (rule sample_dem_body_get_dem)
    then show "try_sample_dem w lat lon = (None, None, None)" by (rule try_sample_dem_fail)
  qed
  have p3: "try_sample_dem w (row_lat r) (row_lon r) = (elev_m, relief_local_m, slope_like_m) \<longrightarrow>
        flood_row_score w r =
          combined_risk_score
            (rain_band_from_eff6 (Some (effective_rain_6h
               (Some (safe_float (row_rain_1h_mm r) (Fin 0))) (Some (safe_float (row_rain_3h_mm r) (Fin 0)))
               (Some (safe_float (row_rain_6h_mm r) (Fin 0))))))
            (if relief_local_m = None then 0 else terrain_band_from_relief_local relief_local_m)
            (if elev_m = None then 0 else elevation_band elev_m)
            (if slope_like_m = None then 0 else slope_like_penalty slope_like_m)"
    using flood_row_score_bands by blast
  have p4: "try_sample_dem w (row_lat r) (row_lon r) = (None, None, None) \<longrightarrow>
        flood_row_score w r =
          combined_risk_score
            (rain_band_from_eff6 (Some (effective_rain_6h
               (Some (safe_float (row_rain_1h_mm r) (Fin 0))) (Some (safe_float (row_rain_3h_mm r) (Fin 0)))
               (Some (safe_float (row_rain_6h_mm r) (Fin 0)))))) 0 0 0"
  proof
    assume a: "try_sample_dem w (row_lat r) (row_lon r) = (None, None, None)"
    show "flood_row_score w r =
          combined_risk_score
            (rain_band_from_eff6 (Some (effective_rain_6h
               (Some (safe_float (row_rain_1h_mm r) (Fin 0))) (Some (safe_float (row_rain_3h_mm r) (Fin 0)))
               (Some (safe_float (row_rain_6h_mm r) (Fin 0)))))) 0 0 0"
      unfolding flood_row_score_bands [OF a] by simp
  qed
  from p1 p2 p3 p4 flood_row_out_ok [of w r] flood_risk_latest_ok [of w rows]
  show ?thesis by (intro conjI)
qed

theorem flood_scoring_without_terrain_witness:
  "try_sample_dem
     \<lparr> libs_available = False, dem_file_exists = True, dem_open = Inl LibraryError,
       transformer_from_crs = Inl LibraryError \<rparr> 21 105 = (None, None, None)
   \<and> flood_row_score
     \<lparr> libs_available = False, dem_file_exists = True, dem_open = Inl LibraryError,
       transformer_from_crs = Inl LibraryError \<rparr>
     \<lparr> row_location_id = ''a'', row_lat = 21, row_lon = 105, row_valid_at = 0,
       row_rain_1h_mm = Some (Fin 2), row_rain_3h_mm = Some (Fin 8),
       row_rain_6h_mm = Some (Fin 10) \<rparr> = 1"
proof -
  define w0 where "w0 = \<lparr> libs_available = False, dem_file_exists = True,
       dem_open = (Inl LibraryError :: error + dataset),
       transformer_from_crs = (Inl LibraryError :: error + transformer) \<rparr>"
  define r0 where "r0 = \<lparr> row_location_id = ''a'', row_lat = 21, row_lon = 105,
       row_valid_at = 0,
       row_rain_1h_mm = Some (Fin 2), row_rain_3h_mm = Some (Fin 8),
       row_rain_6h_mm = Some (Fin 10) \<rparr>"
  note th = flood_scoring_without_terrain [where w = w0 and lat = 21 and lon = 105 and r = r0]
  have nolib: "\<not> libs_available w0" by (simp add: w0_def)
  with th have t: "try_sample_dem w0 21 105 = (None, None, None)" by blast
  have ll: "row_lat r0 = 21" "row_lon r0 = 105" by (simp_all add: r0_def)
  from t have t': "try_sample_dem w0 (row_lat r0) (row_lon r0) = (None, None, None)"
    unfolding ll .
  with th have s: "flood_row_score w0 r0 =
          combined_risk_score
            (rain_band_from_eff6 (Some (effective_rain_6h
               (Some (safe_float (row_rain_1h_mm r0) (Fin 0))) (Some (safe_float (row_rain_3h_mm r0) (Fin 0)))
               (Some (safe_float (row_rain_6h_mm r0) (Fin 0)))))) 0 0 0"
    by blast
  have rr: "safe_float (row_rain_1h_mm r0) (Fin 0) = Fin 2"
    "safe_float (row_rain_3h_mm r0) (Fin 0) = Fin 8"
    "safe_float (row_rain_6h_mm r0) (Fin 0) = Fin 10"
    by (simp_all add: r0_def safe_float_def)
  note e6 = effective_rain_6h_2_8_10
  note rb = rain_band_num(1)
  have cl: "clamp (2::int) 0 4 = 2" "clamp (0::int) 0 4 = 0" "clamp (0::int) 0 2 = 0"
    "clamp (1::int) 0 4 = 1"
    by (simp_all add: clamp_def)
  have raw: "0.70 * of_int (2::int) + 0.20 * of_int (0::int) + 0.10 * of_int (0::int) = (1.4::real)"
    by simp
  have rd: "py_round 1.4 = 1" by (simp add: py_round_def Let_def)
  have sc: "combined_risk_score 2 0 0 0 = 1"
    unfolding combined_risk_score_def Let_def cl raw rd by (simp add: cl)
  have "flood_row_score w0 r0 = 1" unfolding s rr e6 rb sc ..
  with t show ?thesis unfolding w0_def r0_def by simp
qed

section \<open>Heat and cold hazard\<close>

lemma lit_8_784695: "lit 8.784695 = Fin (154541988783451 / 17592186044416)"
proof -
  have r: "rd 8.784695 = 154541988783451 / 17592186044416"
    by (rule rd_eval [where e = "3" and m = "4945343641070432"])
       (simp_all add: pow2_def py_round_def Let_def)
  show ?thesis unfolding lit_def round_double_def r by (simp add: pow2_def)
qed

lemma lit_1_61139411: "lit 1.61139411 = Fin (1814268478335753 / 1125899906842624)"
proof -
  have r: "rd 1.61139411 = 1814268478335753 / 1125899906842624"
    by (rule rd_eval [where e = "0" and m = "7257073913343012"])
       (simp_all add: pow2_def py_round_def Let_def)
  show ?thesis unfolding lit_def round_double_def r by (simp add: pow2_def)
qed

lemma lit_2_338549: "lit 2.338549 = Fin (5265944202493823 / 2251799813685248)"
proof -
  have r: "rd 2.338549 = 5265944202493823 / 2251799813685248"
    by (rule rd_eval [where e = "1" and m = "5265944202493823"])
       (simp_all add: pow2_def py_round_def Let_def)
  show ?thesis unfolding lit_def round_double_def r by (simp add: pow2_def)
qed

lemma lit_0_14611605: "lit 0.14611605 = Fin (2632192753331395 / 18014398509481984)"
proof -
  have r: "rd 0.14611605 = 2632192753331395 / 18014398509481984"
    by (rule rd_eval [where e = "- 3" and m = "5264385506662790"])
       (simp_all add: pow2_def py_round_def Let_def)
  show ?thesis unfolding lit_def round_double_def r by (simp add: pow2_def)
qed

lemma lit_0_012308094: "lit 0.012308094 = Fin (7095133126661253 / 576460752303423488)"
proof -
  have r: "rd 0.012308094 = 7095133126661253 / 576460752303423488"
    by (rule rd_eval [where e = "- 7" and m = "7095133126661253"])
       (simp_all add: pow2_def py_round_def Let_def)
  show ?thesis unfolding lit_def round_double_def r by (simp add: pow2_def)
qed

lemma lit_0_016424828: "lit 0.016424828 = Fin (4734134352667167 / 288230376151711744)"
proof -
  have r: "rd 0.016424828 = 4734134352667167 / 288230376151711744"
    by (rule rd_eval [where e = "- 6" and m = "4734134352667167"])
       (simp_all add: pow2_def py_round_def Let_def)
  show ?thesis unfolding lit_def round_double_def r by (simp add: pow2_def)
qed

lemma lit_0_002211732: "lit 0.002211732 = Fin (2549953385227111 / 1152921504606846976)"
proof -
  have r: "rd 0.002211732 = 2549953385227111 / 1152921504606846976"
    by (rule rd_eval [where e = "- 9" and m = "5099906770454222"])
       (simp_all add: pow2_def py_round_def Let_def)
  show ?thesis unfolding lit_def round_double_def r by (simp add: pow2_def)
qed

lemma lit_0_00072546: "lit 0.00072546 = Fin (3345593738928333 / 4611686018427387904)"
proof -
  have r: "rd 0.00072546 = 3345593738928333 / 4611686018427387904"
    by (rule rd_eval [where e = "- 11" and m = "6691187477856666"])
       (simp_all add: pow2_def py_round_def Let_def)
  show ?thesis unfolding lit_def round_double_def r by (simp add: pow2_def)
qed

lemma lit_0_000003582: "lit 0.000003582 = Fin (8457758370819535 / 2361183241434822606848)"
proof -
  have r: "rd 0.000003582 = 8457758370819535 / 2361183241434822606848"
    by (rule rd_eval [where e = "- 19" and m = "8457758370819535"])
       (simp_all add: pow2_def py_round_def Let_def)
  show ?thesis unfolding lit_def round_double_def r by (simp add: pow2_def)
qed

lemma lit_3_6: "lit 3.6 = Fin (8106479329266893 / 2251799813685248)"
proof -
  have r: "rd 3.6 = 8106479329266893 / 2251799813685248"
    by (rule rd_eval [where e = "1" and m = "8106479329266893"])
       (simp_all add: pow2_def py_round_def Let_def)
  show ?thesis unfolding lit_def round_double_def r by (simp add: pow2_def)
qed

lemma not_flt_iff_fle: "a \<noteq> NaN \<Longrightarrow> b \<noteq> NaN \<Longrightarrow> (\<not> flt a b) = fle b a"
  by (cases a; cases b) auto

lemma round_double_not_nan: "round_double x \<noteq> NaN"
  by (simp add: round_double_def)

lemma fmul_lit_3_6_not_nan: "v \<noteq> NaN \<Longrightarrow> fmul v (lit 3.6) \<noteq> NaN"
  unfolding lit_3_6 by (cases v) (simp_all add: round_double_not_nan)

lemma nan_absorbs:
  "fmul a NaN = NaN" "fmul NaN a = NaN" "fadd a NaN = NaN" "fadd NaN a = NaN"
  "fsub a NaN = NaN" "fsub NaN a = NaN"
  by (cases a; simp add: fsub_def)+

lemma compute_windchill_none:
  "wind = None \<or> flt (Fin 10) T \<or> (\<exists>v. wind = Some v \<and> flt (fmul v (lit 3.6)) (Fin 5))
   \<Longrightarrow> compute_windchill lm (Some T) wind = Inr None"
  by (cases wind) (auto simp: compute_windchill_def Let_def)

lemma compute_windchill_pow:
  assumes "wind = Some v" "\<not> flt (Fin 10) T" "\<not> flt (fmul v (lit 3.6)) (Fin 5)"
  shows "compute_windchill lm (Some T) wind =
     bindE (float_pow lm (fmul v (lit 3.6)) (rd 0.16)) (\<lambda>p.
       Inr (Some (fadd (fsub (fadd (lit 13.12) (fmul (lit 0.6215) T)) (fmul (lit 11.37) p))
                       (fmul (fmul (lit 0.3965) T) p))))"
  using assms by (simp add: compute_windchill_def Let_def)

lemma compute_windchill_SomeD:
  "compute_windchill lm (Some T) wind = Inr (Some wc) \<Longrightarrow>
     \<not> flt (Fin 10) T \<and> (\<exists>v. wind = Some v \<and> \<not> flt (fmul v (lit 3.6)) (Fin 5))"
  by (cases wind) (auto simp: compute_windchill_def Let_def split: if_splits)

lemma clamp_rh_lt_40: "flt r (Fin 40) \<Longrightarrow> flt (py_max (Fin 0) (py_min (Fin 100) r)) (Fin 40)"
  by (cases r) (auto simp: py_max_def py_min_def)

lemma compute_heat_index_fallback:
  "rh = None \<or> flt T (Fin 27) \<or> (\<exists>r. rh = Some r \<and> flt r (Fin 40))
   \<Longrightarrow> compute_heat_index lm (Some T) rh = Inr (Some T)"
  by (cases rh) (auto simp: compute_heat_index_def Let_def clamp_rh_lt_40)

lemma compute_heat_index_active:
  assumes "RH = py_max (Fin 0) (py_min (Fin 100) r)" "\<not> flt T (Fin 27)" "\<not> flt RH (Fin 40)"
  shows "compute_heat_index lm (Some T) (Some r) =
     bindE (float_pow lm T 2) (\<lambda>T2. bindE (float_pow lm RH 2) (\<lambda>RH2. Inr (Some
      (fsub (fadd (fadd (fsub (fsub (fsub (fadd (fadd
       (fneg (lit 8.784695))
       (fmul (lit 1.61139411) T))
       (fmul (lit 2.338549) RH))
       (fmul (fmul (lit 0.14611605) T) RH))
       (fmul (lit 0.012308094) T2))
       (fmul (lit 0.016424828) RH2))
       (fmul (fmul (lit 0.002211732) T2) RH))
       (fmul (fmul (lit 0.00072546) T) RH2))
       (fmul (fmul (lit 0.000003582) T2) RH2)))))"
  using assms(2,3) unfolding assms(1) by (simp add: compute_heat_index_def Let_def)

lemma float_pow_pos:
  "1 < x \<Longrightarrow> c_pow lm x w = Fin y \<Longrightarrow> float_pow lm (Fin x) w = Inr (Fin y)"
  by (simp add: float_pow_def)

lemma float_pow_overflow:
  "1 < x \<Longrightarrow> c_pow lm x w = PInf \<Longrightarrow> float_pow lm (Fin x) w = Inl OverflowError"
  by (simp add: float_pow_def)

lemma build_heat_cold_hazard_tiers:
  assumes "compute_windchill lm (Some T) wind = Inr wc"
    and "ec = (case wc of Some x \<Rightarrow> x | None \<Rightarrow> T)"
  shows "build_heat_cold_hazard lm (Some T) wind cloud rh =
     (if fle ec (Fin 15) then
        (if fle ec (Fin 5) then
           Inr (Some \<lparr> h_type = ''cold'', level = ''warning'', score = 3,
                       headline = ''Troi ret, co gio'', desc_value = Some ec,
                       desc_cloudy = False \<rparr>)
         else if fle ec (Fin 10) then
           Inr (Some \<lparr> h_type = ''cold'', level = ''watch'', score = 2,
                       headline = ''Troi lanh'', desc_value = Some ec, desc_cloudy = False \<rparr>)
         else
           Inr (Some \<lparr> h_type = ''cold'', level = ''info'', score = 1,
                       headline = ''Thoi tiet se lanh'', desc_value = Some T,
                       desc_cloudy = False \<rparr>))
      else if flt T (Fin 32) then Inr None
      else
        (case compute_heat_index lm (Some T) rh of
           Inl e \<Rightarrow> Inl e
         | Inr hi \<Rightarrow>
             (let eh = (case hi of Some x \<Rightarrow> x | None \<Rightarrow> T);
                  cloudy = (case cloud of None \<Rightarrow> False | Some cc \<Rightarrow> fle (Fin 60) cc)
              in if flt eh (Fin 32) then Inr None
                 else if flt eh (Fin 41) then
                   Inr (Some \<lparr> h_type = ''heat'', level = ''info'', score = 1,
                               headline = ''Thoi tiet oi nong'', desc_value = Some eh,
                               desc_cloudy = cloudy \<rparr>)
                 else if flt eh (Fin 54) then
                   Inr (Some \<lparr> h_type = ''heat'', level = ''watch'', score = 2,
                               headline = ''Nang nong, can than trong'', desc_value = Some eh,
                               desc_cloudy = cloudy \<rparr>)
                 else
                   Inr (Some \<lparr> h_type = ''heat'', level = ''warning'', score = 3,
                               headline = ''Nang nong gay gat, nguy co cao'',
                               desc_value = Some eh, desc_cloudy = cloudy \<rparr>))))"
  unfolding build_heat_cold_hazard_def option.case assms(1) bindE_def sum.case Let_def
    assms(2) [symmetric] make_hazard_known
  by (cases "compute_heat_index lm (Some T) rh") simp_all

lemma build_heat_cold_hazard_raises:
  "compute_windchill lm (Some T) wind = Inl e \<Longrightarrow>
     build_heat_cold_hazard lm (Some T) wind cloud rh = Inl e"
  by (simp add: build_heat_cold_hazard_def bindE_def)

lemma heat_poly_shift:
  fixes u h :: real
  shows "- 8784695000 + 1611394110 * (u + 32) + 2338549000 * (h + 40)
         - 146116050 * ((u + 32) * (h + 40)) - 12308094 * ((u + 32) * (u + 32))
         - 16424828 * ((h + 40) * (h + 40)) + 2211732 * ((u + 32) * (u + 32) * (h + 40))
         + 725460 * ((u + 32) * ((h + 40) * (h + 40)))
         - 3582 * ((u + 32) * (u + 32) * ((h + 40) * (h + 40)))
         - (32000000000 + 270000 * ((u + 32) * (u + 32)))
       = 985384 + 177402888 * h + 3121924 * (h * h) + 1417727214 * u + 35131758 * (u * h)
         + 496212 * (u * (h * h)) + 70159986 * (u * u)
         + (u * u) * h * (1925172 - 3582 * h)"
  by (simp add: algebra_simps)

lemma heat_poly_decimal:
  fixes t rc :: real
  shows "- 8.784695 + 1.61139411 * t + 2.338549 * rc - 0.14611605 * (t * rc)
         - 0.012308094 * (t * t) - 0.016424828 * (rc * rc) + 0.002211732 * (t * t * rc)
         + 0.00072546 * (t * (rc * rc)) - 0.000003582 * (t * t * (rc * rc))
         - (32 + 27 / 100000 * (t * t))
       = (- 8784695000 + 1611394110 * t + 2338549000 * rc
         - 146116050 * (t * rc) - 12308094 * (t * t)
         - 16424828 * (rc * rc) + 2211732 * (t * t * rc)
         + 725460 * (t * (rc * rc))
         - 3582 * (t * t * (rc * rc))
         - (32000000000 + 270000 * (t * t))) / 1000000000"
  by (simp add: field_simps)

lemma heat_poly_margin:
  fixes t rc :: real
  assumes "32 \<le> t" "40 \<le> rc" "rc \<le> 100"
  shows "32 + 27 / 100000 * (t * t)
       \<le> - 8.784695 + 1.61139411 * t + 2.338549 * rc - 0.14611605 * (t * rc)
         - 0.012308094 * (t * t) - 0.016424828 * (rc * rc) + 0.002211732 * (t * t * rc)
         + 0.00072546 * (t * (rc * rc)) - 0.000003582 * (t * t * (rc * rc))"
proof -
  define u where "u = t - 32"
  define h where "h = rc - 40"
  have u0: "0 \<le> u" and h0: "0 \<le> h" and h60: "h \<le> 60"
    using assms by (simp_all add: u_def h_def)
  have t: "t = u + 32" and rc: "rc = h + 40" by (simp_all add: u_def h_def)
  have a1: "0 \<le> 177402888 * h" using h0 by simp
  have a2: "0 \<le> 3121924 * (h * h)" by simp
  have a3: "0 \<le> 1417727214 * u" using u0 by simp
  have a4: "0 \<le> 35131758 * (u * h)" using u0 h0 by simp
  have a5: "0 \<le> 496212 * (u * (h * h))" using u0 by simp
  have a6: "0 \<le> 70159986 * (u * u)" by simp
  have "0 \<le> 1925172 - 3582 * h" using h60 by simp
  moreover have uu: "0 \<le> u * u" by simp
  moreover have "0 \<le> (u * u) * h" using uu h0 by (rule mult_nonneg_nonneg)
  ultimately have a7: "0 \<le> (u * u) * h * (1925172 - 3582 * h)"
    by (simp only: mult_nonneg_nonneg)
  from a1 a2 a3 a4 a5 a6 a7
  have "0 \<le> 985384 + 177402888 * h + 3121924 * (h * h) + 1417727214 * u + 35131758 * (u * h)
         + 496212 * (u * (h * h)) + 70159986 * (u * u)
         + (u * u) * h * (1925172 - 3582 * h)"
    by linarith
  then have "0 \<le> - 8.784695 + 1.61139411 * t + 2.338549 * rc - 0.14611605 * (t * rc)
         - 0.012308094 * (t * t) - 0.016424828 * (rc * rc) + 0.002211732 * (t * t * rc)
         + 0.00072546 * (t * (rc * rc)) - 0.000003582 * (t * t * (rc * rc))
         - (32 + 27 / 100000 * (t * t))"
    unfolding heat_poly_decimal unfolding t rc heat_poly_shift by simp
  then show ?thesis by linarith
qed

lemma round_close:
  assumes "1 \<le> M" "M \<le> 2 ^ 1000" "E = M / 2 ^ 50" "- (2 * M) \<le> x" "x \<le> 2 * M"
  shows "\<exists>z. round_double x = Fin z \<and> x - E \<le> z \<and> z \<le> x + E"
proof -
  from assms(4,5) have "\<bar>x\<bar> \<le> 2 * M" by linarith
  from round_double_close [OF assms(1,2) this] obtain z where
    "round_double x = Fin z" "\<bar>z - x\<bar> \<le> M / 2 ^ 50" by blast
  then have "round_double x = Fin z" "x - E \<le> z" "z \<le> x + E"
    unfolding assms(3) by linarith+
  then show ?thesis by blast
qed

lemma scaled_close:
  fixes x :: real
  assumes "y - e \<le> x" "x \<le> y + e" "0 \<le> b" "b \<le> B"
  shows "y * b - e * B \<le> x * b \<and> x * b \<le> y * b + e * B"
proof -
  have e: "0 \<le> e" using assms(1,2) by linarith
  have "\<bar>x - y\<bar> \<le> e" using assms(1,2) by linarith
  moreover have "\<bar>b\<bar> \<le> B" using assms(3,4) by linarith
  ultimately have "\<bar>x * b - y * b\<bar> \<le> e * B" by (rule prod_err)
  then show ?thesis by (simp add: abs_le_iff)
qed

lemma heat_poly_ge_32:
  fixes t rc t2 r2 :: real
  assumes T: "32 \<le> t" "t \<le> 2 ^ 500" and RH: "40 \<le> rc" "rc \<le> 100"
    and T2: "\<bar>t2 - t * t\<bar> \<le> t * t / 2 ^ 40" and R2: "\<bar>r2 - rc * rc\<bar> \<le> rc * rc / 2 ^ 40"
  shows "\<exists>hi. fsub (fadd (fadd (fsub (fsub (fsub (fadd (fadd
       (fneg (lit 8.784695))
       (fmul (lit 1.61139411) (Fin t)))
       (fmul (lit 2.338549) (Fin rc)))
       (fmul (fmul (lit 0.14611605) (Fin t)) (Fin rc)))
       (fmul (lit 0.012308094) (Fin t2)))
       (fmul (lit 0.016424828) (Fin r2)))
       (fmul (fmul (lit 0.002211732) (Fin t2)) (Fin rc)))
       (fmul (fmul (lit 0.00072546) (Fin t)) (Fin r2)))
       (fmul (fmul (lit 0.000003582) (Fin t2)) (Fin r2))
       = Fin hi \<and> 32 \<le> hi"
proof -
  define M where "M = t * t"
  define A1 where "A1 = t * rc"
  define R where "R = rc * rc"
  define A6 where "A6 = M * rc"
  define A7 where "A7 = R * t"
  define A8 where "A8 = M * R"
  define E where "E = M / 2 ^ 50"
  define D where "D = M / 2 ^ 40"
  define W where "W = M / 10000000000"
  have t0: "0 \<le> t" using T(1) by simp
  have rc0: "0 \<le> rc" using RH(1) by simp
  have M32: "32 * t \<le> M" unfolding M_def using T(1) t0 by (intro mult_right_mono) simp_all
  have M1024: "1024 \<le> M" using M32 T(1) by linarith
  have M1: "1 \<le> M" using M1024 by linarith
  have M0: "0 \<le> M" using M1 by linarith
  have "t * t \<le> 2 ^ 500 * 2 ^ 500" using T(2) t0 by (intro mult_mono) simp_all
  then have Mtop: "M \<le> 2 ^ 1000" unfolding M_def by (simp add: power_add [symmetric])
  have "t * 40 \<le> t * rc" using RH(1) t0 by (intro mult_left_mono)
  then have A1lo: "40 * t \<le> A1" unfolding A1_def by linarith
  have "t * rc \<le> t * 100" using RH(2) t0 by (intro mult_left_mono)
  then have A1hi: "A1 \<le> 100 * t" unfolding A1_def by linarith
  have "40 * 40 \<le> rc * rc" using RH(1) by (intro mult_mono) simp_all
  then have Rlo: "1600 \<le> R" unfolding R_def by simp
  have "rc * rc \<le> 100 * 100" using RH(2) rc0 by (intro mult_mono) simp_all
  then have Rhi: "R \<le> 10000" unfolding R_def by simp
  have "M * 40 \<le> M * rc" using RH(1) M0 by (intro mult_left_mono)
  then have A6lo: "40 * M \<le> A6" unfolding A6_def by linarith
  have "M * rc \<le> M * 100" using RH(2) M0 by (intro mult_left_mono)
  then have A6hi: "A6 \<le> 100 * M" unfolding A6_def by linarith
  have "1600 * t \<le> R * t" using Rlo t0 by (intro mult_right_mono)
  then have A7lo: "1600 * t \<le> A7" unfolding A7_def .
  have "R * t \<le> 10000 * t" using Rhi t0 by (intro mult_right_mono)
  then have A7hi: "A7 \<le> 10000 * t" unfolding A7_def .
  have "M * 1600 \<le> M * R" using Rlo M0 by (intro mult_left_mono)
  then have A8lo: "1600 * M \<le> A8" unfolding A8_def by linarith
  have "M * R \<le> M * 10000" using Rhi M0 by (intro mult_left_mono)
  then have A8hi: "A8 \<le> 10000 * M" unfolding A8_def by linarith
  have E0: "0 \<le> E" unfolding E_def using M0 by simp
  have Ehi: "E * 1000000000000000 \<le> M" unfolding E_def using M0 by simp
  have D0: "0 \<le> D" unfolding D_def using M0 by simp
  have Dhi: "D * 1000000000000 \<le> M" unfolding D_def using M0 by simp
  have Wd: "W * 10000000000 = M" unfolding W_def by simp
  have t2lo: "M - D \<le> t2" and t2hi: "t2 \<le> M + D"
    using T2 unfolding M_def [symmetric] D_def [symmetric] by linarith+
  have "R / 2 ^ 40 \<le> 1 / 100000000" using Rhi by simp
  with R2 have "\<bar>r2 - R\<bar> \<le> 1 / 100000000" unfolding R_def [symmetric] by linarith
  then have r2lo: "R - 1 / 100000000 \<le> r2" and r2hi: "r2 \<le> R + 1 / 100000000" by linarith+
  have r2p: "0 \<le> r2" "r2 \<le> 10001" using r2lo r2hi Rlo Rhi by linarith+
  note rc = round_close [OF M1 Mtop E_def]
  note atoms = M32 M1024 A1lo A1hi Rlo Rhi A6lo A6hi A7lo A7hi A8lo A8hi E0 Ehi D0 Dhi Wd t0 RH

  have "- (2 * M) \<le> (1814268478335753 / 1125899906842624) * t" "(1814268478335753 / 1125899906842624) * t \<le> 2 * M"
    using atoms  by linarith+
  from rc [OF this] obtain z1 where ez1: "fmul (Fin (1814268478335753 / 1125899906842624)) (Fin t) = Fin z1"
    and qz1: "(1814268478335753 / 1125899906842624) * t - E \<le> z1" "z1 \<le> (1814268478335753 / 1125899906842624) * t + E" by auto
  have wz1: "(1814268478335753 / 1125899906842624) * t - W \<le> z1" "z1 \<le> (1814268478335753 / 1125899906842624) * t + W" using atoms qz1 by linarith+
  have "- (2 * M) \<le> - (154541988783451 / 17592186044416) + z1" "- (154541988783451 / 17592186044416) + z1 \<le> 2 * M"
    using atoms  wz1 by linarith+
  from rc [OF this] obtain s1 where es1: "fadd (Fin (- (154541988783451 / 17592186044416))) (Fin z1) = Fin s1"
    and qs1: "- (154541988783451 / 17592186044416) + z1 - E \<le> s1" "s1 \<le> - (154541988783451 / 17592186044416) + z1 + E" by auto
  have bs1: "(- (154541988783451 / 17592186044416) + (1814268478335753 / 1125899906842624) * t) - 2 * W \<le> s1" "s1 \<le> (- (154541988783451 / 17592186044416) + (1814268478335753 / 1125899906842624) * t) + 2 * W"
    using atoms  wz1 qs1 by linarith+
  have "- (2 * M) \<le> (5265944202493823 / 2251799813685248) * rc" "(5265944202493823 / 2251799813685248) * rc \<le> 2 * M"
    using atoms RH by linarith+
  from rc [OF this] obtain z2 where ez2: "fmul (Fin (5265944202493823 / 2251799813685248)) (Fin rc) = Fin z2"
    and qz2: "(5265944202493823 / 2251799813685248) * rc - E \<le> z2" "z2 \<le> (5265944202493823 / 2251799813685248) * rc + E" by auto
  have wz2: "(5265944202493823 / 2251799813685248) * rc - W \<le> z2" "z2 \<le> (5265944202493823 / 2251799813685248) * rc + W" using atoms qz2 by linarith+
  have "- (2 * M) \<le> s1 + z2" "s1 + z2 \<le> 2 * M"
    using atoms bs1 wz2 by linarith+
  from rc [OF this] obtain s2 where es2: "fadd (Fin s1) (Fin z2) = Fin s2"
    and qs2: "s1 + z2 - E \<le> s2" "s2 \<le> s1 + z2 + E" by auto
  have bs2: "(- (154541988783451 / 17592186044416) + (1814268478335753 / 1125899906842624) * t + (5265944202493823 / 2251799813685248) * rc) - 4 * W \<le> s2" "s2 \<le> (- (154541988783451 / 17592186044416) + (1814268478335753 / 1125899906842624) * t + (5265944202493823 / 2251799813685248) * rc) + 4 * W"
    using atoms bs1 wz2 qs2 by linarith+
  have "- (2 * M) \<le> (2632192753331395 / 18014398509481984) * t" "(2632192753331395 / 18014398509481984) * t \<le> 2 * M"
    using atoms  by linarith+
  from rc [OF this] obtain x3 where ex3: "fmul (Fin (2632192753331395 / 18014398509481984)) (Fin t) = Fin x3"
    and qx3: "(2632192753331395 / 18014398509481984) * t - E \<le> x3" "x3 \<le> (2632192753331395 / 18014398509481984) * t + E" by auto
  have m3: "(2632192753331395 / 18014398509481984) * t * rc = (2632192753331395 / 18014398509481984) * A1" unfolding A1_def by simp
  note p3 = scaled_close [OF qx3 rc0 RH(2), unfolded m3]
  have "- (2 * M) \<le> x3 * rc" "x3 * rc \<le> 2 * M" using atoms p3 by linarith+
  from rc [OF this] obtain z3 where ez3: "fmul (Fin x3) (Fin rc) = Fin z3"
    and qz3: "x3 * rc - E \<le> z3" "z3 \<le> x3 * rc + E" by auto
  have wz3: "(2632192753331395 / 18014398509481984) * A1 - W \<le> z3" "z3 \<le> (2632192753331395 / 18014398509481984) * A1 + W" using atoms p3 qz3 by linarith+
  have "- (2 * M) \<le> s2 - z3" "s2 - z3 \<le> 2 * M"
    using atoms bs2 wz3 by linarith+
  from rc [OF this] obtain s3 where es3: "fsub (Fin s2) (Fin z3) = Fin s3"
    and qs3: "s2 - z3 - E \<le> s3" "s3 \<le> s2 - z3 + E"
    unfolding fsub_def fneg.simps fadd.simps by auto
  have bs3: "(- (154541988783451 / 17592186044416) + (1814268478335753 / 1125899906842624) * t + (5265944202493823 / 2251799813685248) * rc - (2632192753331395 / 18014398509481984) * A1) - 6 * W \<le> s3" "s3 \<le> (- (154541988783451 / 17592186044416) + (1814268478335753 / 1125899906842624) * t + (5265944202493823 / 2251799813685248) * rc - (2632192753331395 / 18014398509481984) * A1) + 6 * W"
    using atoms bs2 wz3 qs3 by linarith+
  have "- (2 * M) \<le> (7095133126661253 / 576460752303423488) * t2" "(7095133126661253 / 576460752303423488) * t2 \<le> 2 * M"
    using atoms t2lo t2hi by linarith+
  from rc [OF this] obtain z4 where ez4: "fmul (Fin (7095133126661253 / 576460752303423488)) (Fin t2) = Fin z4"
    and qz4: "(7095133126661253 / 576460752303423488) * t2 - E \<le> z4" "z4 \<le> (7095133126661253 / 576460752303423488) * t2 + E" by auto
  have wz4: "(7095133126661253 / 576460752303423488) * M - W \<le> z4" "z4 \<le> (7095133126661253 / 576460752303423488) * M + W" using atoms qz4 t2lo t2hi by linarith+
  have "- (2 * M) \<le> s3 - z4" "s3 - z4 \<le> 2 * M"
    using atoms bs3 wz4 by linarith+
  from rc [OF this] obtain s4 where es4: "fsub (Fin s3) (Fin z4) = Fin s4"
    and qs4: "s3 - z4 - E \<le> s4" "s4 \<le> s3 - z4 + E"
    unfolding fsub_def fneg.simps fadd.simps by auto
  have bs4: "(- (154541988783451 / 17592186044416) + (1814268478335753 / 1125899906842624) * t + (5265944202493823 / 2251799813685248) * rc - (2632192753331395 / 18014398509481984) * A1 - (7095133126661253 / 576460752303423488) * M) - 8 * W \<le> s4" "s4 \<le> (- (154541988783451 / 17592186044416) + (1814268478335753 / 1125899906842624) * t + (5265944202493823 / 2251799813685248) * rc - (2632192753331395 / 18014398509481984) * A1 - (7095133126661253 / 576460752303423488) * M) + 8 * W"
    using atoms bs3 wz4 qs4 by linarith+
  have "- (2 * M) \<le> (4734134352667167 / 288230376151711744) * r2" "(4734134352667167 / 288230376151711744) * r2 \<le> 2 * M"
    using atoms r2p by linarith+
  from rc [OF this] obtain z5 where ez5: "fmul (Fin (4734134352667167 / 288230376151711744)) (Fin r2) = Fin z5"
    and qz5: "(4734134352667167 / 288230376151711744) * r2 - E \<le> z5" "z5 \<le> (4734134352667167 / 288230376151711744) * r2 + E" by auto
  have wz5: "(4734134352667167 / 288230376151711744) * R - W \<le> z5" "z5 \<le> (4734134352667167 / 288230376151711744) * R + W" using atoms qz5 r2lo r2hi by linarith+
  have "- (2 * M) \<le> s4 - z5" "s4 - z5 \<le> 2 * M"
    using atoms bs4 wz5 by linarith+
  from rc [OF this] obtain s5 where es5: "fsub (Fin s4) (Fin z5) = Fin s5"
    and qs5: "s4 - z5 - E \<le> s5" "s5 \<le> s4 - z5 + E"
    unfolding fsub_def fneg.simps fadd.simps by auto
  have bs5: "(- (154541988783451 / 17592186044416) + (1814268478335753 / 1125899906842624) * t + (5265944202493823 / 2251799813685248) * rc - (2632192753331395 / 18014398509481984) * A1 - (7095133126661253 / 576460752303423488) * M - (4734134352667167 / 288230376151711744) * R) - 10 * W \<le> s5" "s5 \<le> (- (154541988783451 / 17592186044416) + (1814268478335753 / 1125899906842624) * t + (5265944202493823 / 2251799813685248) * rc - (2632192753331395 / 18014398509481984) * A1 - (7095133126661253 / 576460752303423488) * M - (4734134352667167 / 288230376151711744) * R) + 10 * W"
    using atoms bs4 wz5 qs5 by linarith+
  have "- (2 * M) \<le> (2549953385227111 / 1152921504606846976) * t2" "(2549953385227111 / 1152921504606846976) * t2 \<le> 2 * M"
    using atoms t2lo t2hi by linarith+
  from rc [OF this] obtain x6 where ex6: "fmul (Fin (2549953385227111 / 1152921504606846976)) (Fin t2) = Fin x6"
    and qx6: "(2549953385227111 / 1152921504606846976) * t2 - E \<le> x6" "x6 \<le> (2549953385227111 / 1152921504606846976) * t2 + E" by auto
  have m6: "M * rc = A6" unfolding A6_def by simp
  note n6 = scaled_close [OF t2lo t2hi rc0 RH(2), unfolded m6]
  have k6: "(2549953385227111 / 1152921504606846976) * t2 * rc = (2549953385227111 / 1152921504606846976) * (t2 * rc)" by simp
  note p6 = scaled_close [OF qx6 rc0 RH(2), unfolded k6]
  have "- (2 * M) \<le> x6 * rc" "x6 * rc \<le> 2 * M" using atoms p6 n6 by linarith+
  from rc [OF this] obtain z6 where ez6: "fmul (Fin x6) (Fin rc) = Fin z6"
    and qz6: "x6 * rc - E \<le> z6" "z6 \<le> x6 * rc + E" by auto
  have wz6: "(2549953385227111 / 1152921504606846976) * A6 - W \<le> z6" "z6 \<le> (2549953385227111 / 1152921504606846976) * A6 + W" using atoms p6 n6 qz6 by linarith+
  have "- (2 * M) \<le> s5 + z6" "s5 + z6 \<le> 2 * M"
    using atoms bs5 wz6 by linarith+
  from rc [OF this] obtain s6 where es6: "fadd (Fin s5) (Fin z6) = Fin s6"
    and qs6: "s5 + z6 - E \<le> s6" "s6 \<le> s5 + z6 + E" by auto
  have bs6: "(- (154541988783451 / 17592186044416) + (1814268478335753 / 1125899906842624) * t + (5265944202493823 / 2251799813685248) * rc - (2632192753331395 / 18014398509481984) * A1 - (7095133126661253 / 576460752303423488) * M - (4734134352667167 / 288230376151711744) * R + (2549953385227111 / 1152921504606846976) * A6) - 12 * W \<le> s6" "s6 \<le> (- (154541988783451 / 17592186044416) + (1814268478335753 / 1125899906842624) * t + (5265944202493823 / 2251799813685248) * rc - (2632192753331395 / 18014398509481984) * A1 - (7095133126661253 / 576460752303423488) * M - (4734134352667167 / 288230376151711744) * R + (2549953385227111 / 1152921504606846976) * A6) + 12 * W"
    using atoms bs5 wz6 qs6 by linarith+
  have "- (2 * M) \<le> (3345593738928333 / 4611686018427387904) * t" "(3345593738928333 / 4611686018427387904) * t \<le> 2 * M"
    using atoms  by linarith+
  from rc [OF this] obtain x7 where ex7: "fmul (Fin (3345593738928333 / 4611686018427387904)) (Fin t) = Fin x7"
    and qx7: "(3345593738928333 / 4611686018427387904) * t - E \<le> x7" "x7 \<le> (3345593738928333 / 4611686018427387904) * t + E" by auto
  have m7: "R * t = A7" unfolding A7_def by simp
  have tt: "t \<le> t" by simp
  note n7 = scaled_close [OF r2lo r2hi t0 tt, unfolded m7]
  have k7: "(3345593738928333 / 4611686018427387904) * t * r2 = (3345593738928333 / 4611686018427387904) * (r2 * t)" by simp
  note p7 = scaled_close [OF qx7 r2p, unfolded k7]
  have "- (2 * M) \<le> x7 * r2" "x7 * r2 \<le> 2 * M" using atoms p7 n7 by linarith+
  from rc [OF this] obtain z7 where ez7: "fmul (Fin x7) (Fin r2) = Fin z7"
    and qz7: "x7 * r2 - E \<le> z7" "z7 \<le> x7 * r2 + E" by auto
  have wz7: "(3345593738928333 / 4611686018427387904) * A7 - W \<le> z7" "z7 \<le> (3345593738928333 / 4611686018427387904) * A7 + W" using atoms p7 n7 qz7 by linarith+
  have "- (2 * M) \<le> s6 + z7" "s6 + z7 \<le> 2 * M"
    using atoms bs6 wz7 by linarith+
  from rc [OF this] obtain s7 where es7: "fadd (Fin s6) (Fin z7) = Fin s7"
    and qs7: "s6 + z7 - E \<le> s7" "s7 \<le> s6 + z7 + E" by auto
  have bs7: "(- (154541988783451 / 17592186044416) + (1814268478335753 / 1125899906842624) * t + (5265944202493823 / 2251799813685248) * rc - (2632192753331395 / 18014398509481984) * A1 - (7095133126661253 / 576460752303423488) * M - (4734134352667167 / 288230376151711744) * R + (2549953385227111 / 1152921504606846976) * A6 + (3345593738928333 / 4611686018427387904) * A7) - 14 * W \<le> s7" "s7 \<le> (- (154541988783451 / 17592186044416) + (1814268478335753 / 1125899906842624) * t + (5265944202493823 / 2251799813685248) * rc - (2632192753331395 / 18014398509481984) * A1 - (7095133126661253 / 576460752303423488) * M - (4734134352667167 / 288230376151711744) * R + (2549953385227111 / 1152921504606846976) * A6 + (3345593738928333 / 4611686018427387904) * A7) + 14 * W"
    using atoms bs6 wz7 qs7 by linarith+
  have "- (2 * M) \<le> (8457758370819535 / 2361183241434822606848) * t2" "(8457758370819535 / 2361183241434822606848) * t2 \<le> 2 * M"
    using atoms t2lo t2hi by linarith+
  from rc [OF this] obtain x8 where ex8: "fmul (Fin (8457758370819535 / 2361183241434822606848)) (Fin t2) = Fin x8"
    and qx8: "(8457758370819535 / 2361183241434822606848) * t2 - E \<le> x8" "x8 \<le> (8457758370819535 / 2361183241434822606848) * t2 + E" by auto
  note n8a = scaled_close [OF t2lo t2hi r2p]
  have m8: "R * M = A8" unfolding A8_def by simp
  have mm: "M \<le> M" by simp
  note n8b = scaled_close [OF r2lo r2hi M0 mm, unfolded m8]
  have k8: "(8457758370819535 / 2361183241434822606848) * t2 * r2 = (8457758370819535 / 2361183241434822606848) * (t2 * r2)" by simp
  have c8: "M * r2 = r2 * M" by simp
  note p8 = scaled_close [OF qx8 r2p, unfolded k8]
  have "- (2 * M) \<le> x8 * r2" "x8 * r2 \<le> 2 * M" using atoms p8 n8a n8b c8 by linarith+
  from rc [OF this] obtain z8 where ez8: "fmul (Fin x8) (Fin r2) = Fin z8"
    and qz8: "x8 * r2 - E \<le> z8" "z8 \<le> x8 * r2 + E" by auto
  have wz8: "(8457758370819535 / 2361183241434822606848) * A8 - W \<le> z8" "z8 \<le> (8457758370819535 / 2361183241434822606848) * A8 + W" using atoms p8 n8a n8b c8 qz8 by linarith+
  have "- (2 * M) \<le> s7 - z8" "s7 - z8 \<le> 2 * M"
    using atoms bs7 wz8 by linarith+
  from rc [OF this] obtain s8 where es8: "fsub (Fin s7) (Fin z8) = Fin s8"
    and qs8: "s7 - z8 - E \<le> s8" "s8 \<le> s7 - z8 + E"
    unfolding fsub_def fneg.simps fadd.simps by auto
  have bs8: "(- (154541988783451 / 17592186044416) + (1814268478335753 / 1125899906842624) * t + (5265944202493823 / 2251799813685248) * rc - (2632192753331395 / 18014398509481984) * A1 - (7095133126661253 / 576460752303423488) * M - (4734134352667167 / 288230376151711744) * R + (2549953385227111 / 1152921504606846976) * A6 + (3345593738928333 / 4611686018427387904) * A7 - (8457758370819535 / 2361183241434822606848) * A8) - 16 * W \<le> s8" "s8 \<le> (- (154541988783451 / 17592186044416) + (1814268478335753 / 1125899906842624) * t + (5265944202493823 / 2251799813685248) * rc - (2632192753331395 / 18014398509481984) * A1 - (7095133126661253 / 576460752303423488) * M - (4734134352667167 / 288230376151711744) * R + (2549953385227111 / 1152921504606846976) * A6 + (3345593738928333 / 4611686018427387904) * A7 - (8457758370819535 / 2361183241434822606848) * A8) + 16 * W"
    using atoms bs7 wz8 qs8 by linarith+
  have margin: "32 + 27 / 100000 * M
       \<le> - (8784695 / 1000000) + 161139411 / 100000000 * t + 2338549 / 1000000 * rc
         - 14611605 / 100000000 * A1 - 12308094 / 1000000000 * M
         - 16424828 / 1000000000 * R + 2211732 / 1000000000 * A6
         + 72546 / 100000000 * A7 - 3582 / 1000000000 * A8"
    using heat_poly_margin [OF T(1) RH]
    unfolding M_def A1_def R_def A6_def A7_def A8_def by (simp add: mult.commute mult.left_commute)
  have g0: "- (8784695 / 1000000) - M / 1000000000000 \<le> - (154541988783451 / 17592186044416)" using M1024 by linarith
  have g1: "161139411 / 100000000 * t - M / 1000000000000 \<le> (1814268478335753 / 1125899906842624) * t" using M32 t0 by linarith
  have g2: "2338549 / 1000000 * rc - M / 1000000000000 \<le> (5265944202493823 / 2251799813685248) * rc" using RH M1024 by linarith
  have g3: "(2632192753331395 / 18014398509481984) * A1 \<le> 14611605 / 100000000 * A1 + M / 1000000000000" using A1lo A1hi M32 t0 by linarith
  have g4: "(7095133126661253 / 576460752303423488) * M \<le> 12308094 / 1000000000 * M + M / 1000000000000" using M0 by linarith
  have g5: "(4734134352667167 / 288230376151711744) * R \<le> 16424828 / 1000000000 * R + M / 1000000000000" using Rlo Rhi M1024 by linarith
  have g6: "2211732 / 1000000000 * A6 - M / 1000000000000 \<le> (2549953385227111 / 1152921504606846976) * A6" using A6lo A6hi M0 by linarith
  have g7: "72546 / 100000000 * A7 - M / 1000000000000 \<le> (3345593738928333 / 4611686018427387904) * A7" using A7lo A7hi M32 t0 by linarith
  have g8: "(8457758370819535 / 2361183241434822606848) * A8 \<le> 3582 / 1000000000 * A8 + M / 1000000000000" using A8lo A8hi M0 by linarith
  have ge: "32 \<le> s8"
    using bs8(1) g0 g1 g2 g3 g4 g5 g6 g7 g8 margin Wd M1024 by linarith
  have "fsub (fadd (fadd (fsub (fsub (fsub (fadd (fadd
       (fneg (lit 8.784695))
       (fmul (lit 1.61139411) (Fin t)))
       (fmul (lit 2.338549) (Fin rc)))
       (fmul (fmul (lit 0.14611605) (Fin t)) (Fin rc)))
       (fmul (lit 0.012308094) (Fin t2)))
       (fmul (lit 0.016424828) (Fin r2)))
       (fmul (fmul (lit 0.002211732) (Fin t2)) (Fin rc)))
       (fmul (fmul (lit 0.00072546) (Fin t)) (Fin r2)))
       (fmul (fmul (lit 0.000003582) (Fin t2)) (Fin r2))
       = Fin s8"
    unfolding lit_8_784695 lit_1_61139411 lit_2_338549 lit_0_14611605 lit_0_012308094 lit_0_016424828 lit_0_002211732 lit_0_00072546 lit_0_000003582 fneg.simps
      ez1 es1 ez2 es2 ex3 ez3 es3 ez4 es4 ez5 es5 ex6 ez6 es6 ex7 ez7 es7 ex8 ez8 es8 ..
  with ge show ?thesis by blast
qed

lemma clamp_rh_ge_40:
  "40 \<le> rv \<Longrightarrow> py_max (Fin 0) (py_min (Fin 100) (Fin rv)) = Fin (min rv 100)"
  by (simp add: py_max_def py_min_def min_def)

lemma heat_index_ge_32:
  assumes T: "32 \<le> t" "t \<le> 2 ^ 500" and RH: "40 \<le> rv"
    and T2: "c_pow lm t 2 = Fin t2" "\<bar>t2 - t * t\<bar> \<le> t * t / 2 ^ 40"
    and R2: "c_pow lm (min rv 100) 2 = Fin r2"
      "\<bar>r2 - min rv 100 * min rv 100\<bar> \<le> min rv 100 * min rv 100 / 2 ^ 40"
  shows "\<exists>hi. compute_heat_index lm (Some (Fin t)) (Some (Fin rv)) = Inr (Some (Fin hi))
           \<and> 32 \<le> hi"
proof -
  define rc where "rc = min rv 100"
  have rc: "40 \<le> rc" "rc \<le> 100" using RH by (simp_all add: rc_def)
  have p: "float_pow lm (Fin t) 2 = Inr (Fin t2)" "float_pow lm (Fin rc) 2 = Inr (Fin r2)"
    using T(1) rc(1) T2(1) R2(1) unfolding rc_def [symmetric] by (simp_all add: float_pow_pos)
  have g: "\<not> flt (Fin t) (Fin 27)" "\<not> flt (Fin rc) (Fin 40)" using T(1) rc(1) by simp_all
  have c: "Fin rc = py_max (Fin 0) (py_min (Fin 100) (Fin rv))"
    unfolding rc_def using RH by (simp add: clamp_rh_ge_40)
  from heat_poly_ge_32 [OF T rc T2(2) R2(2) [unfolded rc_def [symmetric]]]
  obtain hi where "fsub (fadd (fadd (fsub (fsub (fsub (fadd (fadd
       (fneg (lit 8.784695))
       (fmul (lit 1.61139411) (Fin t)))
       (fmul (lit 2.338549) (Fin rc)))
       (fmul (fmul (lit 0.14611605) (Fin t)) (Fin rc)))
       (fmul (lit 0.012308094) (Fin t2)))
       (fmul (lit 0.016424828) (Fin r2)))
       (fmul (fmul (lit 0.002211732) (Fin t2)) (Fin rc)))
       (fmul (fmul (lit 0.00072546) (Fin t)) (Fin r2)))
       (fmul (fmul (lit 0.000003582) (Fin t2)) (Fin r2))
       = Fin hi" and ge: "32 \<le> hi" by blast
  then have "compute_heat_index lm (Some (Fin t)) (Some (Fin rv)) = Inr (Some (Fin hi))"
    unfolding compute_heat_index_active [OF c g] p bindE_def sum.case by simp
  with ge show ?thesis by blast
qed

text \<open>The correctly rounded library is within the accuracy that the bound needs.\<close>

lemma libm_cr_accurate:
  assumes "1 \<le> x" "x \<le> 2 ^ 500"
  shows "\<exists>y. c_pow libm_cr x 2 = Fin y \<and> \<bar>y - x * x\<bar> \<le> x * x / 2 ^ 40"
proof -
  have x0: "0 < x" using assms(1) by linarith
  have p: "x powr 2 = x * x" using x0 by (simp add: power2_eq_square)
  have m1: "1 \<le> x * x" using assms(1) by (simp add: mult_ge1_I)
  have "x * x \<le> 2 ^ 500 * 2 ^ 500" using assms(2) x0 by (intro mult_mono) simp_all
  then have m2: "x * x \<le> 2 ^ 1000" by (simp add: power_add [symmetric])
  have "\<bar>x * x\<bar> \<le> 2 * (x * x)" using m1 by simp
  from round_double_close [OF m1 m2 this] obtain z where
    z: "round_double (x * x) = Fin z" "\<bar>z - x * x\<bar> \<le> x * x / 2 ^ 50" by blast
  have "x * x / 2 ^ 50 \<le> x * x / 2 ^ 40" using m1 by (intro divide_left_mono) simp_all
  with z(2) have le: "\<bar>z - x * x\<bar> \<le> x * x / 2 ^ 40" by linarith
  have "c_pow libm_cr x 2 = Fin z" unfolding libm_cr_def libm.simps p by (rule z(1))
  with le show ?thesis by blast
qed

lemma hi_38_70_t1: "fmul (Fin (1814268478335753 / 1125899906842624)) (Fin 38) = Fin (8617775272094827 / 140737488355328)"
proof -
  have x: "(1814268478335753 / 1125899906842624) * 38 = (34471101088379307 / 562949953421312::real)" by simp
  have r: "rd (34471101088379307 / 562949953421312) = 8617775272094827 / 140737488355328"
    by (rule rd_eval [where e = "5" and m = "8617775272094827"])
       (simp_all add: pow2_def py_round_def Let_def)
  show ?thesis unfolding fmul.simps x round_double_def r by (simp add: pow2_def)
qed

lemma hi_38_70_s1: "fadd (Fin (- (154541988783451 / 17592186044416))) (Fin (8617775272094827 / 140737488355328)) = Fin (7381439361827219 / 140737488355328)"
proof -
  have x: "(- (154541988783451 / 17592186044416)) + (8617775272094827 / 140737488355328) = (7381439361827219 / 140737488355328::real)" by simp
  have r: "rd (7381439361827219 / 140737488355328) = 7381439361827219 / 140737488355328"
    by (rule rd_eval [where e = "5" and m = "7381439361827219"])
       (simp_all add: pow2_def py_round_def Let_def)
  show ?thesis unfolding fadd.simps x round_double_def r by (simp add: pow2_def)
qed

lemma hi_38_70_t2: "fmul (Fin (5265944202493823 / 2251799813685248)) (Fin 70) = Fin (5759626471477619 / 35184372088832)"
proof -
  have x: "(5265944202493823 / 2251799813685248) * 70 = (184308047087283805 / 1125899906842624::real)" by simp
  have r: "rd (184308047087283805 / 1125899906842624) = 5759626471477619 / 35184372088832"
    by (rule rd_eval [where e = "7" and m = "5759626471477619"])
       (simp_all add: pow2_def py_round_def Let_def)
  show ?thesis unfolding fmul.simps x round_double_def r by (simp add: pow2_def)
qed

lemma hi_38_70_s2: "fadd (Fin (7381439361827219 / 140737488355328)) (Fin (5759626471477619 / 35184372088832)) = Fin (950623288991803 / 4398046511104)"
proof -
  have x: "(7381439361827219 / 140737488355328) + (5759626471477619 / 35184372088832) = (30419945247737695 / 140737488355328::real)" by simp
  have r: "rd (30419945247737695 / 140737488355328) = 950623288991803 / 4398046511104"
    by (rule rd_eval [where e = "7" and m = "7604986311934424"])
       (simp_all add: pow2_def py_round_def Let_def)
  show ?thesis unfolding fadd.simps x round_double_def r by (simp add: pow2_def)
qed

lemma hi_38_70_x3: "fmul (Fin (2632192753331395 / 18014398509481984)) (Fin 38) = Fin (6251457789162063 / 1125899906842624)"
proof -
  have x: "(2632192753331395 / 18014398509481984) * 38 = (50011662313296505 / 9007199254740992::real)" by simp
  have r: "rd (50011662313296505 / 9007199254740992) = 6251457789162063 / 1125899906842624"
    by (rule rd_eval [where e = "2" and m = "6251457789162063"])
       (simp_all add: pow2_def py_round_def Let_def)
  show ?thesis unfolding fmul.simps x round_double_def r by (simp add: pow2_def)
qed

lemma hi_38_70_t3: "fmul (Fin (6251457789162063 / 1125899906842624)) (Fin 70) = Fin (3418765978448003 / 8796093022208)"
proof -
  have x: "(6251457789162063 / 1125899906842624) * 70 = (218801022620672205 / 562949953421312::real)" by simp
  have r: "rd (218801022620672205 / 562949953421312) = 3418765978448003 / 8796093022208"
    by (rule rd_eval [where e = "8" and m = "6837531956896006"])
       (simp_all add: pow2_def py_round_def Let_def)
  show ?thesis unfolding fmul.simps x round_double_def r by (simp add: pow2_def)
qed

lemma hi_38_70_s3: "fsub (Fin (950623288991803 / 4398046511104)) (Fin (3418765978448003 / 8796093022208)) = Fin (- (1517519400464397 / 8796093022208))"
proof -
  have x: "(950623288991803 / 4398046511104) + - (3418765978448003 / 8796093022208) = (- (1517519400464397 / 8796093022208)::real)" by simp
  have r: "rd (- (1517519400464397 / 8796093022208)) = - (1517519400464397 / 8796093022208)"
    by (rule rd_eval [where e = "7" and m = "- 6070077601857588"])
       (simp_all add: pow2_def py_round_def Let_def)
  show ?thesis unfolding fsub_def fneg.simps fadd.simps x round_double_def r by (simp add: pow2_def)
qed

lemma hi_38_70_t4: "fmul (Fin (7095133126661253 / 576460752303423488)) (Fin 1444) = Fin (625327895196463 / 35184372088832)"
proof -
  have x: "(7095133126661253 / 576460752303423488) * 1444 = (2561343058724712333 / 144115188075855872::real)" by simp
  have r: "rd (2561343058724712333 / 144115188075855872) = 625327895196463 / 35184372088832"
    by (rule rd_eval [where e = "4" and m = "5002623161571704"])
       (simp_all add: pow2_def py_round_def Let_def)
  show ?thesis unfolding fmul.simps x round_double_def r by (simp add: pow2_def)
qed

lemma hi_38_70_s4: "fsub (Fin (- (1517519400464397 / 8796093022208))) (Fin (625327895196463 / 35184372088832)) = Fin (- (6695405497054051 / 35184372088832))"
proof -
  have x: "(- (1517519400464397 / 8796093022208)) + - (625327895196463 / 35184372088832) = (- (6695405497054051 / 35184372088832)::real)" by simp
  have r: "rd (- (6695405497054051 / 35184372088832)) = - (6695405497054051 / 35184372088832)"
    by (rule rd_eval [where e = "7" and m = "- 6695405497054051"])
       (simp_all add: pow2_def py_round_def Let_def)
  show ?thesis unfolding fsub_def fneg.simps fadd.simps x round_double_def r by (simp add: pow2_def)
qed

lemma hi_38_70_t5: "fmul (Fin (4734134352667167 / 288230376151711744)) (Fin 4900) = Fin (2831696573250625 / 35184372088832)"
proof -
  have x: "(4734134352667167 / 288230376151711744) * 4900 = (5799314582017279575 / 72057594037927936::real)" by simp
  have r: "rd (5799314582017279575 / 72057594037927936) = 2831696573250625 / 35184372088832"
    by (rule rd_eval [where e = "6" and m = "5663393146501250"])
       (simp_all add: pow2_def py_round_def Let_def)
  show ?thesis unfolding fmul.simps x round_double_def r by (simp add: pow2_def)
qed

lemma hi_38_70_s5: "fsub (Fin (- (6695405497054051 / 35184372088832))) (Fin (2831696573250625 / 35184372088832)) = Fin (- (2381775517576169 / 8796093022208))"
proof -
  have x: "(- (6695405497054051 / 35184372088832)) + - (2831696573250625 / 35184372088832) = (- (2381775517576169 / 8796093022208)::real)" by simp
  have r: "rd (- (2381775517576169 / 8796093022208)) = - (2381775517576169 / 8796093022208)"
    by (rule rd_eval [where e = "8" and m = "- 4763551035152338"])
       (simp_all add: pow2_def py_round_def Let_def)
  show ?thesis unfolding fsub_def fneg.simps fadd.simps x round_double_def r by (simp add: pow2_def)
qed

lemma hi_38_70_x6: "fmul (Fin (2549953385227111 / 1152921504606846976)) (Fin 1444) = Fin (898958175846667 / 281474976710656)"
proof -
  have x: "(2549953385227111 / 1152921504606846976) * 1444 = (920533172066987071 / 288230376151711744::real)" by simp
  have r: "rd (920533172066987071 / 288230376151711744) = 898958175846667 / 281474976710656"
    by (rule rd_eval [where e = "1" and m = "7191665406773336"])
       (simp_all add: pow2_def py_round_def Let_def)
  show ?thesis unfolding fmul.simps x round_double_def r by (simp add: pow2_def)
qed

lemma hi_38_70_t6: "fmul (Fin (898958175846667 / 281474976710656)) (Fin 70) = Fin (245808876208073 / 1099511627776)"
proof -
  have x: "(898958175846667 / 281474976710656) * 70 = (31463536154633345 / 140737488355328::real)" by simp
  have r: "rd (31463536154633345 / 140737488355328) = 245808876208073 / 1099511627776"
    by (rule rd_eval [where e = "7" and m = "7865884038658336"])
       (simp_all add: pow2_def py_round_def Let_def)
  show ?thesis unfolding fmul.simps x round_double_def r by (simp add: pow2_def)
qed

lemma hi_38_70_s6: "fadd (Fin (- (2381775517576169 / 8796093022208))) (Fin (245808876208073 / 1099511627776)) = Fin (- (415304507911585 / 8796093022208))"
proof -
  have x: "(- (2381775517576169 / 8796093022208)) + (245808876208073 / 1099511627776) = (- (415304507911585 / 8796093022208)::real)" by simp
  have r: "rd (- (415304507911585 / 8796093022208)) = - (415304507911585 / 8796093022208)"
    by (rule rd_eval [where e = "5" and m = "- 6644872126585360"])
       (simp_all add: pow2_def py_round_def Let_def)
  show ?thesis unfolding fadd.simps x round_double_def r by (simp add: pow2_def)
qed

lemma hi_38_70_x7: "fmul (Fin (3345593738928333 / 4611686018427387904)) (Fin 38) = Fin (7945785129954791 / 288230376151711744)"
proof -
  have x: "(3345593738928333 / 4611686018427387904) * 38 = (63566281039638327 / 2305843009213693952::real)" by simp
  have r: "rd (63566281039638327 / 2305843009213693952) = 7945785129954791 / 288230376151711744"
    by (rule rd_eval [where e = "- 6" and m = "7945785129954791"])
       (simp_all add: pow2_def py_round_def Let_def)
  show ?thesis unfolding fmul.simps x round_double_def r by (simp add: pow2_def)
qed

lemma hi_38_70_t7: "fmul (Fin (7945785129954791 / 288230376151711744)) (Fin 4900) = Fin (4752727921970029 / 35184372088832)"
proof -
  have x: "(7945785129954791 / 288230376151711744) * 4900 = (9733586784194618975 / 72057594037927936::real)" by simp
  have r: "rd (9733586784194618975 / 72057594037927936) = 4752727921970029 / 35184372088832"
    by (rule rd_eval [where e = "7" and m = "4752727921970029"])
       (simp_all add: pow2_def py_round_def Let_def)
  show ?thesis unfolding fmul.simps x round_double_def r by (simp add: pow2_def)
qed

lemma hi_38_70_s7: "fadd (Fin (- (415304507911585 / 8796093022208))) (Fin (4752727921970029 / 35184372088832)) = Fin (3091509890323689 / 35184372088832)"
proof -
  have x: "(- (415304507911585 / 8796093022208)) + (4752727921970029 / 35184372088832) = (3091509890323689 / 35184372088832::real)" by simp
  have r: "rd (3091509890323689 / 35184372088832) = 3091509890323689 / 35184372088832"
    by (rule rd_eval [where e = "6" and m = "6183019780647378"])
       (simp_all add: pow2_def py_round_def Let_def)
  show ?thesis unfolding fadd.simps x round_double_def r by (simp add: pow2_def)
qed

lemma hi_38_70_x8: "fmul (Fin (8457758370819535 / 2361183241434822606848)) (Fin 1444) = Fin (1490845103450123 / 288230376151711744)"
proof -
  have x: "(8457758370819535 / 2361183241434822606848) * 1444 = (3053250771865852135 / 590295810358705651712::real)" by simp
  have r: "rd (3053250771865852135 / 590295810358705651712) = 1490845103450123 / 288230376151711744"
    by (rule rd_eval [where e = "- 8" and m = "5963380413800492"])
       (simp_all add: pow2_def py_round_def Let_def)
  show ?thesis unfolding fmul.simps x round_double_def r by (simp add: pow2_def)
qed

lemma hi_38_70_t8: "fmul (Fin (1490845103450123 / 288230376151711744)) (Fin 4900) = Fin (7133926764556253 / 281474976710656)"
proof -
  have x: "(1490845103450123 / 288230376151711744) * 4900 = (1826285251726400675 / 72057594037927936::real)" by simp
  have r: "rd (1826285251726400675 / 72057594037927936) = 7133926764556253 / 281474976710656"
    by (rule rd_eval [where e = "4" and m = "7133926764556253"])
       (simp_all add: pow2_def py_round_def Let_def)
  show ?thesis unfolding fmul.simps x round_double_def r by (simp add: pow2_def)
qed

lemma hi_38_70_s8: "fsub (Fin (3091509890323689 / 35184372088832)) (Fin (7133926764556253 / 281474976710656)) = Fin (4399538089508315 / 70368744177664)"
proof -
  have x: "(3091509890323689 / 35184372088832) + - (7133926764556253 / 281474976710656) = (17598152358033259 / 281474976710656::real)" by simp
  have r: "rd (17598152358033259 / 281474976710656) = 4399538089508315 / 70368744177664"
    by (rule rd_eval [where e = "5" and m = "8799076179016630"])
       (simp_all add: pow2_def py_round_def Let_def)
  show ?thesis unfolding fsub_def fneg.simps fadd.simps x round_double_def r by (simp add: pow2_def)
qed

lemma hi_38_70_value:
  "fsub (fadd (fadd (fsub (fsub (fsub (fadd (fadd
       (fneg (lit 8.784695))
       (fmul (lit 1.61139411) (Fin 38)))
       (fmul (lit 2.338549) (Fin 70)))
       (fmul (fmul (lit 0.14611605) (Fin 38)) (Fin 70)))
       (fmul (lit 0.012308094) (Fin 1444)))
       (fmul (lit 0.016424828) (Fin 4900)))
       (fmul (fmul (lit 0.002211732) (Fin 1444)) (Fin 70)))
       (fmul (fmul (lit 0.00072546) (Fin 38)) (Fin 4900)))
       (fmul (fmul (lit 0.000003582) (Fin 1444)) (Fin 4900))
     = Fin (4399538089508315 / 70368744177664)"
  unfolding lit_8_784695 lit_1_61139411 lit_2_338549 lit_0_14611605 lit_0_012308094 lit_0_016424828 lit_0_002211732 lit_0_00072546 lit_0_000003582 fneg.simps
    hi_38_70_t1 hi_38_70_s1 hi_38_70_t2 hi_38_70_s2
    hi_38_70_x3 hi_38_70_t3 hi_38_70_s3 hi_38_70_t4
    hi_38_70_s4 hi_38_70_t5 hi_38_70_s5 hi_38_70_x6
    hi_38_70_t6 hi_38_70_s6 hi_38_70_x7 hi_38_70_t7
    hi_38_70_s7 hi_38_70_x8 hi_38_70_t8 hi_38_70_s8 ..

lemma hi_38_100_t1: "fmul (Fin (1814268478335753 / 1125899906842624)) (Fin 38) = Fin (8617775272094827 / 140737488355328)"
proof -
  have x: "(1814268478335753 / 1125899906842624) * 38 = (34471101088379307 / 562949953421312::real)" by simp
  have r: "rd (34471101088379307 / 562949953421312) = 8617775272094827 / 140737488355328"
    by (rule rd_eval [where e = "5" and m = "8617775272094827"])
       (simp_all add: pow2_def py_round_def Let_def)
  show ?thesis unfolding fmul.simps x round_double_def r by (simp add: pow2_def)
qed

lemma hi_38_100_s1: "fadd (Fin (- (154541988783451 / 17592186044416))) (Fin (8617775272094827 / 140737488355328)) = Fin (7381439361827219 / 140737488355328)"
proof -
  have x: "(- (154541988783451 / 17592186044416)) + (8617775272094827 / 140737488355328) = (7381439361827219 / 140737488355328::real)" by simp
  have r: "rd (7381439361827219 / 140737488355328) = 7381439361827219 / 140737488355328"
    by (rule rd_eval [where e = "5" and m = "7381439361827219"])
       (simp_all add: pow2_def py_round_def Let_def)
  show ?thesis unfolding fadd.simps x round_double_def r by (simp add: pow2_def)
qed

lemma hi_38_100_t2: "fmul (Fin (5265944202493823 / 2251799813685248)) (Fin 100) = Fin (4114018908198299 / 17592186044416)"
proof -
  have x: "(5265944202493823 / 2251799813685248) * 100 = (131648605062345575 / 562949953421312::real)" by simp
  have r: "rd (131648605062345575 / 562949953421312) = 4114018908198299 / 17592186044416"
    by (rule rd_eval [where e = "7" and m = "8228037816396598"])
       (simp_all add: pow2_def py_round_def Let_def)
  show ?thesis unfolding fmul.simps x round_double_def r by (simp add: pow2_def)
qed

lemma hi_38_100_s2: "fadd (Fin (7381439361827219 / 140737488355328)) (Fin (4114018908198299 / 17592186044416)) = Fin (5036698828426701 / 17592186044416)"
proof -
  have x: "(7381439361827219 / 140737488355328) + (4114018908198299 / 17592186044416) = (40293590627413611 / 140737488355328::real)" by simp
  have r: "rd (40293590627413611 / 140737488355328) = 5036698828426701 / 17592186044416"
    by (rule rd_eval [where e = "8" and m = "5036698828426701"])
       (simp_all add: pow2_def py_round_def Let_def)
  show ?thesis unfolding fadd.simps x round_double_def r by (simp add: pow2_def)
qed

lemma hi_38_100_x3: "fmul (Fin (2632192753331395 / 18014398509481984)) (Fin 38) = Fin (6251457789162063 / 1125899906842624)"
proof -
  have x: "(2632192753331395 / 18014398509481984) * 38 = (50011662313296505 / 9007199254740992::real)" by simp
  have r: "rd (50011662313296505 / 9007199254740992) = 6251457789162063 / 1125899906842624"
    by (rule rd_eval [where e = "2" and m = "6251457789162063"])
       (simp_all add: pow2_def py_round_def Let_def)
  show ?thesis unfolding fmul.simps x round_double_def r by (simp add: pow2_def)
qed

lemma hi_38_100_t3: "fmul (Fin (6251457789162063 / 1125899906842624)) (Fin 100) = Fin (2441975698891431 / 4398046511104)"
proof -
  have x: "(6251457789162063 / 1125899906842624) * 100 = (156286444729051575 / 281474976710656::real)" by simp
  have r: "rd (156286444729051575 / 281474976710656) = 2441975698891431 / 4398046511104"
    by (rule rd_eval [where e = "9" and m = "4883951397782862"])
       (simp_all add: pow2_def py_round_def Let_def)
  show ?thesis unfolding fmul.simps x round_double_def r by (simp add: pow2_def)
qed

lemma hi_38_100_s3: "fsub (Fin (5036698828426701 / 17592186044416)) (Fin (2441975698891431 / 4398046511104)) = Fin (- (4731203967139023 / 17592186044416))"
proof -
  have x: "(5036698828426701 / 17592186044416) + - (2441975698891431 / 4398046511104) = (- (4731203967139023 / 17592186044416)::real)" by simp
  have r: "rd (- (4731203967139023 / 17592186044416)) = - (4731203967139023 / 17592186044416)"
    by (rule rd_eval [where e = "8" and m = "- 4731203967139023"])
       (simp_all add: pow2_def py_round_def Let_def)
  show ?thesis unfolding fsub_def fneg.simps fadd.simps x round_double_def r by (simp add: pow2_def)
qed

lemma hi_38_100_t4: "fmul (Fin (7095133126661253 / 576460752303423488)) (Fin 1444) = Fin (625327895196463 / 35184372088832)"
proof -
  have x: "(7095133126661253 / 576460752303423488) * 1444 = (2561343058724712333 / 144115188075855872::real)" by simp
  have r: "rd (2561343058724712333 / 144115188075855872) = 625327895196463 / 35184372088832"
    by (rule rd_eval [where e = "4" and m = "5002623161571704"])
       (simp_all add: pow2_def py_round_def Let_def)
  show ?thesis unfolding fmul.simps x round_double_def r by (simp add: pow2_def)
qed

lemma hi_38_100_s4: "fsub (Fin (- (4731203967139023 / 17592186044416))) (Fin (625327895196463 / 35184372088832)) = Fin (- (2521933957368627 / 8796093022208))"
proof -
  have x: "(- (4731203967139023 / 17592186044416)) + - (625327895196463 / 35184372088832) = (- (10087735829474509 / 35184372088832)::real)" by simp
  have r: "rd (- (10087735829474509 / 35184372088832)) = - (2521933957368627 / 8796093022208)"
    by (rule rd_eval [where e = "8" and m = "- 5043867914737254"])
       (simp_all add: pow2_def py_round_def Let_def)
  show ?thesis unfolding fsub_def fneg.simps fadd.simps x round_double_def r by (simp add: pow2_def)
qed

lemma hi_38_100_t5: "fmul (Fin (4734134352667167 / 288230376151711744)) (Fin 10000) = Fin (5778972598470663 / 35184372088832)"
proof -
  have x: "(4734134352667167 / 288230376151711744) * 10000 = (2958833970416979375 / 18014398509481984::real)" by simp
  have r: "rd (2958833970416979375 / 18014398509481984) = 5778972598470663 / 35184372088832"
    by (rule rd_eval [where e = "7" and m = "5778972598470663"])
       (simp_all add: pow2_def py_round_def Let_def)
  show ?thesis unfolding fmul.simps x round_double_def r by (simp add: pow2_def)
qed

lemma hi_38_100_s5: "fsub (Fin (- (2521933957368627 / 8796093022208))) (Fin (5778972598470663 / 35184372088832)) = Fin (- (3966677106986293 / 8796093022208))"
proof -
  have x: "(- (2521933957368627 / 8796093022208)) + - (5778972598470663 / 35184372088832) = (- (15866708427945171 / 35184372088832)::real)" by simp
  have r: "rd (- (15866708427945171 / 35184372088832)) = - (3966677106986293 / 8796093022208)"
    by (rule rd_eval [where e = "8" and m = "- 7933354213972586"])
       (simp_all add: pow2_def py_round_def Let_def)
  show ?thesis unfolding fsub_def fneg.simps fadd.simps x round_double_def r by (simp add: pow2_def)
qed

lemma hi_38_100_x6: "fmul (Fin (2549953385227111 / 1152921504606846976)) (Fin 1444) = Fin (898958175846667 / 281474976710656)"
proof -
  have x: "(2549953385227111 / 1152921504606846976) * 1444 = (920533172066987071 / 288230376151711744::real)" by simp
  have r: "rd (920533172066987071 / 288230376151711744) = 898958175846667 / 281474976710656"
    by (rule rd_eval [where e = "1" and m = "7191665406773336"])
       (simp_all add: pow2_def py_round_def Let_def)
  show ?thesis unfolding fmul.simps x round_double_def r by (simp add: pow2_def)
qed

lemma hi_38_100_t6: "fmul (Fin (898958175846667 / 281474976710656)) (Fin 100) = Fin (5618488599041669 / 17592186044416)"
proof -
  have x: "(898958175846667 / 281474976710656) * 100 = (22473954396166675 / 70368744177664::real)" by simp
  have r: "rd (22473954396166675 / 70368744177664) = 5618488599041669 / 17592186044416"
    by (rule rd_eval [where e = "8" and m = "5618488599041669"])
       (simp_all add: pow2_def py_round_def Let_def)
  show ?thesis unfolding fmul.simps x round_double_def r by (simp add: pow2_def)
qed

lemma hi_38_100_s6: "fadd (Fin (- (3966677106986293 / 8796093022208))) (Fin (5618488599041669 / 17592186044416)) = Fin (- (2314865614930917 / 17592186044416))"
proof -
  have x: "(- (3966677106986293 / 8796093022208)) + (5618488599041669 / 17592186044416) = (- (2314865614930917 / 17592186044416)::real)" by simp
  have r: "rd (- (2314865614930917 / 17592186044416)) = - (2314865614930917 / 17592186044416)"
    by (rule rd_eval [where e = "7" and m = "- 4629731229861834"])
       (simp_all add: pow2_def py_round_def Let_def)
  show ?thesis unfolding fadd.simps x round_double_def r by (simp add: pow2_def)
qed

lemma hi_38_100_x7: "fmul (Fin (3345593738928333 / 4611686018427387904)) (Fin 38) = Fin (7945785129954791 / 288230376151711744)"
proof -
  have x: "(3345593738928333 / 4611686018427387904) * 38 = (63566281039638327 / 2305843009213693952::real)" by simp
  have r: "rd (63566281039638327 / 2305843009213693952) = 7945785129954791 / 288230376151711744"
    by (rule rd_eval [where e = "- 6" and m = "7945785129954791"])
       (simp_all add: pow2_def py_round_def Let_def)
  show ?thesis unfolding fmul.simps x round_double_def r by (simp add: pow2_def)
qed

lemma hi_38_100_t7: "fmul (Fin (7945785129954791 / 288230376151711744)) (Fin 10000) = Fin (1212430592339293 / 4398046511104)"
proof -
  have x: "(7945785129954791 / 288230376151711744) * 10000 = (4966115706221744375 / 18014398509481984::real)" by simp
  have r: "rd (4966115706221744375 / 18014398509481984) = 1212430592339293 / 4398046511104"
    by (rule rd_eval [where e = "8" and m = "4849722369357172"])
       (simp_all add: pow2_def py_round_def Let_def)
  show ?thesis unfolding fmul.simps x round_double_def r by (simp add: pow2_def)
qed

lemma hi_38_100_s7: "fadd (Fin (- (2314865614930917 / 17592186044416))) (Fin (1212430592339293 / 4398046511104)) = Fin (2534856754426255 / 17592186044416)"
proof -
  have x: "(- (2314865614930917 / 17592186044416)) + (1212430592339293 / 4398046511104) = (2534856754426255 / 17592186044416::real)" by simp
  have r: "rd (2534856754426255 / 17592186044416) = 2534856754426255 / 17592186044416"
    by (rule rd_eval [where e = "7" and m = "5069713508852510"])
       (simp_all add: pow2_def py_round_def Let_def)
  show ?thesis unfolding fadd.simps x round_double_def r by (simp add: pow2_def)
qed

lemma hi_38_100_x8: "fmul (Fin (8457758370819535 / 2361183241434822606848)) (Fin 1444) = Fin (1490845103450123 / 288230376151711744)"
proof -
  have x: "(8457758370819535 / 2361183241434822606848) * 1444 = (3053250771865852135 / 590295810358705651712::real)" by simp
  have r: "rd (3053250771865852135 / 590295810358705651712) = 1490845103450123 / 288230376151711744"
    by (rule rd_eval [where e = "- 8" and m = "5963380413800492"])
       (simp_all add: pow2_def py_round_def Let_def)
  show ?thesis unfolding fmul.simps x round_double_def r by (simp add: pow2_def)
qed

lemma hi_38_100_t8: "fmul (Fin (1490845103450123 / 288230376151711744)) (Fin 10000) = Fin (3639758553345027 / 70368744177664)"
proof -
  have x: "(1490845103450123 / 288230376151711744) * 10000 = (931778189656326875 / 18014398509481984::real)" by simp
  have r: "rd (931778189656326875 / 18014398509481984) = 3639758553345027 / 70368744177664"
    by (rule rd_eval [where e = "5" and m = "7279517106690054"])
       (simp_all add: pow2_def py_round_def Let_def)
  show ?thesis unfolding fmul.simps x round_double_def r by (simp add: pow2_def)
qed

lemma hi_38_100_s8: "fsub (Fin (2534856754426255 / 17592186044416)) (Fin (3639758553345027 / 70368744177664)) = Fin (6499668464359993 / 70368744177664)"
proof -
  have x: "(2534856754426255 / 17592186044416) + - (3639758553345027 / 70368744177664) = (6499668464359993 / 70368744177664::real)" by simp
  have r: "rd (6499668464359993 / 70368744177664) = 6499668464359993 / 70368744177664"
    by (rule rd_eval [where e = "6" and m = "6499668464359993"])
       (simp_all add: pow2_def py_round_def Let_def)
  show ?thesis unfolding fsub_def fneg.simps fadd.simps x round_double_def r by (simp add: pow2_def)
qed

lemma hi_38_100_value:
  "fsub (fadd (fadd (fsub (fsub (fsub (fadd (fadd
       (fneg (lit 8.784695))
       (fmul (lit 1.61139411) (Fin 38)))
       (fmul (lit 2.338549) (Fin 100)))
       (fmul (fmul (lit 0.14611605) (Fin 38)) (Fin 100)))
       (fmul (lit 0.012308094) (Fin 1444)))
       (fmul (lit 0.016424828) (Fin 10000)))
       (fmul (fmul (lit 0.002211732) (Fin 1444)) (Fin 100)))
       (fmul (fmul (lit 0.00072546) (Fin 38)) (Fin 10000)))
       (fmul (fmul (lit 0.000003582) (Fin 1444)) (Fin 10000))
     = Fin (6499668464359993 / 70368744177664)"
  unfolding lit_8_784695 lit_1_61139411 lit_2_338549 lit_0_14611605 lit_0_012308094 lit_0_016424828 lit_0_002211732 lit_0_00072546 lit_0_000003582 fneg.simps
    hi_38_100_t1 hi_38_100_s1 hi_38_100_t2 hi_38_100_s2
    hi_38_100_x3 hi_38_100_t3 hi_38_100_s3 hi_38_100_t4
    hi_38_100_s4 hi_38_100_t5 hi_38_100_s5 hi_38_100_x6
    hi_38_100_t6 hi_38_100_s6 hi_38_100_x7 hi_38_100_t7
    hi_38_100_s7 hi_38_100_x8 hi_38_100_t8 hi_38_100_s8 ..

lemma rd_2_1200: "rd (2 ^ 1200) = 2 ^ 1200"
  by (rule rd_eval [where e = "1200" and m = "4503599627370496"])
     (simp_all add: pow2_def py_round_def Let_def)

lemma clamp_rh_num:
  "py_max (Fin 0) (py_min (Fin 100) (Fin 70)) = Fin 70"
  "py_max (Fin 0) (py_min (Fin 100) NaN) = Fin 100"
  by (simp_all add: py_max_def py_min_def)

lemma heat_index_38_70:
  assumes "c_pow lm 38 2 = Fin 1444" "c_pow lm 70 2 = Fin 4900"
  shows "compute_heat_index lm (Some (Fin 38)) (Some (Fin 70))
     = Inr (Some (Fin (4399538089508315 / 70368744177664)))"
proof -
  have p: "float_pow lm (Fin 38) 2 = Inr (Fin 1444)" "float_pow lm (Fin 70) 2 = Inr (Fin 4900)"
    using assms by (simp_all add: float_pow_pos)
  have "compute_heat_index lm (Some (Fin 38)) (Some (Fin 70)) = Inr (Some
      (fsub (fadd (fadd (fsub (fsub (fsub (fadd (fadd
       (fneg (lit 8.784695))
       (fmul (lit 1.61139411) (Fin 38)))
       (fmul (lit 2.338549) (Fin 70)))
       (fmul (fmul (lit 0.14611605) (Fin 38)) (Fin 70)))
       (fmul (lit 0.012308094) (Fin 1444)))
       (fmul (lit 0.016424828) (Fin 4900)))
       (fmul (fmul (lit 0.002211732) (Fin 1444)) (Fin 70)))
       (fmul (fmul (lit 0.00072546) (Fin 38)) (Fin 4900)))
       (fmul (fmul (lit 0.000003582) (Fin 1444)) (Fin 4900))))"
    by (subst compute_heat_index_active [OF clamp_rh_num(1) [symmetric]])
       (simp_all add: p bindE_def)
  then show ?thesis unfolding hi_38_70_value .
qed

lemma heat_index_38_nan:
  assumes "c_pow lm 38 2 = Fin 1444" "c_pow lm 100 2 = Fin 10000"
  shows "compute_heat_index lm (Some (Fin 38)) (Some NaN)
     = Inr (Some (Fin (6499668464359993 / 70368744177664)))"
proof -
  have p: "float_pow lm (Fin 38) 2 = Inr (Fin 1444)"
    "float_pow lm (Fin 100) 2 = Inr (Fin 10000)"
    using assms by (simp_all add: float_pow_pos)
  have "compute_heat_index lm (Some (Fin 38)) (Some NaN) = Inr (Some
      (fsub (fadd (fadd (fsub (fsub (fsub (fadd (fadd
       (fneg (lit 8.784695))
       (fmul (lit 1.61139411) (Fin 38)))
       (fmul (lit 2.338549) (Fin 100)))
       (fmul (fmul (lit 0.14611605) (Fin 38)) (Fin 100)))
       (fmul (lit 0.012308094) (Fin 1444)))
       (fmul (lit 0.016424828) (Fin 10000)))
       (fmul (fmul (lit 0.002211732) (Fin 1444)) (Fin 100)))
       (fmul (fmul (lit 0.00072546) (Fin 38)) (Fin 10000)))
       (fmul (fmul (lit 0.000003582) (Fin 1444)) (Fin 10000))))"
    by (subst compute_heat_index_active [OF clamp_rh_num(2) [symmetric]])
       (simp_all add: p bindE_def)
  then show ?thesis unfolding hi_38_100_value .
qed

lemma lit_13_12: "lit 13.12 = Fin (7385903388887613 / 562949953421312)"
proof -
  have r: "rd 13.12 = 7385903388887613 / 562949953421312"
    by (rule rd_eval [where e = "3" and m = "7385903388887613"])
       (simp_all add: pow2_def py_round_def Let_def)
  show ?thesis unfolding lit_def round_double_def r by (simp add: pow2_def)
qed

lemma lit_0_6215: "lit 0.6215 = Fin (5597974336821527 / 9007199254740992)"
proof -
  have r: "rd 0.6215 = 5597974336821527 / 9007199254740992"
    by (rule rd_eval [where e = "- 1" and m = "5597974336821527"])
       (simp_all add: pow2_def py_round_def Let_def)
  show ?thesis unfolding lit_def round_double_def r by (simp add: pow2_def)
qed

lemma lit_11_37: "lit 11.37 = Fin (6400740970400317 / 562949953421312)"
proof -
  have r: "rd 11.37 = 6400740970400317 / 562949953421312"
    by (rule rd_eval [where e = "3" and m = "6400740970400317"])
       (simp_all add: pow2_def py_round_def Let_def)
  show ?thesis unfolding lit_def round_double_def r by (simp add: pow2_def)
qed

lemma lit_0_3965: "lit 0.3965 = Fin (7142709009009607 / 18014398509481984)"
proof -
  have r: "rd 0.3965 = 7142709009009607 / 18014398509481984"
    by (rule rd_eval [where e = "- 2" and m = "7142709009009607"])
       (simp_all add: pow2_def py_round_def Let_def)
  show ?thesis unfolding lit_def round_double_def r by (simp add: pow2_def)
qed

lemma lit_1_3888888888888888: "lit 1.3888888888888888 = Fin (3127499741229511 / 2251799813685248)"
proof -
  have r: "rd 1.3888888888888888 = 3127499741229511 / 2251799813685248"
    by (rule rd_eval [where e = "0" and m = "6254999482459022"])
       (simp_all add: pow2_def py_round_def Let_def)
  show ?thesis unfolding lit_def round_double_def r by (simp add: pow2_def)
qed

lemma wc_55_v: "fmul (Fin (3127499741229511 / 2251799813685248)) (Fin (8106479329266893 / 2251799813685248)) = Fin 5"
proof -
  have x: "(3127499741229511 / 2251799813685248) * (8106479329266893 / 2251799813685248) = (25353012004564587754714086879323 / 5070602400912917605986812821504::real)" by simp
  have r: "rd (25353012004564587754714086879323 / 5070602400912917605986812821504) = 5"
    by (rule rd_eval [where e = "2" and m = "5629499534213120"])
       (simp_all add: pow2_def py_round_def Let_def)
  show ?thesis unfolding fmul.simps x round_double_def r by (simp add: pow2_def)
qed

lemma wc_55_a: "fmul (Fin (5597974336821527 / 9007199254740992)) (Fin (11 / 2)) = Fin (60134489946325 / 17592186044416)"
proof -
  have x: "(5597974336821527 / 9007199254740992) * (11 / 2) = (61577717705036797 / 18014398509481984::real)" by simp
  have r: "rd (61577717705036797 / 18014398509481984) = 60134489946325 / 17592186044416"
    by (rule rd_eval [where e = "1" and m = "7697214713129600"])
       (simp_all add: pow2_def py_round_def Let_def)
  show ?thesis unfolding fmul.simps x round_double_def r by (simp add: pow2_def)
qed

lemma wc_55_b: "fadd (Fin (7385903388887613 / 562949953421312)) (Fin (60134489946325 / 17592186044416)) = Fin (2327551766792503 / 140737488355328)"
proof -
  have x: "(7385903388887613 / 562949953421312) + (60134489946325 / 17592186044416) = (9310207067170013 / 562949953421312::real)" by simp
  have r: "rd (9310207067170013 / 562949953421312) = 2327551766792503 / 140737488355328"
    by (rule rd_eval [where e = "4" and m = "4655103533585006"])
       (simp_all add: pow2_def py_round_def Let_def)
  show ?thesis unfolding fadd.simps x round_double_def r by (simp add: pow2_def)
qed

lemma wc_55_c: "fmul (Fin (6400740970400317 / 562949953421312)) (Fin (5826328605330349 / 4503599627370496)) = Fin (4140334765162879 / 281474976710656)"
proof -
  have x: "(6400740970400317 / 562949953421312) * (5826328605330349 / 4503599627370496) = (37292820211153303616998559320633 / 2535301200456458802993406410752::real)" by simp
  have r: "rd (37292820211153303616998559320633 / 2535301200456458802993406410752) = 4140334765162879 / 281474976710656"
    by (rule rd_eval [where e = "3" and m = "8280669530325758"])
       (simp_all add: pow2_def py_round_def Let_def)
  show ?thesis unfolding fmul.simps x round_double_def r by (simp add: pow2_def)
qed

lemma wc_55_d: "fsub (Fin (2327551766792503 / 140737488355328)) (Fin (4140334765162879 / 281474976710656)) = Fin (514768768422127 / 281474976710656)"
proof -
  have x: "(2327551766792503 / 140737488355328) + - (4140334765162879 / 281474976710656) = (514768768422127 / 281474976710656::real)" by simp
  have r: "rd (514768768422127 / 281474976710656) = 514768768422127 / 281474976710656"
    by (rule rd_eval [where e = "0" and m = "8236300294754032"])
       (simp_all add: pow2_def py_round_def Let_def)
  show ?thesis unfolding fsub_def fneg.simps fadd.simps x round_double_def r by (simp add: pow2_def)
qed

lemma wc_55_e: "fmul (Fin (7142709009009607 / 18014398509481984)) (Fin (11 / 2)) = Fin (4910612443694105 / 2251799813685248)"
proof -
  have x: "(7142709009009607 / 18014398509481984) * (11 / 2) = (78569799099105677 / 36028797018963968::real)" by simp
  have r: "rd (78569799099105677 / 36028797018963968) = 4910612443694105 / 2251799813685248"
    by (rule rd_eval [where e = "1" and m = "4910612443694105"])
       (simp_all add: pow2_def py_round_def Let_def)
  show ?thesis unfolding fmul.simps x round_double_def r by (simp add: pow2_def)
qed

lemma wc_55_f: "fmul (Fin (4910612443694105 / 2251799813685248)) (Fin (5826328605330349 / 4503599627370496)) = Fin (794110381629635 / 281474976710656)"
proof -
  have x: "(4910612443694105 / 2251799813685248) * (5826328605330349 / 4503599627370496) = (28610841750386131741535428892645 / 10141204801825835211973625643008::real)" by simp
  have r: "rd (28610841750386131741535428892645 / 10141204801825835211973625643008) = 794110381629635 / 281474976710656"
    by (rule rd_eval [where e = "1" and m = "6352883053037080"])
       (simp_all add: pow2_def py_round_def Let_def)
  show ?thesis unfolding fmul.simps x round_double_def r by (simp add: pow2_def)
qed

lemma wc_55_g: "fadd (Fin (514768768422127 / 281474976710656)) (Fin (794110381629635 / 281474976710656)) = Fin (654439575025881 / 140737488355328)"
proof -
  have x: "(514768768422127 / 281474976710656) + (794110381629635 / 281474976710656) = (654439575025881 / 140737488355328::real)" by simp
  have r: "rd (654439575025881 / 140737488355328) = 654439575025881 / 140737488355328"
    by (rule rd_eval [where e = "2" and m = "5235516600207048"])
       (simp_all add: pow2_def py_round_def Let_def)
  show ?thesis unfolding fadd.simps x round_double_def r by (simp add: pow2_def)
qed

text \<open>At 5.5 degrees and a wind of 1.3888888888888888 m/s the rounded product
  \<open>wind_ms * 3.6\<close> is 5.0, so the wind chill applies; with the value that \<open>pow(5.0, 0.16)\<close>
  has in glibc it is 4.65..., a cold warning.\<close>

lemma windchill_at_5_kmh:
  assumes "c_pow lm 5 (rd 0.16) = Fin (5826328605330349 / 4503599627370496)"
  shows "compute_windchill lm (Some (Fin 5.5)) (Some (lit 1.3888888888888888))
           = Inr (Some (Fin (654439575025881 / 140737488355328)))"
    and "\<exists>h. build_heat_cold_hazard lm (Some (Fin 5.5)) (Some (lit 1.3888888888888888)) None None
           = Inr (Some h) \<and> h_type h = ''cold'' \<and> level h = ''warning''"
proof -
  have n: "(5.5::real) = 11 / 2" by simp
  have v: "fmul (lit 1.3888888888888888) (lit 3.6) = Fin 5"
    unfolding lit_1_3888888888888888 lit_3_6 by (rule wc_55_v)
  have p: "float_pow lm (Fin 5) (rd 0.16) = Inr (Fin (5826328605330349 / 4503599627370496))"
    using assms by (intro float_pow_pos) simp_all
  have g: "\<not> flt (Fin 10) (Fin (11 / 2))" "\<not> flt (fmul (lit 1.3888888888888888) (lit 3.6)) (Fin 5)"
    unfolding v by simp_all
  show w: "compute_windchill lm (Some (Fin 5.5)) (Some (lit 1.3888888888888888))
           = Inr (Some (Fin (654439575025881 / 140737488355328)))"
    unfolding n compute_windchill_pow [OF refl g] v p bindE_def sum.case
      lit_13_12 lit_0_6215 lit_11_37 lit_0_3965
      wc_55_a wc_55_b wc_55_c wc_55_d wc_55_e wc_55_f wc_55_g ..
  show "\<exists>h. build_heat_cold_hazard lm (Some (Fin 5.5)) (Some (lit 1.3888888888888888)) None None
           = Inr (Some h) \<and> h_type h = ''cold'' \<and> level h = ''warning''"
    unfolding build_heat_cold_hazard_tiers [OF w refl] by simp
qed

lemma round_double_1444: "round_double (1444) = Fin 1444"
proof -
  have r: "rd (1444) = 1444"
    by (rule rd_eval [where e = "10" and m = "6350779162034176"])
       (simp_all add: pow2_def py_round_def Let_def)
  show ?thesis unfolding round_double_def r by (simp add: pow2_def)
qed

lemma round_double_4900: "round_double (4900) = Fin 4900"
proof -
  have r: "rd (4900) = 4900"
    by (rule rd_eval [where e = "12" and m = "5387606976102400"])
       (simp_all add: pow2_def py_round_def Let_def)
  show ?thesis unfolding round_double_def r by (simp add: pow2_def)
qed

lemma round_double_10000: "round_double (10000) = Fin 10000"
proof -
  have r: "rd (10000) = 10000"
    by (rule rd_eval [where e = "13" and m = "5497558138880000"])
       (simp_all add: pow2_def py_round_def Let_def)
  show ?thesis unfolding round_double_def r by (simp add: pow2_def)
qed

lemmas round_double_squares = round_double_1444 round_double_4900 round_double_10000

lemma libm_cr_squares:
  "c_pow libm_cr 38 2 = Fin 1444" "c_pow libm_cr 70 2 = Fin 4900"
  "c_pow libm_cr 100 2 = Fin 10000"
  by (simp_all add: libm_cr_def round_double_squares)

lemma libm_cr_overflow: "c_pow libm_cr (2 ^ 600) 2 = PInf"
proof -
  have p: "(2 ^ 600 :: real) powr 2 = 2 ^ 1200"
    by (simp add: power_mult [symmetric])
  show ?thesis unfolding libm_cr_def libm.simps p round_double_def rd_2_1200
    by (simp add: pow2_def)
qed

text \<open>
  C6, as stated, at inputs that are NaN or huge.
  \<^item> Temperature 5 and a NaN wind speed: the wind is not at least 5 km/h, so the claim
    takes the raw temperature as the effective cold and gives a cold warning. The code
    leaves the wind-chill branch only if \<open>V_kmh < 5\<close>, which is false for NaN: the wind
    chill is NaN, no cold tier applies, and no hazard is returned.
  \<^item> Temperature 38 and a NaN humidity: the humidity is not at least 40, so the claim
    takes the raw temperature 38 as the heat index, which is the info tier. The code
    clamps the humidity with \<open>max(0.0, min(100.0, .))\<close>, which maps NaN to 100: the heat
    index is 92.36584424399997, the warning tier.
  \<^item> Temperature \<open>2^600\<close> and humidity 70: \<open>T**2\<close> overflows and the call raises
    \<open>OverflowError\<close>; no hazard is classified.
\<close>

theorem build_heat_cold_hazard_nan_and_overflow:
  "build_heat_cold_hazard libm_cr (Some (Fin 5)) (Some NaN) None None = Inr None
   \<and> (\<exists>h. build_heat_cold_hazard libm_cr (Some (Fin 38)) None None (Some NaN) = Inr (Some h)
          \<and> h_type h = ''heat'' \<and> level h = ''warning'')
   \<and> build_heat_cold_hazard libm_cr (Some (Fin (2 ^ 600))) None None (Some (Fin 70))
       = Inl OverflowError"
proof -
  have v: "fmul NaN (lit 3.6) = NaN" by simp
  have w1: "compute_windchill libm_cr (Some (Fin 5)) (Some NaN) = Inr (Some NaN)"
    by (subst compute_windchill_pow [OF refl])
       (simp_all add: v float_pow_def bindE_def nan_absorbs)
  have c1: "build_heat_cold_hazard libm_cr (Some (Fin 5)) (Some NaN) None None = Inr None"
    unfolding build_heat_cold_hazard_tiers [OF w1 refl] by simp
  have w2: "compute_windchill libm_cr (Some (Fin 38)) None = Inr None"
    by (rule compute_windchill_none) simp
  note h2 = heat_index_38_nan [OF libm_cr_squares(1) libm_cr_squares(3)]
  have c2: "\<exists>h. build_heat_cold_hazard libm_cr (Some (Fin 38)) None None (Some NaN)
          = Inr (Some h) \<and> h_type h = ''heat'' \<and> level h = ''warning''"
    unfolding build_heat_cold_hazard_tiers [OF w2 refl] h2 by simp
  have w3: "compute_windchill libm_cr (Some (Fin (2 ^ 600))) None = Inr None"
    by (rule compute_windchill_none) simp
  have big: "(1::real) < 2 ^ 600" by simp
  have fp: "float_pow libm_cr (Fin (2 ^ 600)) 2 = Inl OverflowError"
    using big libm_cr_overflow by (rule float_pow_overflow)
  have g: "\<not> flt (Fin (2 ^ 600)) (Fin 27)" "\<not> flt (Fin 70) (Fin 40)" by simp_all
  have h3: "compute_heat_index libm_cr (Some (Fin (2 ^ 600))) (Some (Fin 70)) = Inl OverflowError"
    unfolding compute_heat_index_active [OF clamp_rh_num(1) [symmetric] g] fp bindE_def sum.case ..
  have c3: "build_heat_cold_hazard libm_cr (Some (Fin (2 ^ 600))) None None (Some (Fin 70))
       = Inl OverflowError"
    unfolding build_heat_cold_hazard_tiers [OF w3 refl] h3 by simp
  from c1 c2 c3 show ?thesis by (intro conjI)
qed

text \<open>
  C6 (amended): for a temperature, a wind speed and a humidity that are not NaN. The
  classifier checks cold first. Wind chill is computed only when the temperature is at
  most 10 and the wind, \<open>wind_ms * 3.6\<close> rounded to binary64, is at least 5 km/h;
  otherwise the effective cold is the raw temperature. An effective cold \<open><= 5\<close> gives
  a cold warning, \<open><= 10\<close> a cold watch, \<open><= 15\<close> a cold info. Otherwise a temperature
  below 32 gives no hazard, and for a temperature \<open>>= 32\<close> the heat index is taken: it
  is the raw temperature unless the temperature is \<open>>= 27\<close> and the humidity \<open>>= 40\<close>; if
  one of its squares overflows the call raises; a heat index below 32 gives no hazard,
  and otherwise a heat hazard is returned whose level is info, watch or warning for a
  heat index \<open>< 41\<close>, \<open>< 54\<close>, or neither. The heat index is at least 32, so that the
  heat hazard is returned, for every temperature \<open>>= 32\<close> when the humidity is absent or
  below 40, and for every temperature from 32 to \<open>2^500\<close> and humidity \<open>>= 40\<close> when the
  C library returns the two squares with a relative error of at most \<open>2^-40\<close>. At 38
  degrees and 70 percent (with the two squares 1444 and 4900) the index is
  62.52119660400005, above 32, and a heat warning is returned; at 38 degrees and a
  humidity below 40 the index is 38 and a heat info is returned. A returned hazard is
  cold or heat, never both.
\<close>

theorem build_heat_cold_hazard_spec:
  assumes "T \<noteq> NaN" and "wind \<noteq> Some NaN" and "rh \<noteq> Some NaN"
  shows
  "build_heat_cold_hazard lm None wind cloud rh = Inr None
   \<and> (\<forall>wc. compute_windchill lm (Some T) wind = Inr (Some wc) \<longrightarrow>
        fle T (Fin 10) \<and> (\<exists>v. wind = Some v \<and> fle (Fin 5) (fmul v (lit 3.6))))
   \<and> (wind = None \<or> flt (Fin 10) T \<or> (\<exists>v. wind = Some v \<and> flt (fmul v (lit 3.6)) (Fin 5)) \<longrightarrow>
        compute_windchill lm (Some T) wind = Inr None)
   \<and> (\<forall>v. wind = Some v \<and> fle T (Fin 10) \<and> fle (Fin 5) (fmul v (lit 3.6)) \<longrightarrow>
        compute_windchill lm (Some T) wind =
          bindE (float_pow lm (fmul v (lit 3.6)) (rd 0.16)) (\<lambda>p.
            Inr (Some (fadd (fsub (fadd (lit 13.12) (fmul (lit 0.6215) T)) (fmul (lit 11.37) p))
                            (fmul (fmul (lit 0.3965) T) p)))))
   \<and> (\<forall>e. compute_windchill lm (Some T) wind = Inl e \<longrightarrow>
        build_heat_cold_hazard lm (Some T) wind cloud rh = Inl e)
   \<and> (\<forall>wc ec. compute_windchill lm (Some T) wind = Inr wc
          \<and> ec = (case wc of Some x \<Rightarrow> x | None \<Rightarrow> T) \<longrightarrow>
        (fle ec (Fin 5) \<longrightarrow>
           (\<exists>h. build_heat_cold_hazard lm (Some T) wind cloud rh = Inr (Some h)
                \<and> h_type h = ''cold'' \<and> level h = ''warning''))
        \<and> (\<not> fle ec (Fin 5) \<and> fle ec (Fin 10) \<longrightarrow>
           (\<exists>h. build_heat_cold_hazard lm (Some T) wind cloud rh = Inr (Some h)
                \<and> h_type h = ''cold'' \<and> level h = ''watch''))
        \<and> (\<not> fle ec (Fin 10) \<and> fle ec (Fin 15) \<longrightarrow>
           (\<exists>h. build_heat_cold_hazard lm (Some T) wind cloud rh = Inr (Some h)
                \<and> h_type h = ''cold'' \<and> level h = ''info''))
        \<and> (\<not> fle ec (Fin 15) \<and> flt T (Fin 32) \<longrightarrow>
           build_heat_cold_hazard lm (Some T) wind cloud rh = Inr None)
        \<and> (\<not> fle ec (Fin 15) \<and> fle (Fin 32) T \<longrightarrow>
           (\<forall>e. compute_heat_index lm (Some T) rh = Inl e \<longrightarrow>
              build_heat_cold_hazard lm (Some T) wind cloud rh = Inl e)
           \<and> (\<forall>hi eh. compute_heat_index lm (Some T) rh = Inr hi
                 \<and> eh = (case hi of Some x \<Rightarrow> x | None \<Rightarrow> T) \<longrightarrow>
               (flt eh (Fin 32) \<longrightarrow>
                  build_heat_cold_hazard lm (Some T) wind cloud rh = Inr None)
               \<and> (\<not> flt eh (Fin 32) \<longrightarrow>
                  (\<exists>h. build_heat_cold_hazard lm (Some T) wind cloud rh = Inr (Some h)
                       \<and> h_type h = ''heat''
                       \<and> level h = (if flt eh (Fin 41) then ''info''
                                    else if flt eh (Fin 54) then ''watch'' else ''warning'')))))
        \<and> (\<forall>h. build_heat_cold_hazard lm (Some T) wind cloud rh = Inr (Some h) \<longrightarrow>
             (h_type h = ''cold'' \<and> fle ec (Fin 15))
             \<or> (h_type h = ''heat'' \<and> \<not> fle ec (Fin 15) \<and> fle (Fin 32) T)))
   \<and> (rh = None \<or> flt T (Fin 27) \<or> (\<exists>r. rh = Some r \<and> flt r (Fin 40)) \<longrightarrow>
        compute_heat_index lm (Some T) rh = Inr (Some T))
   \<and> (\<forall>hi. compute_heat_index lm (Some T) rh = Inr (Some hi) \<and> hi \<noteq> T \<longrightarrow>
        fle (Fin 27) T \<and> (\<exists>r. rh = Some r \<and> fle (Fin 40) r))
   \<and> (\<forall>t. T = Fin t \<and> 32 \<le> t \<and> (rh = None \<or> (\<exists>r. rh = Some r \<and> flt r (Fin 40))) \<longrightarrow>
        (\<exists>h. build_heat_cold_hazard lm (Some T) wind cloud rh = Inr (Some h)
             \<and> h_type h = ''heat''
             \<and> level h = (if t < 41 then ''info'' else if t < 54 then ''watch'' else ''warning'')))
   \<and> (\<forall>t rv t2 r2. T = Fin t \<and> 32 \<le> t \<and> t \<le> 2 ^ 500 \<and> rh = Some (Fin rv) \<and> 40 \<le> rv
          \<and> c_pow lm t 2 = Fin t2 \<and> \<bar>t2 - t * t\<bar> \<le> t * t / 2 ^ 40
          \<and> c_pow lm (min rv 100) 2 = Fin r2
          \<and> \<bar>r2 - min rv 100 * min rv 100\<bar> \<le> min rv 100 * min rv 100 / 2 ^ 40 \<longrightarrow>
        (\<exists>hi h. compute_heat_index lm (Some T) rh = Inr (Some (Fin hi)) \<and> 32 \<le> hi
             \<and> build_heat_cold_hazard lm (Some T) wind cloud rh = Inr (Some h)
             \<and> h_type h = ''heat''
             \<and> level h = (if hi < 41 then ''info'' else if hi < 54 then ''watch''
                          else ''warning'')))
   \<and> (c_pow lm 38 2 = Fin 1444 \<and> c_pow lm 70 2 = Fin 4900 \<longrightarrow>
        compute_heat_index lm (Some (Fin 38)) (Some (Fin 70))
          = Inr (Some (Fin (4399538089508315 / 70368744177664)))
        \<and> flt (Fin 32) (Fin (4399538089508315 / 70368744177664))
        \<and> (\<exists>h. build_heat_cold_hazard lm (Some (Fin 38)) wind cloud (Some (Fin 70)) = Inr (Some h)
               \<and> h_type h = ''heat'' \<and> level h = ''warning''))
   \<and> (\<forall>r. flt r (Fin 40) \<longrightarrow>
        compute_heat_index lm (Some (Fin 38)) (Some r) = Inr (Some (Fin 38))
        \<and> (\<exists>h. build_heat_cold_hazard lm (Some (Fin 38)) wind cloud (Some r) = Inr (Some h)
               \<and> h_type h = ''heat'' \<and> level h = ''info''))"
proof -
  have n10: "(\<not> flt (Fin 10) T) = fle T (Fin 10)"
    using assms(1) by (intro not_flt_iff_fle) simp_all
  have n32: "(\<not> flt T (Fin 32)) = fle (Fin 32) T"
    using assms(1) by (intro not_flt_iff_fle) simp_all
  have n27: "(\<not> flt T (Fin 27)) = fle (Fin 27) T"
    using assms(1) by (intro not_flt_iff_fle) simp_all
  have nv: "\<And>v. wind = Some v \<Longrightarrow> (\<not> flt (fmul v (lit 3.6)) (Fin 5)) = fle (Fin 5) (fmul v (lit 3.6))"
  proof -
    fix v assume "wind = Some v"
    with assms(2) have "v \<noteq> NaN" by auto
    then have "fmul v (lit 3.6) \<noteq> NaN" by (rule fmul_lit_3_6_not_nan)
    then show "(\<not> flt (fmul v (lit 3.6)) (Fin 5)) = fle (Fin 5) (fmul v (lit 3.6))"
      by (intro not_flt_iff_fle) simp_all
  qed
  have nr: "\<And>r. rh = Some r \<Longrightarrow> (\<not> flt r (Fin 40)) = fle (Fin 40) r"
  proof -
    fix r assume "rh = Some r"
    with assms(3) have "r \<noteq> NaN" by auto
    then show "(\<not> flt r (Fin 40)) = fle (Fin 40) r" by (intro not_flt_iff_fle) simp_all
  qed
  have w38: "compute_windchill lm (Some (Fin 38)) wind = Inr None"
    by (cases wind) (simp_all add: compute_windchill_def Let_def)
  have p0: "build_heat_cold_hazard lm None wind cloud rh = Inr None"
    by (simp add: build_heat_cold_hazard_def)
  have p1: "\<forall>wc. compute_windchill lm (Some T) wind = Inr (Some wc) \<longrightarrow>
        fle T (Fin 10) \<and> (\<exists>v. wind = Some v \<and> fle (Fin 5) (fmul v (lit 3.6)))"
  proof (intro allI impI)
    fix wc assume "compute_windchill lm (Some T) wind = Inr (Some wc)"
    from compute_windchill_SomeD [OF this] obtain v where
      a: "\<not> flt (Fin 10) T" and b: "wind = Some v" and c: "\<not> flt (fmul v (lit 3.6)) (Fin 5)"
      by blast
    from a have a': "fle T (Fin 10)" unfolding n10 .
    from c have c': "fle (Fin 5) (fmul v (lit 3.6))" unfolding nv [OF b] .
    from a' b c' show "fle T (Fin 10) \<and> (\<exists>v. wind = Some v \<and> fle (Fin 5) (fmul v (lit 3.6)))"
      by blast
  qed
  have p2: "wind = None \<or> flt (Fin 10) T \<or> (\<exists>v. wind = Some v \<and> flt (fmul v (lit 3.6)) (Fin 5)) \<longrightarrow>
        compute_windchill lm (Some T) wind = Inr None"
    using compute_windchill_none by blast
  have p3: "\<forall>v. wind = Some v \<and> fle T (Fin 10) \<and> fle (Fin 5) (fmul v (lit 3.6)) \<longrightarrow>
        compute_windchill lm (Some T) wind =
          bindE (float_pow lm (fmul v (lit 3.6)) (rd 0.16)) (\<lambda>p.
            Inr (Some (fadd (fsub (fadd (lit 13.12) (fmul (lit 0.6215) T)) (fmul (lit 11.37) p))
                            (fmul (fmul (lit 0.3965) T) p))))"
  proof (intro allI impI)
    fix v assume h: "wind = Some v \<and> fle T (Fin 10) \<and> fle (Fin 5) (fmul v (lit 3.6))"
    then have a: "\<not> flt (Fin 10) T" unfolding n10 by simp
    from h have c: "\<not> flt (fmul v (lit 3.6)) (Fin 5)" using nv [of v] by simp
    from h a c show "compute_windchill lm (Some T) wind =
          bindE (float_pow lm (fmul v (lit 3.6)) (rd 0.16)) (\<lambda>p.
            Inr (Some (fadd (fsub (fadd (lit 13.12) (fmul (lit 0.6215) T)) (fmul (lit 11.37) p))
                            (fmul (fmul (lit 0.3965) T) p))))"
      by (intro compute_windchill_pow) simp_all
  qed
  have p4: "\<forall>e. compute_windchill lm (Some T) wind = Inl e \<longrightarrow>
        build_heat_cold_hazard lm (Some T) wind cloud rh = Inl e"
    using build_heat_cold_hazard_raises by blast
  have p5: "\<forall>wc ec. compute_windchill lm (Some T) wind = Inr wc
          \<and> ec = (case wc of Some x \<Rightarrow> x | None \<Rightarrow> T) \<longrightarrow>
        (fle ec (Fin 5) \<longrightarrow>
           (\<exists>h. build_heat_cold_hazard lm (Some T) wind cloud rh = Inr (Some h)
                \<and> h_type h = ''cold'' \<and> level h = ''warning''))
        \<and> (\<not> fle ec (Fin 5) \<and> fle ec (Fin 10) \<longrightarrow>
           (\<exists>h. build_heat_cold_hazard lm (Some T) wind cloud rh = Inr (Some h)
                \<and> h_type h = ''cold'' \<and> level h = ''watch''))
        \<and> (\<not> fle ec (Fin 10) \<and> fle ec (Fin 15) \<longrightarrow>
           (\<exists>h. build_heat_cold_hazard lm (Some T) wind cloud rh = Inr (Some h)
                \<and> h_type h = ''cold'' \<and> level h = ''info''))
        \<and> (\<not> fle ec (Fin 15) \<and> flt T (Fin 32) \<longrightarrow>
           build_heat_cold_hazard lm (Some T) wind cloud rh = Inr None)
        \<and> (\<not> fle ec (Fin 15) \<and> fle (Fin 32) T \<longrightarrow>
           (\<forall>e. compute_heat_index lm (Some T) rh = Inl e \<longrightarrow>
              build_heat_cold_hazard lm (Some T) wind cloud rh = Inl e)
           \<and> (\<forall>hi eh. compute_heat_index lm (Some T) rh = Inr hi
                 \<and> eh = (case hi of Some x \<Rightarrow> x | None \<Rightarrow> T) \<longrightarrow>
               (flt eh (Fin 32) \<longrightarrow>
                  build_heat_cold_hazard lm (Some T) wind cloud rh = Inr None)
               \<and> (\<not> flt eh (Fin 32) \<longrightarrow>
                  (\<exists>h. build_heat_cold_hazard lm (Some T) wind cloud rh = Inr (Some h)
                       \<and> h_type h = ''heat''
                       \<and> level h = (if flt eh (Fin 41) then ''info''
                                    else if flt eh (Fin 54) then ''watch'' else ''warning'')))))
        \<and> (\<forall>h. build_heat_cold_hazard lm (Some T) wind cloud rh = Inr (Some h) \<longrightarrow>
             (h_type h = ''cold'' \<and> fle ec (Fin 15))
             \<or> (h_type h = ''heat'' \<and> \<not> fle ec (Fin 15) \<and> fle (Fin 32) T))"
  proof (intro allI impI, elim conjE)
    fix wc ec
    assume w: "compute_windchill lm (Some T) wind = Inr wc"
      and e: "ec = (case wc of Some x \<Rightarrow> x | None \<Rightarrow> T)"
    note t = build_heat_cold_hazard_tiers [OF w e, of cloud rh]
    have le: "fle ec (Fin 5) \<Longrightarrow> fle ec (Fin 10)" "fle ec (Fin 10) \<Longrightarrow> fle ec (Fin 15)"
      by (cases ec; simp)+
    have q1: "fle ec (Fin 5) \<longrightarrow>
           (\<exists>h. build_heat_cold_hazard lm (Some T) wind cloud rh = Inr (Some h)
                \<and> h_type h = ''cold'' \<and> level h = ''warning'')"
      unfolding t using le by simp
    have q2: "\<not> fle ec (Fin 5) \<and> fle ec (Fin 10) \<longrightarrow>
           (\<exists>h. build_heat_cold_hazard lm (Some T) wind cloud rh = Inr (Some h)
                \<and> h_type h = ''cold'' \<and> level h = ''watch'')"
      unfolding t using le by simp
    have q3: "\<not> fle ec (Fin 10) \<and> fle ec (Fin 15) \<longrightarrow>
           (\<exists>h. build_heat_cold_hazard lm (Some T) wind cloud rh = Inr (Some h)
                \<and> h_type h = ''cold'' \<and> level h = ''info'')"
      unfolding t using le by auto
    have q4: "\<not> fle ec (Fin 15) \<and> flt T (Fin 32) \<longrightarrow>
           build_heat_cold_hazard lm (Some T) wind cloud rh = Inr None"
      unfolding t by simp
    have q5: "\<not> fle ec (Fin 15) \<and> fle (Fin 32) T \<longrightarrow>
           (\<forall>e. compute_heat_index lm (Some T) rh = Inl e \<longrightarrow>
              build_heat_cold_hazard lm (Some T) wind cloud rh = Inl e)
           \<and> (\<forall>hi eh. compute_heat_index lm (Some T) rh = Inr hi
                 \<and> eh = (case hi of Some x \<Rightarrow> x | None \<Rightarrow> T) \<longrightarrow>
               (flt eh (Fin 32) \<longrightarrow>
                  build_heat_cold_hazard lm (Some T) wind cloud rh = Inr None)
               \<and> (\<not> flt eh (Fin 32) \<longrightarrow>
                  (\<exists>h. build_heat_cold_hazard lm (Some T) wind cloud rh = Inr (Some h)
                       \<and> h_type h = ''heat''
                       \<and> level h = (if flt eh (Fin 41) then ''info''
                                    else if flt eh (Fin 54) then ''watch'' else ''warning''))))"
      unfolding t n32 [symmetric] by (simp add: Let_def)
    have q6: "\<forall>h. build_heat_cold_hazard lm (Some T) wind cloud rh = Inr (Some h) \<longrightarrow>
             (h_type h = ''cold'' \<and> fle ec (Fin 15))
             \<or> (h_type h = ''heat'' \<and> \<not> fle ec (Fin 15) \<and> fle (Fin 32) T)"
      unfolding t n32 [symmetric]
      by (cases "compute_heat_index lm (Some T) rh") (auto simp: Let_def split: if_splits)
    from q1 q2 q3 q4 q5 q6
    show "(fle ec (Fin 5) \<longrightarrow>
           (\<exists>h. build_heat_cold_hazard lm (Some T) wind cloud rh = Inr (Some h)
                \<and> h_type h = ''cold'' \<and> level h = ''warning''))
        \<and> (\<not> fle ec (Fin 5) \<and> fle ec (Fin 10) \<longrightarrow>
           (\<exists>h. build_heat_cold_hazard lm (Some T) wind cloud rh = Inr (Some h)
                \<and> h_type h = ''cold'' \<and> level h = ''watch''))
        \<and> (\<not> fle ec (Fin 10) \<and> fle ec (Fin 15) \<longrightarrow>
           (\<exists>h. build_heat_cold_hazard lm (Some T) wind cloud rh = Inr (Some h)
                \<and> h_type h = ''cold'' \<and> level h = ''info''))
        \<and> (\<not> fle ec (Fin 15) \<and> flt T (Fin 32) \<longrightarrow>
           build_heat_cold_hazard lm (Some T) wind cloud rh = Inr None)
        \<and> (\<not> fle ec (Fin 15) \<and> fle (Fin 32) T \<longrightarrow>
           (\<forall>e. compute_heat_index lm (Some T) rh = Inl e \<longrightarrow>
              build_heat_cold_hazard lm (Some T) wind cloud rh = Inl e)
           \<and> (\<forall>hi eh. compute_heat_index lm (Some T) rh = Inr hi
                 \<and> eh = (case hi of Some x \<Rightarrow> x | None \<Rightarrow> T) \<longrightarrow>
               (flt eh (Fin 32) \<longrightarrow>
                  build_heat_cold_hazard lm (Some T) wind cloud rh = Inr None)
               \<and> (\<not> flt eh (Fin 32) \<longrightarrow>
                  (\<exists>h. build_heat_cold_hazard lm (Some T) wind cloud rh = Inr (Some h)
                       \<and> h_type h = ''heat''
                       \<and> level h = (if flt eh (Fin 41) then ''info''
                                    else if flt eh (Fin 54) then ''watch'' else ''warning'')))))
        \<and> (\<forall>h. build_heat_cold_hazard lm (Some T) wind cloud rh = Inr (Some h) \<longrightarrow>
             (h_type h = ''cold'' \<and> fle ec (Fin 15))
             \<or> (h_type h = ''heat'' \<and> \<not> fle ec (Fin 15) \<and> fle (Fin 32) T))"
      by (intro conjI)
  qed
  have p6: "rh = None \<or> flt T (Fin 27) \<or> (\<exists>r. rh = Some r \<and> flt r (Fin 40)) \<longrightarrow>
        compute_heat_index lm (Some T) rh = Inr (Some T)"
    using compute_heat_index_fallback by blast
  have p7: "\<forall>hi. compute_heat_index lm (Some T) rh = Inr (Some hi) \<and> hi \<noteq> T \<longrightarrow>
        fle (Fin 27) T \<and> (\<exists>r. rh = Some r \<and> fle (Fin 40) r)"
  proof (intro allI impI, elim conjE)
    fix hi assume a: "compute_heat_index lm (Some T) rh = Inr (Some hi)" and b: "hi \<noteq> T"
    have c: "\<not> (rh = None \<or> flt T (Fin 27) \<or> (\<exists>r. rh = Some r \<and> flt r (Fin 40)))"
    proof
      assume "rh = None \<or> flt T (Fin 27) \<or> (\<exists>r. rh = Some r \<and> flt r (Fin 40))"
      with p6 a b show False by simp
    qed
    then obtain r where r: "rh = Some r" by (cases rh) auto
    from c r have "\<not> flt r (Fin 40)" by simp
    then have "fle (Fin 40) r" unfolding nr [OF r] .
    moreover from c have "fle (Fin 27) T" unfolding n27 [symmetric] by simp
    ultimately show "fle (Fin 27) T \<and> (\<exists>r. rh = Some r \<and> fle (Fin 40) r)" using r by blast
  qed
  have hot: "\<And>t. T = Fin t \<Longrightarrow> 32 \<le> t \<Longrightarrow> compute_windchill lm (Some T) wind = Inr None"
    by (rule compute_windchill_none) simp
  have pa: "\<forall>t. T = Fin t \<and> 32 \<le> t \<and> (rh = None \<or> (\<exists>r. rh = Some r \<and> flt r (Fin 40))) \<longrightarrow>
        (\<exists>h. build_heat_cold_hazard lm (Some T) wind cloud rh = Inr (Some h)
             \<and> h_type h = ''heat''
             \<and> level h = (if t < 41 then ''info'' else if t < 54 then ''watch'' else ''warning''))"
  proof (intro allI impI, elim conjE)
    fix t assume a: "T = Fin t" "32 \<le> t" "rh = None \<or> (\<exists>r. rh = Some r \<and> flt r (Fin 40))"
    from a(3) have h: "compute_heat_index lm (Some T) rh = Inr (Some T)"
      by (intro compute_heat_index_fallback) blast
    show "\<exists>h. build_heat_cold_hazard lm (Some T) wind cloud rh = Inr (Some h)
             \<and> h_type h = ''heat''
             \<and> level h = (if t < 41 then ''info'' else if t < 54 then ''watch'' else ''warning'')"
      unfolding build_heat_cold_hazard_tiers [OF hot [OF a(1,2)] refl] h
      using a(1,2) by (simp add: Let_def)
  qed
  have pb: "\<forall>t rv t2 r2. T = Fin t \<and> 32 \<le> t \<and> t \<le> 2 ^ 500 \<and> rh = Some (Fin rv) \<and> 40 \<le> rv
          \<and> c_pow lm t 2 = Fin t2 \<and> \<bar>t2 - t * t\<bar> \<le> t * t / 2 ^ 40
          \<and> c_pow lm (min rv 100) 2 = Fin r2
          \<and> \<bar>r2 - min rv 100 * min rv 100\<bar> \<le> min rv 100 * min rv 100 / 2 ^ 40 \<longrightarrow>
        (\<exists>hi h. compute_heat_index lm (Some T) rh = Inr (Some (Fin hi)) \<and> 32 \<le> hi
             \<and> build_heat_cold_hazard lm (Some T) wind cloud rh = Inr (Some h)
             \<and> h_type h = ''heat''
             \<and> level h = (if hi < 41 then ''info'' else if hi < 54 then ''watch''
                          else ''warning''))"
  proof (intro allI impI, elim conjE)
    fix t rv t2 r2
    assume a: "T = Fin t" "32 \<le> t" "t \<le> 2 ^ 500" "rh = Some (Fin rv)" "40 \<le> rv"
      "c_pow lm t 2 = Fin t2" "\<bar>t2 - t * t\<bar> \<le> t * t / 2 ^ 40"
      "c_pow lm (min rv 100) 2 = Fin r2"
      "\<bar>r2 - min rv 100 * min rv 100\<bar> \<le> min rv 100 * min rv 100 / 2 ^ 40"
    from heat_index_ge_32 [OF a(2,3,5,6,7,8,9)] obtain hi where
      h: "compute_heat_index lm (Some T) rh = Inr (Some (Fin hi))" and ge: "32 \<le> hi"
      unfolding a(1) a(4) by blast
    have "\<exists>h. build_heat_cold_hazard lm (Some T) wind cloud rh = Inr (Some h)
             \<and> h_type h = ''heat''
             \<and> level h = (if hi < 41 then ''info'' else if hi < 54 then ''watch''
                          else ''warning'')"
      unfolding build_heat_cold_hazard_tiers [OF hot [OF a(1,2)] refl] h
      using a(1,2) ge by (simp add: Let_def)
    with h ge show "\<exists>hi h. compute_heat_index lm (Some T) rh = Inr (Some (Fin hi)) \<and> 32 \<le> hi
             \<and> build_heat_cold_hazard lm (Some T) wind cloud rh = Inr (Some h)
             \<and> h_type h = ''heat''
             \<and> level h = (if hi < 41 then ''info'' else if hi < 54 then ''watch''
                          else ''warning'')"
      by blast
  qed
  have p8: "c_pow lm 38 2 = Fin 1444 \<and> c_pow lm 70 2 = Fin 4900 \<longrightarrow>
        compute_heat_index lm (Some (Fin 38)) (Some (Fin 70))
          = Inr (Some (Fin (4399538089508315 / 70368744177664)))
        \<and> flt (Fin 32) (Fin (4399538089508315 / 70368744177664))
        \<and> (\<exists>h. build_heat_cold_hazard lm (Some (Fin 38)) wind cloud (Some (Fin 70)) = Inr (Some h)
               \<and> h_type h = ''heat'' \<and> level h = ''warning'')"
  proof
    assume a: "c_pow lm 38 2 = Fin 1444 \<and> c_pow lm 70 2 = Fin 4900"
    then have h: "compute_heat_index lm (Some (Fin 38)) (Some (Fin 70))
          = Inr (Some (Fin (4399538089508315 / 70368744177664)))"
      by (intro heat_index_38_70) simp_all
    have g: "\<exists>h. build_heat_cold_hazard lm (Some (Fin 38)) wind cloud (Some (Fin 70)) = Inr (Some h)
               \<and> h_type h = ''heat'' \<and> level h = ''warning''"
      unfolding build_heat_cold_hazard_tiers [OF w38 refl] h by simp
    from h g show "compute_heat_index lm (Some (Fin 38)) (Some (Fin 70))
          = Inr (Some (Fin (4399538089508315 / 70368744177664)))
        \<and> flt (Fin 32) (Fin (4399538089508315 / 70368744177664))
        \<and> (\<exists>h. build_heat_cold_hazard lm (Some (Fin 38)) wind cloud (Some (Fin 70)) = Inr (Some h)
               \<and> h_type h = ''heat'' \<and> level h = ''warning'')"
      by simp
  qed
  have p9: "\<forall>r. flt r (Fin 40) \<longrightarrow>
        compute_heat_index lm (Some (Fin 38)) (Some r) = Inr (Some (Fin 38))
        \<and> (\<exists>h. build_heat_cold_hazard lm (Some (Fin 38)) wind cloud (Some r) = Inr (Some h)
               \<and> h_type h = ''heat'' \<and> level h = ''info'')"
  proof (intro allI impI)
    fix r assume a: "flt r (Fin 40)"
    have h: "compute_heat_index lm (Some (Fin 38)) (Some r) = Inr (Some (Fin 38))"
      by (rule compute_heat_index_fallback) (use a in simp)
    have g: "\<exists>h. build_heat_cold_hazard lm (Some (Fin 38)) wind cloud (Some r) = Inr (Some h)
               \<and> h_type h = ''heat'' \<and> level h = ''info''"
      unfolding build_heat_cold_hazard_tiers [OF w38 refl] h by simp
    from h g show "compute_heat_index lm (Some (Fin 38)) (Some r) = Inr (Some (Fin 38))
        \<and> (\<exists>h. build_heat_cold_hazard lm (Some (Fin 38)) wind cloud (Some r) = Inr (Some h)
               \<and> h_type h = ''heat'' \<and> level h = ''info'')"
      by simp
  qed
  from p0 p1 p2 p3 p4 p5 p6 p7 pa pb p8 p9 show ?thesis by (intro conjI)
qed

theorem build_heat_cold_hazard_spec_witness:
  "Fin 38 \<noteq> NaN \<and> c_pow libm_cr 38 2 = Fin 1444 \<and> c_pow libm_cr 70 2 = Fin 4900
   \<and> compute_heat_index libm_cr (Some (Fin 38)) (Some (Fin 70))
       = Inr (Some (Fin (4399538089508315 / 70368744177664)))
   \<and> (\<exists>h. build_heat_cold_hazard libm_cr (Some (Fin 38)) None None (Some (Fin 70)) = Inr (Some h)
          \<and> h_type h = ''heat'' \<and> level h = ''warning'')
   \<and> (\<exists>h. build_heat_cold_hazard libm_cr (Some (Fin 38)) None None (Some (Fin 30)) = Inr (Some h)
          \<and> h_type h = ''heat'' \<and> level h = ''info'')
   \<and> compute_windchill libm_cr (Some (Fin 3)) None = Inr None
   \<and> (\<exists>h. build_heat_cold_hazard libm_cr (Some (Fin 3)) None None None = Inr (Some h)
          \<and> h_type h = ''cold'' \<and> level h = ''warning'')"
proof -
  have n: "Fin 38 \<noteq> NaN" "Fin 3 \<noteq> NaN" "(None :: fval option) \<noteq> Some NaN"
    "Some (Fin 70) \<noteq> Some NaN" "Some (Fin 30) \<noteq> Some NaN"
    by simp_all
  note a = build_heat_cold_hazard_spec [OF n(1) n(3) n(4), of libm_cr None]
  note b = build_heat_cold_hazard_spec [OF n(1) n(3) n(5), of libm_cr None]
  note c = build_heat_cold_hazard_spec [OF n(2) n(3) n(3), of libm_cr None]
  from a have "c_pow libm_cr 38 2 = Fin 1444 \<and> c_pow libm_cr 70 2 = Fin 4900 \<longrightarrow>
        compute_heat_index libm_cr (Some (Fin 38)) (Some (Fin 70))
          = Inr (Some (Fin (4399538089508315 / 70368744177664)))
        \<and> flt (Fin 32) (Fin (4399538089508315 / 70368744177664))
        \<and> (\<exists>h. build_heat_cold_hazard libm_cr (Some (Fin 38)) None None (Some (Fin 70))
                 = Inr (Some h)
               \<and> h_type h = ''heat'' \<and> level h = ''warning'')"
    by (elim conjE)
  with libm_cr_squares have w1: "compute_heat_index libm_cr (Some (Fin 38)) (Some (Fin 70))
       = Inr (Some (Fin (4399538089508315 / 70368744177664)))"
    and w2: "\<exists>h. build_heat_cold_hazard libm_cr (Some (Fin 38)) None None (Some (Fin 70))
          = Inr (Some h) \<and> h_type h = ''heat'' \<and> level h = ''warning''"
    by simp_all
  from b have "\<forall>r. flt r (Fin 40) \<longrightarrow>
        compute_heat_index libm_cr (Some (Fin 38)) (Some r) = Inr (Some (Fin 38))
        \<and> (\<exists>h. build_heat_cold_hazard libm_cr (Some (Fin 38)) None None (Some r) = Inr (Some h)
               \<and> h_type h = ''heat'' \<and> level h = ''info'')"
    by (elim conjE)
  then have w3: "\<exists>h. build_heat_cold_hazard libm_cr (Some (Fin 38)) None None (Some (Fin 30))
          = Inr (Some h) \<and> h_type h = ''heat'' \<and> level h = ''info''"
    by simp
  note c2 = c [THEN conjunct2, THEN conjunct2, THEN conjunct1]
  then have w4: "compute_windchill libm_cr (Some (Fin 3)) None = Inr None" by simp
  have e3: "compute_windchill libm_cr (Some (Fin 3)) None = Inr None
       \<and> Fin 3 = (case (None :: fval option) of Some x \<Rightarrow> x | None \<Rightarrow> Fin 3)"
    using w4 by simp
  note c5 = c [THEN conjunct2, THEN conjunct2, THEN conjunct2, THEN conjunct2,
      THEN conjunct2, THEN conjunct1, rule_format, OF e3]
  from c5 have "fle (Fin 3) (Fin 5) \<longrightarrow>
           (\<exists>h. build_heat_cold_hazard libm_cr (Some (Fin 3)) None None None = Inr (Some h)
                \<and> h_type h = ''cold'' \<and> level h = ''warning'')"
    by (elim conjE)
  then have w5: "\<exists>h. build_heat_cold_hazard libm_cr (Some (Fin 3)) None None None
          = Inr (Some h) \<and> h_type h = ''cold'' \<and> level h = ''warning''"
    by simp
  from n(1) libm_cr_squares(1,2) w1 w2 w3 w4 w5 show ?thesis by (intro conjI)
qed

end
